(* ===== verification/Prelude.thy ===== *)
theory Prelude
  imports Main "HOL-Library.AList"
begin

text \<open>
  Shared vocabulary of the development. The controller of
  \<^verbatim>\<open>src/packages/lab-controller/lab-controller.py\<close> keeps all of its data in Python
  values that come from or go to JSON files: the lab definitions, the per-student
  session dictionary and the verification payload. This theory fixes

  \<^item> \<open>json\<close>, the Python values that \<^verbatim>\<open>json.load\<close> produces (floats are not
    modelled: every number is an \<open>int\<close>);
  \<^item> \<open>pyerr\<close>, the exceptions the modelled code can raise, so that every uncaught
    exception is the \<open>Inl\<close> branch of a result \<open>pyerr + 'a\<close>;
  \<^item> the Python semantics the code relies on: truthiness, \<^verbatim>\<open>len\<close>, indexing with
    negative indices, \<^verbatim>\<open>>=\<close> between a JSON value and an integer, \<^verbatim>\<open>+=\<close>, and
    dictionaries with insertion order (association lists updated by \<open>AList.update\<close>,
    which replaces a present key in place and appends a new one, as CPython does);
  \<^item> a decimal printer for the messages the code formats.
\<close>

named_theorems model_simps "evaluation rules of the model's Python helpers"

section \<open>Python values read from JSON\<close>

datatype json =
    JNull
  | JBool bool
  | JInt int
  | JStr string
  | JArr "json list"
  | JObj "(string \<times> json) list"

type_synonym pydict = "(string \<times> json) list"

datatype pyerr =
    KeyError string
  | TypeError string
  | ValueError string
  | AttributeError string
  | OverflowError string
  | IndexError
  | JSONDecodeError string
  | MalformedSession string

abbreviation py_ok :: "'a \<Rightarrow> pyerr + 'a" where
  "py_ok x \<equiv> Inr x"

abbreviation py_raise :: "pyerr \<Rightarrow> pyerr + 'a" where
  "py_raise e \<equiv> Inl e"

text \<open>Sequencing of statements that may raise: the first exception propagates.\<close>

definition py_bind :: "pyerr + 'a \<Rightarrow> ('a \<Rightarrow> pyerr + 'b) \<Rightarrow> pyerr + 'b" where
  "py_bind x f = (case x of Inl e \<Rightarrow> Inl e | Inr v \<Rightarrow> f v)"

text \<open>A single quote, as Python prints it around names in messages.\<close>

abbreviation sq :: string where
  "sq \<equiv> [CHR 0x27]"

abbreviation quoted :: "string \<Rightarrow> string" where
  "quoted s \<equiv> sq @ s @ sq"

text \<open>\<^verbatim>\<open>str(e)\<close> of an exception.\<close>

fun pyerr_message :: "pyerr \<Rightarrow> string" where
  "pyerr_message (KeyError k) = [CHR 0x27] @ k @ [CHR 0x27]"
| "pyerr_message (TypeError m) = m"
| "pyerr_message (ValueError m) = m"
| "pyerr_message (AttributeError m) = m"
| "pyerr_message (OverflowError m) = m"
| "pyerr_message IndexError = ''list index out of range''"
| "pyerr_message (JSONDecodeError m) = m"
| "pyerr_message (MalformedSession sid) = ''malformed session record for '' @ sid"

section \<open>Decimal printing\<close>

definition digit_char :: "nat \<Rightarrow> char" where
  "digit_char d = ''0123456789'' ! d"

fun nat_to_string :: "nat \<Rightarrow> string" where
  "nat_to_string n =
     (if n < 10 then [digit_char n] else nat_to_string (n div 10) @ [digit_char (n mod 10)])"

declare nat_to_string.simps [simp del]

definition int_to_string :: "int \<Rightarrow> string" where
  "int_to_string i = (if i < 0 then CHR ''-'' # nat_to_string (nat (- i)) else nat_to_string (nat i))"

text \<open>Reading decimal digits back, as \<^verbatim>\<open>int()\<close> and the JSON scanner do.\<close>

definition is_digit :: "char \<Rightarrow> bool" where
  "is_digit c = (c \<in> set ''0123456789'')"

definition digit_val :: "char \<Rightarrow> nat" where
  "digit_val c = length (takeWhile (\<lambda>d. d \<noteq> c) ''0123456789'')"

definition digits_value :: "string \<Rightarrow> nat" where
  "digits_value s = foldl (\<lambda>n c. 10 * n + digit_val c) 0 s"

section \<open>Python semantics of values\<close>

fun py_type_name :: "json \<Rightarrow> string" where
  "py_type_name JNull = ''NoneType''"
| "py_type_name (JBool _) = ''bool''"
| "py_type_name (JInt _) = ''int''"
| "py_type_name (JStr _) = ''str''"
| "py_type_name (JArr _) = ''list''"
| "py_type_name (JObj _) = ''dict''"

text \<open>\<^verbatim>\<open>bool(v)\<close>: empty containers, zero, \<^verbatim>\<open>False\<close> and \<^verbatim>\<open>None\<close> are false.\<close>

fun py_truthy :: "json \<Rightarrow> bool" where
  "py_truthy JNull = False"
| "py_truthy (JBool b) = b"
| "py_truthy (JInt n) = (n \<noteq> 0)"
| "py_truthy (JStr s) = (s \<noteq> [])"
| "py_truthy (JArr xs) = (xs \<noteq> [])"
| "py_truthy (JObj kvs) = (kvs \<noteq> [])"

text \<open>\<^verbatim>\<open>for x in v\<close> succeeds on strings, lists and dictionaries only.\<close>

fun py_iterable :: "json \<Rightarrow> bool" where
  "py_iterable (JStr _) = True"
| "py_iterable (JArr _) = True"
| "py_iterable (JObj _) = True"
| "py_iterable _ = False"

definition py_iter_check :: "json \<Rightarrow> pyerr + unit" where
  "py_iter_check v =
     (if py_iterable v then Inr ()
      else Inl (TypeError (quoted (py_type_name v) @ '' object is not iterable'')))"

fun py_len :: "json \<Rightarrow> pyerr + int" where
  "py_len (JStr s) = Inr (int (length s))"
| "py_len (JArr xs) = Inr (int (length xs))"
| "py_len (JObj kvs) = Inr (int (length kvs))"
| "py_len v = Inl (TypeError (''object of type '' @ quoted (py_type_name v) @ '' has no len()''))"

text \<open>\<^verbatim>\<open>xs[i]\<close> on a list: a negative index counts from the end, out of range raises.\<close>

definition py_list_index :: "'a list \<Rightarrow> int \<Rightarrow> pyerr + 'a" where
  "py_list_index xs i =
     (if i < int (length xs) \<and> - int (length xs) \<le> i
      then Inr (xs ! nat (i mod int (length xs)))
      else Inl IndexError)"

text \<open>\<^verbatim>\<open>v[i]\<close> for an integer index on any JSON value.\<close>

fun py_subscript_int :: "json \<Rightarrow> int \<Rightarrow> pyerr + json" where
  "py_subscript_int (JArr xs) i = py_list_index xs i"
| "py_subscript_int (JStr s) i = map_sum id (\<lambda>c. JStr [c]) (py_list_index s i)"
| "py_subscript_int (JObj _) i = Inl (KeyError (int_to_string i))"
| "py_subscript_int v i =
     Inl (TypeError (quoted (py_type_name v) @ '' object is not subscriptable''))"

text \<open>The numeric reading of a value in arithmetic: \<^verbatim>\<open>bool\<close> is a subclass of \<^verbatim>\<open>int\<close>.\<close>

fun py_num :: "json \<Rightarrow> int option" where
  "py_num (JInt n) = Some n"
| "py_num (JBool b) = Some (if b then 1 else 0)"
| "py_num _ = None"

text \<open>The left operand of \<^verbatim>\<open>v >= k\<close> for an integer \<open>k\<close>.\<close>

definition py_ge_operand :: "json \<Rightarrow> pyerr + int" where
  "py_ge_operand v =
     (case py_num v of
        Some n \<Rightarrow> Inr n
      | None \<Rightarrow> Inl (TypeError (quoted ''>='' @ '' not supported between instances of '' @
                               quoted (py_type_name v) @ '' and '' @ quoted ''int'')))"

definition py_add_int :: "json \<Rightarrow> int \<Rightarrow> pyerr + json" where
  "py_add_int v k =
     (case py_num v of
        Some n \<Rightarrow> Inr (JInt (n + k))
      | None \<Rightarrow> Inl (TypeError (''unsupported operand type(s) for +: '' @
                               quoted (py_type_name v) @ '' and '' @ quoted ''int'')))"

section \<open>Dictionaries with insertion order\<close>

abbreviation dict_get :: "pydict \<Rightarrow> string \<Rightarrow> json option" where
  "dict_get d k \<equiv> map_of d k"

text \<open>\<^verbatim>\<open>d[k] = v\<close>.\<close>

abbreviation dict_set :: "string \<Rightarrow> json \<Rightarrow> pydict \<Rightarrow> pydict" where
  "dict_set k v d \<equiv> AList.update k v d"

text \<open>\<^verbatim>\<open>d.get(k, default)\<close>.\<close>

definition dict_get_default :: "pydict \<Rightarrow> string \<Rightarrow> json \<Rightarrow> json" where
  "dict_get_default d k dflt = (case map_of d k of Some v \<Rightarrow> v | None \<Rightarrow> dflt)"

text \<open>\<^verbatim>\<open>d[k]\<close>: a missing key raises \<^verbatim>\<open>KeyError\<close>.\<close>

definition dict_index :: "pydict \<Rightarrow> string \<Rightarrow> pyerr + json" where
  "dict_index d k = (case map_of d k of Some v \<Rightarrow> Inr v | None \<Rightarrow> Inl (KeyError k))"

text \<open>\<^verbatim>\<open>v[k]\<close> for a string key on any JSON value.\<close>

fun py_getitem_str :: "json \<Rightarrow> string \<Rightarrow> pyerr + json" where
  "py_getitem_str (JObj d) k = dict_index d k"
| "py_getitem_str (JArr _) k = Inl (TypeError ''list indices must be integers or slices, not str'')"
| "py_getitem_str (JStr _) k = Inl (TypeError (''string indices must be integers, not '' @ quoted ''str''))"
| "py_getitem_str v k = Inl (TypeError (quoted (py_type_name v) @ '' object is not subscriptable''))"

text \<open>\<^verbatim>\<open>d[k].append(x)\<close>: the value must be a list.\<close>

definition dict_append :: "pydict \<Rightarrow> string \<Rightarrow> json \<Rightarrow> pyerr + pydict" where
  "dict_append d k x =
     (case map_of d k of
        None \<Rightarrow> Inl (KeyError k)
      | Some (JArr xs) \<Rightarrow> Inr (dict_set k (JArr (xs @ [x])) d)
      | Some v \<Rightarrow> Inl (AttributeError (quoted (py_type_name v) @
                                        '' object has no attribute '' @ quoted ''append'')))"

section \<open>Strings\<close>

fun starts_with :: "string \<Rightarrow> string \<Rightarrow> bool" where
  "starts_with [] _ = True"
| "starts_with (c # cs) [] = False"
| "starts_with (c # cs) (d # ds) = (c = d \<and> starts_with cs ds)"

text \<open>\<^verbatim>\<open>needle in s\<close> for strings: a contiguous occurrence.\<close>

fun str_contains :: "string \<Rightarrow> string \<Rightarrow> bool" where
  "str_contains s [] = (s = [])"
| "str_contains s (c # cs) = (starts_with s (c # cs) \<or> str_contains s cs)"

text \<open>\<^verbatim>\<open>x in v\<close> for a string \<open>x\<close> and a container \<open>v\<close>.\<close>

fun py_contains_str :: "json \<Rightarrow> string \<Rightarrow> pyerr + bool" where
  "py_contains_str (JArr xs) x = Inr (JStr x \<in> set xs)"
| "py_contains_str (JObj d) x = Inr (x \<in> set (map fst d))"
| "py_contains_str (JStr s) x = Inr (str_contains x s)"
| "py_contains_str v x =
     Inl (TypeError (''argument of type '' @ quoted (py_type_name v) @ '' is not iterable''))"

text \<open>\<^verbatim>\<open>v.get(k, default)\<close> on a value loaded from JSON: only a dict has \<^verbatim>\<open>get\<close>.\<close>

fun json_get :: "json \<Rightarrow> string \<Rightarrow> json \<Rightarrow> pyerr + json" where
  "json_get (JObj d) k dflt = Inr (dict_get_default d k dflt)"
| "json_get v k dflt =
     Inl (AttributeError (quoted (py_type_name v) @ '' object has no attribute '' @ quoted ''get''))"

text \<open>\<^verbatim>\<open>repr\<close> and \<^verbatim>\<open>str\<close> of a JSON value (the escapes \<^verbatim>\<open>repr\<close> inserts into strings
  holding quotes, backslashes or control characters are not modelled).\<close>

fun py_repr :: "json \<Rightarrow> string"
and py_repr_list :: "json list \<Rightarrow> string"
and py_repr_dict :: "(string \<times> json) list \<Rightarrow> string" where
  "py_repr JNull = ''None''"
| "py_repr (JBool b) = (if b then ''True'' else ''False'')"
| "py_repr (JInt n) = int_to_string n"
| "py_repr (JStr s) = quoted s"
| "py_repr (JArr xs) = ''['' @ py_repr_list xs @ '']''"
| "py_repr (JObj d) = ''{'' @ py_repr_dict d @ ''}''"
| "py_repr_list [] = []"
| "py_repr_list [x] = py_repr x"
| "py_repr_list (x # y # ys) = py_repr x @ '', '' @ py_repr_list (y # ys)"
| "py_repr_dict [] = []"
| "py_repr_dict [(k, v)] = quoted k @ '': '' @ py_repr v"
| "py_repr_dict ((k, v) # p # ps) = quoted k @ '': '' @ py_repr v @ '', '' @ py_repr_dict (p # ps)"

fun py_str :: "json \<Rightarrow> string" where
  "py_str (JStr s) = s"
| "py_str v = py_repr v"

section \<open>Sequences of statements\<close>

text \<open>A loop whose body may raise: the results of the iterations, or the first exception.\<close>

fun py_mapM :: "('a \<Rightarrow> pyerr + 'b) \<Rightarrow> 'a list \<Rightarrow> pyerr + 'b list" where
  "py_mapM f [] = Inr []"
| "py_mapM f (x # xs) = py_bind (f x) (\<lambda>y. py_bind (py_mapM f xs) (\<lambda>ys. Inr (y # ys)))"

text \<open>\<^verbatim>\<open>sep.join(xs)\<close>.\<close>

fun py_join :: "string \<Rightarrow> string list \<Rightarrow> string" where
  "py_join sep [] = []"
| "py_join sep [x] = x"
| "py_join sep (x # y # ys) = x @ sep @ py_join sep (y # ys)"

section \<open>Shared lemmas\<close>

lemma py_bind_simps [simp]:
  "py_bind (Inl e) f = Inl e"
  "py_bind (Inr v) f = f v"
  by (simp_all add: py_bind_def)

lemma py_bind_eq_Inr [simp]:
  "py_bind x f = Inr y \<longleftrightarrow> (\<exists>v. x = Inr v \<and> f v = Inr y)"
  by (cases x) auto

lemma map_sum_Inr_iff [simp]:
  "map_sum f g x = Inr y \<longleftrightarrow> (\<exists>z. x = Inr z \<and> y = g z)"
  by (cases x) auto

lemma map_sum_Inl_iff [simp]:
  "map_sum f g x = Inl e \<longleftrightarrow> (\<exists>z. x = Inl z \<and> e = f z)"
  by (cases x) auto

lemma py_list_index_nonneg [model_simps]:
  "0 \<le> i \<Longrightarrow> i < int (length xs) \<Longrightarrow> py_list_index xs i = Inr (xs ! nat i)"
  by (simp add: py_list_index_def)

lemma py_list_index_neg1 [model_simps]:
  "xs \<noteq> [] \<Longrightarrow> py_list_index xs (-1) = Inr (last xs)"
proof -
  assume ne: "xs \<noteq> []"
  then have "(-1) mod int (length xs) = int (length xs) - 1"
    by (simp add: zmod_minus1)
  moreover have "nat (int (length xs) - 1) = length xs - 1" using ne by simp
  ultimately show ?thesis using ne by (simp add: py_list_index_def last_conv_nth Suc_le_eq)
qed

lemma dict_get_default_set [model_simps]:
  "dict_get_default (dict_set k v d) k' dflt = (if k' = k then v else dict_get_default d k' dflt)"
  by (simp add: dict_get_default_def update_conv')

lemma dict_index_set [model_simps]:
  "dict_index (dict_set k v d) k' = (if k' = k then Inr v else dict_index d k')"
  by (simp add: dict_index_def update_conv')

lemma map_of_dict_set [model_simps]:
  "map_of (dict_set k v d) = (map_of d)(k \<mapsto> v)"
  by (rule update_conv')

lemma update_map_snd [model_simps]:
  "AList.update k (f v) (map (\<lambda>(a, b). (a, f b)) d) = map (\<lambda>(a, b). (a, f b)) (AList.update k v d)"
  by (induction d) auto

lemma list_all_update [model_simps]:
  "P (k, v) \<Longrightarrow> list_all P al \<Longrightarrow> list_all P (AList.update k v al)"
  by (induction al) auto

lemma map_of_foldl_update:
  "map_of (foldl (\<lambda>acc (k, v). AList.update k v acc) d kvs) = map_of d ++ map_of (rev kvs)"
proof (induction kvs arbitrary: d)
  case Nil
  then show ?case by simp
next
  case (Cons kv kvs)
  obtain k v where kv: "kv = (k, v)" by (cases kv)
  have "map_of (rev kvs @ [(k, v)]) = [k \<mapsto> v] ++ map_of (rev kvs)"
    by (simp add: map_of_append)
  with Cons.IH kv show ?case
    by (auto simp: update_conv' map_add_def fun_eq_iff split: option.splits)
qed

lemma py_iter_check_ok [model_simps]:
  "py_iterable v \<Longrightarrow> py_iter_check v = Inr ()"
  by (simp add: py_iter_check_def)

subsection \<open>Decimal digits\<close>

lemma digit_char_props:
  "d < 10 \<Longrightarrow> digit_val (digit_char d) = d \<and> is_digit (digit_char d)"
  by (auto simp: less_Suc_eq numeral_eq_Suc digit_char_def digit_val_def is_digit_def)

lemma nat_to_string_digits: "nat_to_string n \<noteq> [] \<and> list_all is_digit (nat_to_string n)"
proof (induction n rule: nat_to_string.induct)
  case (1 n)
  then show ?case by (subst (1 2) nat_to_string.simps) (simp add: digit_char_props)
qed

lemma digits_value_snoc: "digits_value (xs @ [c]) = 10 * digits_value xs + digit_val c"
  by (simp add: digits_value_def)

text \<open>Printing a number in decimal and reading it back with \<^verbatim>\<open>int()\<close> is the identity.\<close>

lemma digits_value_nat_to_string: "digits_value (nat_to_string n) = n"
proof (induction n rule: nat_to_string.induct)
  case (1 n)
  show ?case
  proof (cases "n < 10")
    case True
    then show ?thesis by (subst nat_to_string.simps) (simp add: digits_value_def digit_char_props)
  next
    case False
    then have "digits_value (nat_to_string n) = 10 * (n div 10) + n mod 10"
      using 1 by (subst nat_to_string.simps) (simp add: digits_value_snoc digit_char_props)
    then show ?thesis by simp
  qed
qed

lemma takeWhile_digits:
  "list_all is_digit xs \<Longrightarrow> \<not> is_digit c \<Longrightarrow>
   takeWhile is_digit (xs @ c # r) = xs \<and> dropWhile is_digit (xs @ c # r) = c # r"
  by (induction xs) auto

end
