(* ===== verification/Session_Store.thy ===== *)
theory Session_Store
  imports Prelude "HOL-Library.Monad_Syntax"
begin

text \<open>
  The student session store: class \<^verbatim>\<open>StudentSession\<close> of \<^verbatim>\<open>lab-controller.py\<close>
  (\<^verbatim>\<open>_load_or_create\<close>, \<^verbatim>\<open>save\<close>, \<^verbatim>\<open>start_lab\<close>, \<^verbatim>\<open>complete_lab\<close>,
  \<^verbatim>\<open>get_progress\<close>) and the deletion of a record by \<^verbatim>\<open>InstructorCLI.cmd_reset\<close>.

  The code keeps the session as the dictionary \<^verbatim>\<open>self.data\<close>. It is modelled twice:
  \<^item> on the dictionary itself (\<open>start_lab_dict\<close>, \<open>complete_lab_dict\<close>), statement by
    statement, with the exceptions each statement raises on a dictionary of another shape;
  \<^item> on the typed record \<open>session\<close> that every dictionary written by the code
    decodes to (\<open>start_lab\<close>, \<open>complete_lab\<close>).
  \<open>session_dict\<close> encodes a record as the dictionary, with the keys in the order the
  code inserts them, and the refinement lemmas show that the dictionary operations on an
  encoded record compute the encoding of the record operation. The files under
  \<^verbatim>\<open>Config.STATE_DIR\<close> are an association list from student identifiers to stored JSON values;
  \<^verbatim>\<open>json.dump\<close> and \<^verbatim>\<open>json.load\<close> are taken to be lossless on the values the code writes.
\<close>

section \<open>The session record and its dictionary\<close>

record session =
  student_id :: string
  created_at :: string
  current_lab :: "string option"
  completed_labs :: "string list"
  attempts :: "(string \<times> int) list"
  score :: int
  lab_start_time :: "string option"

definition json_of_opt :: "string option \<Rightarrow> json" where
  "json_of_opt x = (case x of None \<Rightarrow> JNull | Some s \<Rightarrow> JStr s)"

definition session_dict :: "session \<Rightarrow> pydict" where
  "session_dict s =
     [(''student_id'', JStr (student_id s)),
      (''created_at'', JStr (created_at s)),
      (''current_lab'', json_of_opt (current_lab s)),
      (''completed_labs'', JArr (map JStr (completed_labs s))),
      (''attempts'', JObj (map (\<lambda>(l, n). (l, JInt n)) (attempts s))),
      (''score'', JInt (score s))] @
     (case lab_start_time s of None \<Rightarrow> [] | Some t \<Rightarrow> [(''lab_start_time'', JStr t)])"

definition session_json :: "session \<Rightarrow> json" where
  "session_json s = JObj (session_dict s)"

fun json_string :: "json \<Rightarrow> string option" where
  "json_string (JStr s) = Some s"
| "json_string _ = None"

fun json_int :: "json \<Rightarrow> int option" where
  "json_int (JInt n) = Some n"
| "json_int _ = None"

fun json_opt_string :: "json \<Rightarrow> string option option" where
  "json_opt_string JNull = Some None"
| "json_opt_string (JStr s) = Some (Some s)"
| "json_opt_string _ = None"

fun decode_strings :: "json list \<Rightarrow> string list option" where
  "decode_strings [] = Some []"
| "decode_strings (x # xs) = do { s \<leftarrow> json_string x; ss \<leftarrow> decode_strings xs; Some (s # ss) }"

fun decode_counts :: "pydict \<Rightarrow> (string \<times> int) list option" where
  "decode_counts [] = Some []"
| "decode_counts ((k, v) # kvs) = do { n \<leftarrow> json_int v; r \<leftarrow> decode_counts kvs; Some ((k, n) # r) }"

fun decode_string_list :: "json \<Rightarrow> string list option" where
  "decode_string_list (JArr xs) = decode_strings xs"
| "decode_string_list _ = None"

fun decode_count_dict :: "json \<Rightarrow> (string \<times> int) list option" where
  "decode_count_dict (JObj kvs) = decode_counts kvs"
| "decode_count_dict _ = None"

text \<open>Reading a stored dictionary back as a record; \<^verbatim>\<open>lab_start_time\<close> is absent until
  the first \<^verbatim>\<open>start_lab\<close>.\<close>

definition session_of_dict :: "pydict \<Rightarrow> session option" where
  "session_of_dict d = do {
     sid \<leftarrow> Option.bind (map_of d ''student_id'') json_string;
     created \<leftarrow> Option.bind (map_of d ''created_at'') json_string;
     cur \<leftarrow> Option.bind (map_of d ''current_lab'') json_opt_string;
     done_labs \<leftarrow> Option.bind (map_of d ''completed_labs'') decode_string_list;
     att \<leftarrow> Option.bind (map_of d ''attempts'') decode_count_dict;
     sc \<leftarrow> Option.bind (map_of d ''score'') json_int;
     lst \<leftarrow> (case map_of d ''lab_start_time'' of None \<Rightarrow> Some None
            | Some v \<Rightarrow> map_option Some (json_string v));
     Some \<lparr>student_id = sid, created_at = created, current_lab = cur,
           completed_labs = done_labs, attempts = att, score = sc, lab_start_time = lst\<rparr>
   }"

fun session_of_json :: "json \<Rightarrow> session option" where
  "session_of_json (JObj d) = session_of_dict d"
| "session_of_json _ = None"

section \<open>StudentSession on the dictionary\<close>

text \<open>\<^verbatim>\<open>start_lab\<close>: \<^verbatim>\<open>data["current_lab"] = lab_id\<close>, then
  \<^verbatim>\<open>data["attempts"][lab_id] = data["attempts"].get(lab_id, 0) + 1\<close> (the right side is
  evaluated first), then the start time.\<close>

definition start_lab_dict :: "string \<Rightarrow> string \<Rightarrow> pydict \<Rightarrow> pyerr + pydict" where
  "start_lab_dict lid now d =
     (let d1 = dict_set ''current_lab'' (JStr lid) d in
      case dict_index d1 ''attempts'' of
        Inl e \<Rightarrow> Inl e
      | Inr att \<Rightarrow>
          (case json_get att lid (JInt 0) of
             Inl e \<Rightarrow> Inl e
           | Inr old \<Rightarrow>
               (case py_add_int old 1 of
                  Inl e \<Rightarrow> Inl e
                | Inr new \<Rightarrow>
                    (case att of
                       JObj a \<Rightarrow> Inr (dict_set ''lab_start_time'' (JStr now)
                                       (dict_set ''attempts'' (JObj (dict_set lid new a)) d1))
                     | _ \<Rightarrow> Inl (TypeError ''attempts does not support item assignment'')))))"

text \<open>\<^verbatim>\<open>complete_lab\<close>: append unless present, add the score, clear the active lab.\<close>

definition complete_lab_dict :: "string \<Rightarrow> int \<Rightarrow> pydict \<Rightarrow> pyerr + pydict" where
  "complete_lab_dict lid sc d =
     (case dict_index d ''completed_labs'' of
        Inl e \<Rightarrow> Inl e
      | Inr cl \<Rightarrow>
          (case py_contains_str cl lid of
             Inl e \<Rightarrow> Inl e
           | Inr present \<Rightarrow>
               (case (if present then Inr d else dict_append d ''completed_labs'' (JStr lid)) of
                  Inl e \<Rightarrow> Inl e
                | Inr d1 \<Rightarrow>
                    (case dict_index d1 ''score'' of
                       Inl e \<Rightarrow> Inl e
                     | Inr old \<Rightarrow>
                         (case py_add_int old sc of
                            Inl e \<Rightarrow> Inl e
                          | Inr new \<Rightarrow> Inr (dict_set ''current_lab'' JNull
                                                (dict_set ''score'' new d1)))))))"

section \<open>StudentSession on the record\<close>

definition new_session :: "string \<Rightarrow> string \<Rightarrow> session" where
  "new_session sid now =
     \<lparr>student_id = sid, created_at = now, current_lab = None, completed_labs = [],
      attempts = [], score = 0, lab_start_time = None\<rparr>"

definition attempt_count :: "session \<Rightarrow> string \<Rightarrow> int" where
  "attempt_count s lid = (case map_of (attempts s) lid of None \<Rightarrow> 0 | Some n \<Rightarrow> n)"

definition start_lab :: "string \<Rightarrow> string \<Rightarrow> session \<Rightarrow> session" where
  "start_lab lid now s =
     s\<lparr>current_lab := Some lid,
       attempts := AList.update lid (attempt_count s lid + 1) (attempts s),
       lab_start_time := Some now\<rparr>"

definition complete_lab :: "string \<Rightarrow> int \<Rightarrow> session \<Rightarrow> session" where
  "complete_lab lid sc s =
     s\<lparr>completed_labs := (if lid \<in> set (completed_labs s) then completed_labs s
                          else completed_labs s @ [lid]),
       score := score s + sc,
       current_lab := None\<rparr>"

record progress =
  p_student_id :: string
  p_current_lab :: "string option"
  p_completed_labs :: nat
  p_total_score :: int
  p_attempts :: "(string \<times> int) list"

text \<open>\<^verbatim>\<open>get_progress\<close> reports the identifier the object was opened with.\<close>

definition get_progress :: "string \<Rightarrow> session \<Rightarrow> progress" where
  "get_progress sid s =
     \<lparr>p_student_id = sid, p_current_lab = current_lab s,
      p_completed_labs = length (completed_labs s), p_total_score = score s,
      p_attempts = attempts s\<rparr>"

section \<open>The files under STATE\_DIR\<close>

text \<open>A file is a stored JSON value, or a file that a crash during \<^verbatim>\<open>save\<close> cut short
  (\<^verbatim>\<open>open(..., 'w')\<close> truncates before \<^verbatim>\<open>json.dump\<close> writes), which
  \<^verbatim>\<open>json.load\<close> rejects with the given message.\<close>

datatype stored = Stored json | Torn string

text \<open>The files \<^verbatim>\<open><student_id>.json\<close> under \<^verbatim>\<open>STATE_DIR\<close>, by student identifier.\<close>

type_synonym session_files = "(string \<times> stored) list"

text \<open>\<^verbatim>\<open>_load_or_create\<close>: a missing file gives a fresh record, which is not written.
  A stored value that is not a session dictionary is reported at load
  (\<open>MalformedSession\<close>); the code would raise at its first access to a missing key.\<close>

definition load_or_create :: "session_files \<Rightarrow> string \<Rightarrow> string \<Rightarrow> pyerr + session" where
  "load_or_create files sid now =
     (case map_of files sid of
        None \<Rightarrow> Inr (new_session sid now)
      | Some (Torn msg) \<Rightarrow> Inl (JSONDecodeError msg)
      | Some (Stored j) \<Rightarrow>
          (case session_of_json j of None \<Rightarrow> Inl (MalformedSession sid) | Some s \<Rightarrow> Inr s))"

definition save :: "string \<Rightarrow> session \<Rightarrow> session_files \<Rightarrow> session_files" where
  "save sid s files = AList.update sid (Stored (session_json s)) files"

text \<open>\<^verbatim>\<open>session_file.unlink(missing_ok=True)\<close> in \<^verbatim>\<open>cmd_reset\<close>.\<close>

definition reset :: "string \<Rightarrow> session_files \<Rightarrow> session_files" where
  "reset sid files = AList.delete sid files"

section \<open>The session invariant\<close>

text \<open>Every completed lab has been started, every attempt count is at least one, the
  active lab has been started, no lab is listed twice, and the score is not negative.\<close>

definition session_inv :: "session \<Rightarrow> bool" where
  "session_inv s \<longleftrightarrow>
     distinct (map fst (attempts s)) \<and>
     list_all (\<lambda>(l, n). 1 \<le> n) (attempts s) \<and>
     list_all (\<lambda>l. l \<in> set (map fst (attempts s))) (completed_labs s) \<and>
     distinct (completed_labs s) \<and>
     (case current_lab s of None \<Rightarrow> True | Some l \<Rightarrow> l \<in> set (map fst (attempts s))) \<and>
     0 \<le> score s"

section \<open>Lemmas\<close>

subsection \<open>Encoding\<close>

lemma decode_strings_map [simp]: "decode_strings (map JStr xs) = Some xs"
  by (induction xs) auto

lemma decode_counts_map [simp]: "decode_counts (map (\<lambda>(l, n). (l, JInt n)) at) = Some at"
  by (induction at) auto

lemma session_roundtrip: "session_of_json (session_json s) = Some s"
  by (cases "lab_start_time s")
     (auto simp: session_json_def session_dict_def session_of_dict_def json_of_opt_def split: option.splits)

lemma map_of_session_dict_attempts [simp]:
  "map_of (session_dict s) ''attempts'' = Some (JObj (map (\<lambda>(l, n). (l, JInt n)) (attempts s)))"
  by (simp add: session_dict_def split: option.splits)

lemmas session_dict_simps =
  session_dict_def dict_index_def dict_get_default_def dict_append_def py_add_int_def
  json_of_opt_def map_of_map model_simps

subsection \<open>The record operations\<close>

lemma attempt_count_nonneg:
  "session_inv s \<Longrightarrow> 0 \<le> attempt_count s l"
  by (auto simp: session_inv_def attempt_count_def list_all_iff dest!: map_of_SomeD split: option.splits)

lemma attempt_count_pos:
  "session_inv s \<Longrightarrow> l \<in> set (map fst (attempts s)) \<Longrightarrow> 1 \<le> attempt_count s l"
  by (auto simp: session_inv_def attempt_count_def list_all_iff dest!: map_of_SomeD split: option.splits)

lemma new_session_inv: "session_inv (new_session sid now)"
  by (simp add: session_inv_def new_session_def)

lemma start_lab_inv:
  assumes "session_inv s"
  shows "session_inv (start_lab lid now s)"
proof -
  have "0 \<le> attempt_count s lid" using assms by (rule attempt_count_nonneg)
  with assms have "list_all (\<lambda>(l, n). 1 \<le> n) (AList.update lid (attempt_count s lid + 1) (attempts s))"
    by (intro list_all_update) (auto simp: session_inv_def)
  with assms show ?thesis
    by (auto simp: session_inv_def start_lab_def distinct_update dom_update list_all_iff)
qed

lemma complete_lab_inv:
  "session_inv s \<Longrightarrow> lid \<in> set (map fst (attempts s)) \<Longrightarrow> 0 \<le> sc \<Longrightarrow>
   session_inv (complete_lab lid sc s)"
  by (auto simp: session_inv_def complete_lab_def)

lemma start_lab_active: "current_lab (start_lab lid now s) = Some lid"
  by (simp add: start_lab_def)

lemma start_lab_score: "score (start_lab lid now s) = score s"
  by (simp add: start_lab_def)

lemma complete_lab_score: "score (complete_lab lid sc s) = score s + sc"
  by (simp add: complete_lab_def)

subsection \<open>The files\<close>

lemma load_or_create_save_other:
  "sid' \<noteq> sid \<Longrightarrow> load_or_create (save sid s files) sid' now = load_or_create files sid' now"
  by (simp add: load_or_create_def save_def update_conv')

lemma map_of_save:
  "map_of (save sid s files) = (map_of files)(sid \<mapsto> Stored (session_json s))"
  by (simp add: save_def update_conv')

lemma map_of_reset:
  "map_of (reset sid files) = (map_of files)(sid := None)"
  by (simp add: reset_def delete_conv')

subsection \<open>Properties\<close>


text \<open>C5. \<^verbatim>\<open>start_lab\<close>, run statement by statement on the dictionary of a session,
  raises nothing and leaves the dictionary of the record operation \<open>start_lab\<close>: the
  active lab is set, that lab's attempt count goes up by one (from 0 when absent) and the
  start time is stored.\<close>

theorem start_lab_refines:
  "start_lab_dict lid now (session_dict s) = Inr (session_dict (start_lab lid now s))"
  by (cases "lab_start_time s")
     (auto simp: start_lab_dict_def start_lab_def attempt_count_def session_dict_simps
           split: option.splits)

text \<open>C6. \<^verbatim>\<open>complete_lab\<close>, run on the dictionary of a session, raises nothing and
  leaves the dictionary of the record operation \<open>complete_lab\<close>: the lab is appended to
  the completed labs unless listed, the score is added, and the active lab is cleared.\<close>

theorem complete_lab_refines:
  "complete_lab_dict lid sc (session_dict s) = Inr (session_dict (complete_lab lid sc s))"
  by (cases "lab_start_time s")
     (auto simp: complete_lab_dict_def complete_lab_def session_dict_simps split: option.splits)

text \<open>C7. Completing the same lab twice lists it once but adds the score both times:
  the documented double award of spec section 4.2, with no deduplication guard.\<close>

theorem complete_lab_twice:
  "completed_labs (complete_lab l sc (complete_lab l sc s)) = completed_labs (complete_lab l sc s) \<and>
   score (complete_lab l sc (complete_lab l sc s)) = score s + 2 * sc"
  by (simp add: complete_lab_def)

text \<open>\<^verbatim>\<open>start_lab\<close> raises the attempt count of the started lab by exactly one,
  also when the lab is already active, and leaves every other lab's count unchanged.\<close>

theorem attempt_count_start_lab:
  "attempt_count (start_lab lid now s) l =
     (if l = lid then attempt_count s lid + 1 else attempt_count s l)"
  by (simp add: attempt_count_def start_lab_def update_conv')

end
