(* ===== verification/Lab_Catalog.thy ===== *)
theory Lab_Catalog
  imports Prelude
begin

text \<open>
  The lab catalog of \<^verbatim>\<open>lab-controller.py\<close>: the configuration constants
  (class \<^verbatim>\<open>Config\<close>), the lab directory tree under \<^verbatim>\<open>Config.LABS_DIR\<close> and the
  class \<^verbatim>\<open>LabDefinition\<close> with \<^verbatim>\<open>load\<close>, \<^verbatim>\<open>get_starter_code\<close> and
  \<^verbatim>\<open>get_verification_script\<close>, and \<^verbatim>\<open>StudentCLI._create_example_labs\<close>, the only
  code that writes into the catalog.

  The directory \<^verbatim>\<open>LABS_DIR/<lab_id>/\<close> is a \<open>lab_dir\<close>: the state of its three files.
  \<^verbatim>\<open>lab.json\<close> is absent, a JSON value, or a file that \<^verbatim>\<open>json.load\<close> rejects.
  A \<open>lab_definition\<close> keeps each field as the Python value the constructor stores:
  whatever JSON value the file holds, or the default of \<^verbatim>\<open>config.get\<close>.
\<close>

section \<open>Configuration\<close>

record lab_config =
  labs_dir :: string
  state_dir :: string
  logs_dir :: string
  ollama_url :: string
  red_team_ip :: string
  blue_team_ip :: string
  target_ip :: string
  red_model :: string
  blue_model :: string

text \<open>\<^verbatim>\<open>LABS_DIR\<close> is \<^verbatim>\<open>Path(__file__).parent / "labs"\<close>: it depends on where the script
  is installed, which is the parameter.\<close>

definition Config :: "string \<Rightarrow> lab_config" where
  "Config script_dir =
     \<lparr>labs_dir = script_dir @ ''/labs'',
      state_dir = ''/var/lib/ai-agents-lab/state'',
      logs_dir = ''/var/lib/ai-agents-lab/logs'',
      ollama_url = ''http://localhost:11434'',
      red_team_ip = ''10.0.0.101'',
      blue_team_ip = ''10.0.0.102'',
      target_ip = ''10.0.0.103'',
      red_model = ''red-qwen-agent'',
      blue_model = ''blue-llama-agent''\<rparr>"

section \<open>The lab directory tree\<close>

datatype lab_file =
    LabFileJson json
  | LabFileCorrupt string \<comment> \<open>\<^verbatim>\<open>json.load\<close> raises with this message\<close>

record lab_dir =
  lab_json :: "lab_file option"
  starter_py :: "string option"
  verify_py :: bool

text \<open>The directories under \<^verbatim>\<open>LABS_DIR\<close>, by name, in the order the listing returns them.\<close>

type_synonym labs_fs = "(string \<times> lab_dir) list"

definition empty_lab_dir :: lab_dir where
  "empty_lab_dir = \<lparr>lab_json = None, starter_py = None, verify_py = False\<rparr>"

definition lab_json_file :: "labs_fs \<Rightarrow> string \<Rightarrow> lab_file option" where
  "lab_json_file fs lid = (case map_of fs lid of None \<Rightarrow> None | Some d \<Rightarrow> lab_json d)"

section \<open>LabDefinition\<close>

record lab_definition =
  lab_id :: string
  title :: json
  description :: json
  difficulty :: json
  objectives :: json
  hints :: json
  time_limit :: json
  verification_script :: json

text \<open>\<^verbatim>\<open>LabDefinition.__init__\<close>: every field is \<^verbatim>\<open>config.get(key, default)\<close>; a
  configuration that is not a dict has no \<^verbatim>\<open>get\<close>.\<close>

definition lab_definition_init :: "string \<Rightarrow> json \<Rightarrow> pyerr + lab_definition" where
  "lab_definition_init lid config =
     (case config of
        JObj c \<Rightarrow> Inr
          \<lparr>lab_id = lid,
           title = dict_get_default c ''title'' (JStr ''Untitled Lab''),
           description = dict_get_default c ''description'' (JStr ''''),
           difficulty = dict_get_default c ''difficulty'' (JStr ''beginner''),
           objectives = dict_get_default c ''objectives'' (JArr []),
           hints = dict_get_default c ''hints'' (JArr []),
           time_limit = dict_get_default c ''time_limit'' JNull,
           verification_script = dict_get_default c ''verification_script'' JNull\<rparr>
      | v \<Rightarrow> Inl (AttributeError (quoted (py_type_name v) @ '' object has no attribute '' @
                                  quoted ''get'')))"

text \<open>\<^verbatim>\<open>LabDefinition.load\<close>: \<^verbatim>\<open>None\<close> when \<^verbatim>\<open>lab.json\<close> is missing; an unreadable
  file raises out of \<^verbatim>\<open>json.load\<close>.\<close>

definition load :: "labs_fs \<Rightarrow> string \<Rightarrow> pyerr + lab_definition option" where
  "load fs lid =
     (case lab_json_file fs lid of
        None \<Rightarrow> Inr None
      | Some (LabFileCorrupt msg) \<Rightarrow> Inl (JSONDecodeError msg)
      | Some (LabFileJson config) \<Rightarrow> map_sum id Some (lab_definition_init lid config))"

definition get_starter_code :: "labs_fs \<Rightarrow> lab_definition \<Rightarrow> string option" where
  "get_starter_code fs lab = (case map_of fs (lab_id lab) of None \<Rightarrow> None | Some d \<Rightarrow> starter_py d)"

text \<open>\<^verbatim>\<open>get_verification_script\<close> looks for \<^verbatim>\<open>verify.py\<close> in the lab's directory; it
  does not read the \<^verbatim>\<open>verification_script\<close> field.\<close>

definition get_verification_script ::
  "lab_config \<Rightarrow> labs_fs \<Rightarrow> lab_definition \<Rightarrow> string option" where
  "get_verification_script cfg fs lab =
     (case map_of fs (lab_id lab) of
        Some d \<Rightarrow> (if verify_py d then Some (labs_dir cfg @ ''/'' @ lab_id lab @ ''/verify.py'')
                   else None)
      | None \<Rightarrow> None)"

section \<open>The example lab\<close>

definition example_lab_config :: json where
  "example_lab_config = JObj
     [(''title'', JStr ''Basic Network Reconnaissance''),
      (''description'', JStr ''Learn to enumerate network services using AI agents''),
      (''difficulty'', JStr ''beginner''),
      (''objectives'', JArr [JStr ''Identify all open ports on the target'',
                             JStr ''Determine the operating system'',
                             JStr ''Find the SSH version'']),
      (''hints'', JArr [JStr ''Try asking the red agent to scan for open ports'',
                        JStr ''Use nmap or similar tools through the agent'',
                        JStr ''Check common ports: 22, 80, 443'']),
      (''time_limit'', JInt 3600)]"

text \<open>\<^verbatim>\<open>_create_example_labs\<close>: \<^verbatim>\<open>mkdir(exist_ok=True)\<close> keeps a directory that is
  there, and \<^verbatim>\<open>write_text\<close> replaces its \<^verbatim>\<open>lab.json\<close>.\<close>

definition create_example_labs :: "labs_fs \<Rightarrow> labs_fs" where
  "create_example_labs fs =
     AList.update ''lab-01-recon''
       ((case map_of fs ''lab-01-recon'' of None \<Rightarrow> empty_lab_dir | Some d \<Rightarrow> d)
          \<lparr>lab_json := Some (LabFileJson example_lab_config)\<rparr>) fs"

section \<open>Lemmas\<close>

lemma lab_definition_init_JObj [model_simps]:
  "lab_definition_init lid (JObj c) = Inr
     \<lparr>lab_id = lid,
      title = dict_get_default c ''title'' (JStr ''Untitled Lab''),
      description = dict_get_default c ''description'' (JStr ''''),
      difficulty = dict_get_default c ''difficulty'' (JStr ''beginner''),
      objectives = dict_get_default c ''objectives'' (JArr []),
      hints = dict_get_default c ''hints'' (JArr []),
      time_limit = dict_get_default c ''time_limit'' JNull,
      verification_script = dict_get_default c ''verification_script'' JNull\<rparr>"
  by (simp add: lab_definition_init_def)

lemma lab_definition_init_lab_id:
  "lab_definition_init lid config = Inr lab \<Longrightarrow> lab_id lab = lid"
  by (auto simp: lab_definition_init_def split: json.splits)

lemma load_lab_id:
  "load fs lid = Inr (Some lab) \<Longrightarrow> lab_id lab = lid"
  by (auto simp: load_def lab_definition_init_lab_id split: option.splits lab_file.splits sum.splits)

lemma load_None_iff:
  "load fs lid = Inr None \<longleftrightarrow> lab_json_file fs lid = None"
  by (auto simp: load_def split: option.splits lab_file.splits sum.splits)

text \<open>C16. Loading a lab is all or nothing: \<^verbatim>\<open>LabDefinition.load\<close> returns a definition
  exactly when \<^verbatim>\<open>lab.json\<close> holds a JSON object; a missing file gives \<^verbatim>\<open>None\<close> and
  any other content raises, so no partially built definition is ever returned.\<close>

theorem load_all_or_nothing:
  "(\<exists>lab. load fs lid = Inr (Some lab)) \<longleftrightarrow> (\<exists>c. lab_json_file fs lid = Some (LabFileJson (JObj c)))"
  by (auto simp: load_def lab_definition_init_def split: option.splits lab_file.splits json.splits)

end
