(* ===== verification/Verifier.thy ===== *)
theory Verifier
  imports Lab_Catalog
begin

text \<open>
  The verification engine: class \<^verbatim>\<open>LabVerifier\<close> of \<^verbatim>\<open>lab-controller.py\<close>. Its
  \<^verbatim>\<open>verify\<close> builds a results dictionary with a zero score, runs the lab's
  \<^verbatim>\<open>verify.py\<close> with a 30 second timeout when the lab has one, and merges the JSON the
  script prints into the results with \<^verbatim>\<open>dict.update\<close>. Every exception of the run, the
  parse or the merge is caught and turned into a feedback line.

  The external process is the environment: \<open>proc_outcome\<close> is what \<^verbatim>\<open>subprocess.run\<close>
  returns or raises (an exit with its code and captured streams, the timeout, or a
  failure to launch). \<^verbatim>\<open>json.loads\<close> is a library function the model takes as a
  parameter of type \<open>json_loads\<close>: the decoded value, or the message of the
  \<^verbatim>\<open>JSONDecodeError\<close>. \<open>py_dict_update\<close> is \<^verbatim>\<open>dict.update\<close> as CPython runs it on
  every JSON value: a dict is merged; any other iterable is read as a sequence of pairs,
  element by element, so that a bad element raises after the elements before it have been
  stored. Pairs whose key is a hashable non-string (a number, a boolean, \<^verbatim>\<open>None\<close>) are
  stored by Python under a key that no reader of the results looks up; the model drops them.
\<close>

section \<open>The process and the parser\<close>

datatype proc_outcome =
    Exited int string string \<comment> \<open>return code, stdout, stderr\<close>
  | TimedOut
  | LaunchFailed string \<comment> \<open>the \<^verbatim>\<open>OSError\<close> message\<close>

type_synonym json_loads = "string \<Rightarrow> string + json"

definition verify_cmd :: "string \<Rightarrow> string list" where
  "verify_cmd path = [''python3'', path]"

fun py_repr_items :: "string list \<Rightarrow> string" where
  "py_repr_items [] = ''''"
| "py_repr_items [x] = quoted x"
| "py_repr_items (x # xs) = quoted x @ '', '' @ py_repr_items xs"

text \<open>\<^verbatim>\<open>str(subprocess.TimeoutExpired)\<close> for a command given as a list.\<close>

definition timeout_message :: "string list \<Rightarrow> string" where
  "timeout_message cmd =
     ''Command '' @ quoted (''['' @ py_repr_items cmd @ '']'') @ '' timed out after 30 seconds''"

section \<open>dict.update\<close>

definition update_len_error :: "nat \<Rightarrow> nat \<Rightarrow> pyerr" where
  "update_len_error i n =
     ValueError (''dictionary update sequence element #'' @ nat_to_string i @ '' has length '' @
                 nat_to_string n @ ''; 2 is required'')"

text \<open>One element of the sequence: \<open>Inr None\<close> for a pair with a non-string key.\<close>

fun update_pair :: "nat \<Rightarrow> json \<Rightarrow> pyerr + (string \<times> json) option" where
  "update_pair i (JArr [k, v]) =
     (case k of
        JStr ks \<Rightarrow> Inr (Some (ks, v))
      | JArr _ \<Rightarrow> Inl (TypeError (''unhashable type: '' @ quoted ''list''))
      | JObj _ \<Rightarrow> Inl (TypeError (''unhashable type: '' @ quoted ''dict''))
      | _ \<Rightarrow> Inr None)"
| "update_pair i (JArr xs) = Inl (update_len_error i (length xs))"
| "update_pair i (JStr [a, b]) = Inr (Some ([a], JStr [b]))"
| "update_pair i (JStr s) = Inl (update_len_error i (length s))"
| "update_pair i (JObj [(k1, _), (k2, _)]) = Inr (Some (k1, JStr k2))"
| "update_pair i (JObj kvs) = Inl (update_len_error i (length kvs))"
| "update_pair i v =
     Inl (TypeError (''cannot convert dictionary update sequence element #'' @ nat_to_string i @
                     '' to a sequence''))"

fun update_seq :: "nat \<Rightarrow> pydict \<Rightarrow> json list \<Rightarrow> pydict \<times> pyerr option" where
  "update_seq i d [] = (d, None)"
| "update_seq i d (e # es) =
     (case update_pair i e of
        Inl err \<Rightarrow> (d, Some err)
      | Inr None \<Rightarrow> update_seq (Suc i) d es
      | Inr (Some (k, v)) \<Rightarrow> update_seq (Suc i) (dict_set k v d) es)"

text \<open>The dictionary after the call, and the exception it raised if any.\<close>

fun py_dict_update :: "pydict \<Rightarrow> json \<Rightarrow> pydict \<times> pyerr option" where
  "py_dict_update d (JObj kvs) = (foldl (\<lambda>acc (k, v). dict_set k v acc) d kvs, None)"
| "py_dict_update d (JArr es) = update_seq 0 d es"
| "py_dict_update d (JStr s) = update_seq 0 d (map (\<lambda>c. JStr [c]) s)"
| "py_dict_update d v = (d, Some (TypeError (quoted (py_type_name v) @ '' object is not iterable'')))"

section \<open>LabVerifier.verify\<close>

definition results_init :: "lab_definition \<Rightarrow> string \<Rightarrow> pydict" where
  "results_init lab now =
     [(''lab_id'', JStr (lab_id lab)),
      (''timestamp'', JStr now),
      (''objectives_met'', JArr []),
      (''objectives_failed'', JArr []),
      (''score'', JInt 0),
      (''feedback'', JArr [])]"

definition feedback_line :: "pydict \<Rightarrow> string \<Rightarrow> pyerr + pydict" where
  "feedback_line r msg = dict_append r ''feedback'' (JStr msg)"

definition verify_error :: "pydict \<Rightarrow> string \<Rightarrow> pyerr + pydict" where
  "verify_error r msg = feedback_line r (''Verification error: '' @ msg)"

text \<open>The branch that runs when \<^verbatim>\<open>verify.py\<close> exists; the handler appends to
  \<^verbatim>\<open>results["feedback"]\<close> as the partial update left it.\<close>

definition run_script :: "json_loads \<Rightarrow> string \<Rightarrow> proc_outcome \<Rightarrow> pydict \<Rightarrow> pyerr + pydict" where
  "run_script loads path outcome results =
     (case outcome of
        TimedOut \<Rightarrow> verify_error results (timeout_message (verify_cmd path))
      | LaunchFailed msg \<Rightarrow> verify_error results msg
      | Exited rc out err \<Rightarrow>
          (if rc = 0 then
             (case loads out of
                Inl msg \<Rightarrow> verify_error results msg
              | Inr payload \<Rightarrow>
                  (case py_dict_update results payload of
                     (r, None) \<Rightarrow> Inr r
                   | (r, Some e) \<Rightarrow> verify_error r (pyerr_message e)))
           else feedback_line results (''Verification failed: '' @ err)))"

definition verify ::
  "lab_config \<Rightarrow> labs_fs \<Rightarrow> json_loads \<Rightarrow> lab_definition \<Rightarrow> proc_outcome \<Rightarrow> string \<Rightarrow> pyerr + pydict" where
  "verify cfg fs loads lab outcome now =
     (let results = results_init lab now in
      case get_verification_script cfg fs lab of
        Some path \<Rightarrow> run_script loads path outcome results
      | None \<Rightarrow> feedback_line results ''No automated verification available'')"

section \<open>Inputs for the witnesses\<close>

definition demo_cfg :: lab_config where
  "demo_cfg = Config ''/opt/lab''"

definition demo_lab :: lab_definition where
  "demo_lab = \<lparr>lab_id = ''l1'', title = JStr ''Recon'', description = JStr '''',
     difficulty = JStr ''beginner'', objectives = JArr [JStr ''scan''],
     hints = JArr [JStr ''h1'', JStr ''h2''], time_limit = JNull, verification_script = JNull\<rparr>"

definition demo_fs :: "bool \<Rightarrow> labs_fs" where
  "demo_fs has_script =
     [(''l1'', \<lparr>lab_json = Some (LabFileJson (JObj [(''title'', JStr ''Recon''),
                  (''objectives'', JArr [JStr ''scan'']), (''hints'', JArr [JStr ''h1'', JStr ''h2''])])),
               starter_py = None, verify_py = has_script\<rparr>)]"

section \<open>Lemmas\<close>

lemma feedback_line_init:
  "feedback_line (results_init lab now) msg =
     Inr (dict_set ''feedback'' (JArr [JStr msg]) (results_init lab now))"
  by (simp add: feedback_line_def dict_append_def results_init_def)

lemma update_seq_chars:
  "update_seq 0 d (map (\<lambda>c. JStr [c]) s) =
     (if s = [] then (d, None) else (d, Some (update_len_error 0 1)))"
  by (cases s) simp_all

text \<open>C9. When \<^verbatim>\<open>verify.py\<close> does not exit within the timeout, the result keeps the
  zero score and empty objective lists, and its only feedback line is the timeout message
  for the command that was run, so a timeout is reported as such and not as a crash.\<close>

theorem verify_timeout:
  "get_verification_script cfg fs lab = Some path \<Longrightarrow>
   verify cfg fs loads lab TimedOut now =
     Inr (dict_set ''feedback''
            (JArr [JStr (''Verification error: '' @ timeout_message [''python3'', path])])
            (results_init lab now))"
  by (simp add: verify_def run_script_def verify_error_def feedback_line_init verify_cmd_def)

theorem verify_timeout_witness:
  "get_verification_script demo_cfg (demo_fs True) demo_lab = Some ''/opt/lab/labs/l1/verify.py'' \<and>
   map_of (projr (verify demo_cfg (demo_fs True) (\<lambda>_. Inr JNull) demo_lab TimedOut ''t0'')) ''score''
     = Some (JInt 0)"
proof -
  have h: "get_verification_script demo_cfg (demo_fs True) demo_lab = Some ''/opt/lab/labs/l1/verify.py''"
    by (simp add: get_verification_script_def demo_cfg_def Config_def demo_fs_def demo_lab_def)
  show ?thesis
    using h verify_timeout [OF h, of "\<lambda>_. Inr JNull" "''t0''"] by (simp add: results_init_def)
qed

text \<open>C10. A lab without \<^verbatim>\<open>verify.py\<close> is never passed by default: the result has
  the zero score and the single feedback line that no automated verification exists,
  whatever the environment would have done.\<close>

theorem verify_no_script:
  "get_verification_script cfg fs lab = None \<Longrightarrow>
   verify cfg fs loads lab outcome now =
     Inr (dict_set ''feedback'' (JArr [JStr ''No automated verification available''])
            (results_init lab now))"
  by (simp add: verify_def feedback_line_init)

theorem verify_no_script_witness:
  "get_verification_script demo_cfg (demo_fs False) demo_lab = None \<and>
   map_of (projr (verify demo_cfg (demo_fs False) (\<lambda>_. Inr (JObj [(''score'', JInt 100)])) demo_lab
      (Exited 0 ''{}'' '''') ''t0'')) ''score'' = Some (JInt 0)"
proof -
  have h: "get_verification_script demo_cfg (demo_fs False) demo_lab = None"
    by (simp add: get_verification_script_def demo_fs_def demo_lab_def)
  show ?thesis
    using h verify_no_script [OF h, of "\<lambda>_. Inr (JObj [(''score'', JInt 100)])" "Exited 0 ''{}'' ''''" "''t0''"]
    by (simp add: results_init_def)
qed

text \<open>C11. \<^verbatim>\<open>verify\<close> catches what the script, the parser and the merge raise,
  except in one case: the script exits with 0 and prints a JSON list, whose pairs are merged
  one by one until a bad element raises, after a pair has replaced \<^verbatim>\<open>feedback\<close> by a
  value without \<^verbatim>\<open>append\<close>; the handler then raises out of \<^verbatim>\<open>verify\<close>.\<close>

theorem verify_raises_only_on_list_payload:
  assumes "verify cfg fs loads lab outcome now = Inl e"
  shows "\<exists>out err es. outcome = Exited 0 out err \<and> loads out = Inr (JArr es)"
proof -
  obtain path where path: "get_verification_script cfg fs lab = Some path"
    using assms by (cases "get_verification_script cfg fs lab") (auto simp: verify_def feedback_line_init)
  show ?thesis
  proof (cases outcome)
    case (Exited rc out err)
    then show ?thesis using assms path
      by (cases "rc = 0"; cases "loads out")
         (auto simp: verify_def run_script_def verify_error_def feedback_line_init update_seq_chars
               elim!: py_dict_update.elims split: prod.splits option.splits if_splits)
  qed (use assms path in \<open>auto simp: verify_def run_script_def verify_error_def feedback_line_init\<close>)
qed

theorem verify_raises_only_on_list_payload_witness:
  "verify demo_cfg (demo_fs True) (\<lambda>_. Inr (JArr [JArr [JStr ''feedback'', JInt 5], JInt 7])) demo_lab
     (Exited 0 ''out'' '''') ''t0'' =
     Inl (AttributeError (quoted ''int'' @ '' object has no attribute '' @ quoted ''append'')) \<and>
   (\<exists>out err es. Exited 0 ''out'' '''' = Exited 0 out err \<and>
      (\<lambda>_. Inr (JArr [JArr [JStr ''feedback'', JInt 5], JInt 7])) out = (Inr (JArr es) :: string + json))"
proof -
  have h: "verify demo_cfg (demo_fs True) (\<lambda>_. Inr (JArr [JArr [JStr ''feedback'', JInt 5], JInt 7])) demo_lab
     (Exited 0 ''out'' '''') ''t0'' =
     Inl (AttributeError (quoted ''int'' @ '' object has no attribute '' @ quoted ''append''))"
    by (simp add: verify_def get_verification_script_def demo_fs_def demo_lab_def run_script_def
                  results_init_def verify_error_def feedback_line_def dict_append_def)
  show ?thesis using h verify_raises_only_on_list_payload [OF h] by simp
qed

text \<open>C12. When the script exits with 0 and prints a JSON object, the result is the
  initial dictionary with every key of the object merged in, the last occurrence winning;
  in particular its \<^verbatim>\<open>score\<close> is the printed value, unchecked against the range 0 to 100.\<close>

theorem verify_dict_payload:
  "get_verification_script cfg fs lab = Some path \<Longrightarrow> loads out = Inr (JObj kvs) \<Longrightarrow>
   \<exists>r. verify cfg fs loads lab (Exited 0 out err) now = Inr r \<and>
       map_of r = map_of (results_init lab now) ++ map_of (rev kvs)"
  by (simp add: verify_def run_script_def map_of_foldl_update)

theorem verify_dict_payload_witness:
  "get_verification_script demo_cfg (demo_fs True) demo_lab = Some ''/opt/lab/labs/l1/verify.py'' \<and>
   (\<lambda>_. Inr (JObj [(''score'', JInt 500)])) ''out'' = (Inr (JObj [(''score'', JInt 500)]) :: string + json) \<and>
   (\<exists>r. verify demo_cfg (demo_fs True) (\<lambda>_. Inr (JObj [(''score'', JInt 500)])) demo_lab
          (Exited 0 ''out'' '''') ''t0'' = Inr r \<and> map_of r ''score'' = Some (JInt 500))"
proof -
  have h: "get_verification_script demo_cfg (demo_fs True) demo_lab = Some ''/opt/lab/labs/l1/verify.py''"
    by (simp add: get_verification_script_def demo_cfg_def Config_def demo_fs_def demo_lab_def)
  have l: "(\<lambda>_. Inr (JObj [(''score'', JInt 500)])) ''out'' = (Inr (JObj [(''score'', JInt 500)]) :: string + json)"
    by simp
  show ?thesis
    using h l verify_dict_payload [of demo_cfg "demo_fs True" demo_lab "''/opt/lab/labs/l1/verify.py''"
            "\<lambda>_. Inr (JObj [(''score'', JInt 500)])" "''out''" "[(''score'', JInt 500)]" "''''" "''t0''"]
    by (auto simp: map_add_def)
qed

end
