(* ===== verification/Agent_Log.thy ===== *)
theory Agent_Log
  imports Lab_Catalog
begin

text \<open>
  The agent interaction log and the chat client of \<^verbatim>\<open>lab-controller.py\<close>: class
  \<^verbatim>\<open>OllamaClient\<close> (\<^verbatim>\<open>chat\<close>, \<^verbatim>\<open>generate\<close>, \<^verbatim>\<open>list_models\<close>) and class
  \<^verbatim>\<open>AgentController\<close> (\<^verbatim>\<open>send_to_red_agent\<close>, \<^verbatim>\<open>send_to_blue_agent\<close>,
  \<^verbatim>\<open>get_agent_status\<close>, \<^verbatim>\<open>_log\<close>).

  The HTTP exchange is the environment: \<open>http_post\<close> answers a request with the decoded
  JSON body or with the text of the exception that \<^verbatim>\<open>requests\<close>,
  \<^verbatim>\<open>raise_for_status\<close> or \<^verbatim>\<open>response.json()\<close> raised. The client's own lookups in
  the body may raise too; all of it is caught and turned into the error string the code
  returns. The log directory is an association list from file names to their contents;
  \<^verbatim>\<open>_log\<close> appends one formatted line to the file of the day.
\<close>

section \<open>The HTTP exchange\<close>

datatype http_result = HttpOk json | HttpError string

record http_request =
  req_method :: string
  req_path :: string
  req_body :: json
  req_timeout :: "int option" \<comment> \<open>seconds; \<open>None\<close>: no \<^verbatim>\<open>timeout\<close> argument\<close>

type_synonym http_post = "http_request \<Rightarrow> http_result"

section \<open>OllamaClient\<close>

text \<open>\<^verbatim>\<open>messages\<close>: the system message first when one is given and not empty.\<close>

definition chat_messages :: "string option \<Rightarrow> string \<Rightarrow> json" where
  "chat_messages system message =
     JArr ((case system of
              Some sys \<Rightarrow> if sys = [] then [] else [JObj [(''role'', JStr ''system''), (''content'', JStr sys)]]
            | None \<Rightarrow> []) @
           [JObj [(''role'', JStr ''user''), (''content'', JStr message)]])"

definition chat_request :: "string \<Rightarrow> string \<Rightarrow> string option \<Rightarrow> http_request" where
  "chat_request model message system =
     \<lparr>req_method = ''POST'', req_path = ''/api/chat'',
      req_body = JObj [(''model'', JStr model), (''messages'', chat_messages system message),
                       (''stream'', JBool False)],
      req_timeout = Some 60\<rparr>"

text \<open>\<^verbatim>\<open>chat\<close> returns \<^verbatim>\<open>response.json()["message"]["content"]\<close>, whatever value it
  is, or the error string.\<close>

definition chat :: "http_post \<Rightarrow> string \<Rightarrow> string \<Rightarrow> string option \<Rightarrow> json" where
  "chat post model message system =
     (let err = (\<lambda>e. JStr (''Error communicating with '' @ model @ '': '' @ e))
      in case post (chat_request model message system) of
           HttpError e \<Rightarrow> err e
         | HttpOk body \<Rightarrow>
             (case py_bind (py_getitem_str body ''message'') (\<lambda>m. py_getitem_str m ''content'') of
                Inl e \<Rightarrow> err (pyerr_message e)
              | Inr content \<Rightarrow> content))"

definition generate :: "http_post \<Rightarrow> string \<Rightarrow> string \<Rightarrow> json" where
  "generate post model prompt =
     (case post \<lparr>req_method = ''POST'', req_path = ''/api/generate'',
                 req_body = JObj [(''model'', JStr model), (''prompt'', JStr prompt),
                                  (''stream'', JBool False)],
                 req_timeout = Some 60\<rparr> of
        HttpError e \<Rightarrow> JStr (''Error: '' @ e)
      | HttpOk body \<Rightarrow>
          (case py_getitem_str body ''response'' of
             Inl e \<Rightarrow> JStr (''Error: '' @ pyerr_message e)
           | Inr r \<Rightarrow> r))"

text \<open>\<^verbatim>\<open>[model["name"] for model in response.json()["models"]]\<close>: the first element
  that cannot be read raises and the whole list is lost.\<close>

fun model_names :: "json list \<Rightarrow> pyerr + json list" where
  "model_names [] = Inr []"
| "model_names (m # ms) =
     py_bind (py_getitem_str m ''name'') (\<lambda>n. py_bind (model_names ms) (\<lambda>ns. Inr (n # ns)))"

definition py_iter_items :: "json \<Rightarrow> pyerr + json list" where
  "py_iter_items v =
     (case v of
        JArr xs \<Rightarrow> Inr xs
      | JObj kvs \<Rightarrow> Inr (map (JStr \<circ> fst) kvs)
      | JStr s \<Rightarrow> Inr (map (\<lambda>c. JStr [c]) s)
      | _ \<Rightarrow> Inl (TypeError (quoted (py_type_name v) @ '' object is not iterable'')))"

definition list_models :: "http_post \<Rightarrow> json list" where
  "list_models post =
     (case post \<lparr>req_method = ''GET'', req_path = ''/api/tags'', req_body = JNull,
                 req_timeout = None\<rparr> of
        HttpError e \<Rightarrow> []
      | HttpOk body \<Rightarrow>
          (case py_bind (py_getitem_str body ''models'') (\<lambda>ms. py_bind (py_iter_items ms) model_names) of
             Inl e \<Rightarrow> []
           | Inr ns \<Rightarrow> ns))"

section \<open>AgentController\<close>

type_synonym log_dir = "(string \<times> string) list"

text \<open>\<^verbatim>\<open>agent_interactions_YYYYMMDD.log\<close>; the day is an input.\<close>

definition log_file_name :: "string \<Rightarrow> string" where
  "log_file_name day = ''agent_interactions_'' @ day @ ''.log''"

definition log_line :: "string \<Rightarrow> string \<Rightarrow> string \<Rightarrow> string" where
  "log_line ts tag msg = ''['' @ ts @ ''] ['' @ tag @ ''] '' @ msg @ ''\<newline>''"

text \<open>\<^verbatim>\<open>_log\<close>: \<^verbatim>\<open>open(self.log_file, 'a')\<close> creates the file or appends to it.\<close>

definition log_append :: "string \<Rightarrow> string \<Rightarrow> string \<Rightarrow> string \<Rightarrow> log_dir \<Rightarrow> log_dir" where
  "log_append day ts tag msg logs =
     (let f = log_file_name day;
          old = (case map_of logs f of None \<Rightarrow> [] | Some c \<Rightarrow> c)
      in AList.update f (old @ log_line ts tag msg) logs)"

datatype agent = Red | Blue

fun agent_tag :: "agent \<Rightarrow> string" where
  "agent_tag Red = ''RED''"
| "agent_tag Blue = ''BLUE''"

fun agent_model :: "lab_config \<Rightarrow> agent \<Rightarrow> string" where
  "agent_model cfg Red = red_model cfg"
| "agent_model cfg Blue = blue_model cfg"

fun agent_system :: "agent \<Rightarrow> string" where
  "agent_system Red = ''Execute the requested reconnaissance or attack simulation.''"
| "agent_system Blue = ''Analyze security events and provide defensive recommendations.''"

text \<open>\<^verbatim>\<open>send_to_red_agent\<close> and \<^verbatim>\<open>send_to_blue_agent\<close>: log the instruction, chat,
  log the response; the two log lines carry the two time stamps of the call.\<close>

definition send_to_agent ::
  "lab_config \<Rightarrow> http_post \<Rightarrow> string \<Rightarrow> string \<Rightarrow> string \<Rightarrow> agent \<Rightarrow> string \<Rightarrow> log_dir \<Rightarrow>
   json \<times> log_dir" where
  "send_to_agent cfg post day t1 t2 a instruction logs =
     (let logs1 = log_append day t1 (agent_tag a) instruction logs;
          response = chat post (agent_model cfg a) instruction (Some (agent_system a))
      in (response, log_append day t2 (agent_tag a @ ''_RESPONSE'') (py_str response) logs1))"

record agent_status =
  red_agent :: bool
  blue_agent :: bool
  models_loaded :: "json list"

definition get_agent_status :: "lab_config \<Rightarrow> http_post \<Rightarrow> agent_status" where
  "get_agent_status cfg post =
     (let models = list_models post
      in \<lparr>red_agent = JStr (red_model cfg) \<in> set models,
          blue_agent = JStr (blue_model cfg) \<in> set models,
          models_loaded = models\<rparr>)"

text \<open>\<^verbatim>\<open>str.lower\<close> on the agent name, for ASCII letters.\<close>

definition ascii_lower :: "string \<Rightarrow> string" where
  "ascii_lower s =
     map (\<lambda>c. case map_of (zip ''ABCDEFGHIJKLMNOPQRSTUVWXYZ'' ''abcdefghijklmnopqrstuvwxyz'') c of
                 Some d \<Rightarrow> d | None \<Rightarrow> c) s"

definition parse_agent :: "string \<Rightarrow> agent option" where
  "parse_agent name =
     (if ascii_lower name = ''red'' then Some Red
      else if ascii_lower name = ''blue'' then Some Blue else None)"

text \<open>\<^verbatim>\<open>InstructorCLI.cmd_monitor\<close>'s recent activity:
  \<^verbatim>\<open>log_file.read_text().splitlines()\<close>. Reading in text mode turns \<^verbatim>\<open>\r\n\<close> and
  \<^verbatim>\<open>\r\<close> into one line break, and \<^verbatim>\<open>splitlines\<close> also breaks at \<^verbatim>\<open>\v\<close>,
  \<^verbatim>\<open>\f\<close> and \<^verbatim>\<open>\x1c\<close> to \<^verbatim>\<open>\x1e\<close> (ASCII only); a break at the end does not
  start an empty line.\<close>

definition line_break :: "char \<Rightarrow> bool" where
  "line_break c = (c \<in> set [CHR 0x0A, CHR 0x0D, CHR 0x0B, CHR 0x0C, CHR 0x1C, CHR 0x1D, CHR 0x1E])"

fun drop_break :: "string \<Rightarrow> string" where
  "drop_break (c # d # r) = (if c = CHR 0x0D \<and> d = CHR 0x0A then r else d # r)"
| "drop_break s = drop 1 s"

function split_lines :: "string \<Rightarrow> string list" where
  "split_lines s =
     (if s = [] then []
      else takeWhile (\<lambda>c. \<not> line_break c) s #
           split_lines (drop_break (dropWhile (\<lambda>c. \<not> line_break c) s)))"
  by pat_completeness auto
termination
proof (relation "measure length")
  fix s :: string
  assume "s \<noteq> []"
  have d: "length (drop_break t) \<le> length t - 1" for t by (induction t rule: drop_break.induct) auto
  have "length (dropWhile (\<lambda>c. \<not> line_break c) s) \<le> length s"
    by (rule length_dropWhile_le)
  with d [of "dropWhile (\<lambda>c. \<not> line_break c) s"] \<open>s \<noteq> []\<close>
  show "(drop_break (dropWhile (\<lambda>c. \<not> line_break c) s), s) \<in> measure length"
    by (cases s) auto
qed simp

definition recent_entries :: "string \<Rightarrow> log_dir \<Rightarrow> string list" where
  "recent_entries day logs =
     (case map_of logs (log_file_name day) of
        None \<Rightarrow> []
      | Some c \<Rightarrow> let ls = split_lines c in drop (length ls - 10) ls)"

section \<open>Lemmas\<close>

lemma map_of_log_append:
  "map_of (log_append day ts tag msg logs) f =
     (if f = log_file_name day
      then Some ((case map_of logs f of None \<Rightarrow> [] | Some c \<Rightarrow> c) @ log_line ts tag msg)
      else map_of logs f)"
  by (simp add: log_append_def update_conv' Let_def)

text \<open>C19. The log is append-only: \<^verbatim>\<open>_log\<close> extends the file of the day by exactly one
  formatted line (creating it when absent) and leaves every other file as it was; no
  operation rewrites or removes what is already logged.\<close>

theorem log_append_only:
  "map_of logs f = Some c \<Longrightarrow>
   map_of (log_append day ts tag msg logs) f =
     Some (c @ (if f = log_file_name day then log_line ts tag msg else []))"
  by (auto simp: map_of_log_append)

theorem log_append_only_witness:
  "map_of (log_append ''20260101'' ''t'' ''RED'' ''scan'' [(''agent_interactions_20260101.log'', ''x'')])
     ''agent_interactions_20260101.log'' = Some (''x'' @ ''[t] [RED] scan\<newline>'')"
  using log_append_only [of "[(''agent_interactions_20260101.log'', ''x'')]" "''agent_interactions_20260101.log''"
                            "''x''" "''20260101''" "''t''" "''RED''" "''scan''"]
  by (simp add: log_file_name_def log_line_def)

text \<open>A message to an agent adds to the day's log exactly two lines, in this order:
  the instruction tagged with the agent, then the response tagged \<^verbatim>\<open>_RESPONSE\<close>;
  the returned response is the one logged.\<close>

theorem send_to_agent_logs:
  "send_to_agent cfg post day t1 t2 a instruction logs = (r, logs') \<Longrightarrow>
   r = chat post (agent_model cfg a) instruction (Some (agent_system a)) \<and>
   map_of logs' (log_file_name day) =
     Some ((case map_of logs (log_file_name day) of None \<Rightarrow> [] | Some c \<Rightarrow> c) @
           log_line t1 (agent_tag a) instruction @
           log_line t2 (agent_tag a @ ''_RESPONSE'') (py_str r)) \<and>
   (\<forall>f. f \<noteq> log_file_name day \<longrightarrow> map_of logs' f = map_of logs f)"
  by (auto simp: send_to_agent_def map_of_log_append Let_def split: option.splits)

theorem send_to_agent_logs_witness:
  "map_of (snd (send_to_agent (Config ''/opt/lab'') (\<lambda>_. HttpError ''refused'') ''d'' ''t1'' ''t2'' Red ''scan'' []))
     (log_file_name ''d'') =
   Some (log_line ''t1'' ''RED'' ''scan'' @
         log_line ''t2'' ''RED_RESPONSE'' ''Error communicating with red-qwen-agent: refused'')"
proof -
  have h: "send_to_agent (Config ''/opt/lab'') (\<lambda>_. HttpError ''refused'') ''d'' ''t1'' ''t2'' Red ''scan'' [] =
    (JStr ''Error communicating with red-qwen-agent: refused'',
     snd (send_to_agent (Config ''/opt/lab'') (\<lambda>_. HttpError ''refused'') ''d'' ''t1'' ''t2'' Red ''scan'' []))"
    by (simp add: send_to_agent_def chat_def Config_def)
  show ?thesis using send_to_agent_logs [OF h] by simp
qed

text \<open>C22. \<^verbatim>\<open>chat\<close> never raises: when the request fails (no server, or a model the
  server does not have, which \<^verbatim>\<open>raise_for_status\<close> turns into an exception) the response is
  the string \<^verbatim>\<open>Error communicating with <model>: <error>\<close>, an explicit error indicator.\<close>

theorem chat_error_string:
  "post (chat_request model message system) = HttpError e \<Longrightarrow>
   chat post model message system = JStr (''Error communicating with '' @ model @ '': '' @ e)"
  by (simp add: chat_def)

theorem chat_error_string_witness:
  "chat (\<lambda>_. HttpError ''404 Client Error: Not Found'') ''red-qwen-agent'' ''scan target'' None =
   JStr (''Error communicating with red-qwen-agent: 404 Client Error: Not Found'')"
  using chat_error_string [of "\<lambda>_. HttpError ''404 Client Error: Not Found''" "''red-qwen-agent''"
                              "''scan target''" None "''404 Client Error: Not Found''"]
  by simp


end
