(* ===== verification/Controller.thy ===== *)
theory Controller
  imports Session_Store Verifier Agent_Log
begin

text \<open>
  The session controller: the student commands of class \<^verbatim>\<open>StudentCLI\<close> in
  \<^verbatim>\<open>lab-controller.py\<close> that drive the lab state machine (\<^verbatim>\<open>cmd_start\<close>,
  \<^verbatim>\<open>cmd_hint\<close>, \<^verbatim>\<open>cmd_verify\<close>), the commands beside it (\<^verbatim>\<open>cmd_chat\<close>,
  \<^verbatim>\<open>cmd_status\<close>), one invocation of the command line over the files it reads and
  writes, and the instructor's \<^verbatim>\<open>cmd_reset\<close>.

  A command works on the session loaded when \<^verbatim>\<open>StudentCLI\<close> was constructed and
  returns what it prints (a value of \<open>start_out\<close>, \<open>hint_out\<close> or \<open>verify_out\<close>)
  and the new session when it called \<^verbatim>\<open>start_lab\<close> or \<^verbatim>\<open>complete_lab\<close>, which save
  at once. \<open>student_run\<close> is one process: load or create the record, run one command,
  write the record if the command changed it. The world is the lab tree (and whether its
  directory exists), the session files and the agent log; \<open>ctl_step\<close> relates the worlds
  before and after one process (a student command of any student, a reset, or a change of
  the lab tree, by its authors or by \<^verbatim>\<open>cmd_list\<close> creating the example lab), and
  \<open>reachable\<close> is the set of worlds a sequence of such processes leaves, starting from
  no session files.
\<close>

section \<open>The student commands\<close>

definition pass_score :: int where
  "pass_score = 70"

definition student_cli_id :: string where
  "student_cli_id = ''student-01''"

datatype start_out = StartLabNotFound | Started bool \<comment> \<open>starter code available\<close>

datatype hint_out = HintNoActiveLab | HintNone | Hint int json \<comment> \<open>hint number, hint\<close>

datatype verify_out = VerifyNoActiveLab | VerifyLabMissing | Verified pydict bool

text \<open>\<^verbatim>\<open>cmd_start\<close>: load the lab, print its objectives (iterating them), then
  \<^verbatim>\<open>start_lab\<close>.\<close>

definition cmd_start :: "labs_fs \<Rightarrow> string \<Rightarrow> string \<Rightarrow> session \<Rightarrow> pyerr + (start_out \<times> session option)" where
  "cmd_start fs now lid s =
     py_bind (load fs lid) (\<lambda>lo.
       case lo of
         None \<Rightarrow> Inr (StartLabNotFound, None)
       | Some lab \<Rightarrow>
           py_bind (py_iter_check (objectives lab)) (\<lambda>_.
             Inr (Started (get_starter_code fs lab \<noteq> None), Some (start_lab lid now s))))"

text \<open>\<^verbatim>\<open>attempt = attempts.get(lab.lab_id, 1)\<close>.\<close>

definition hint_attempt :: "session \<Rightarrow> string \<Rightarrow> int" where
  "hint_attempt s lid = (case map_of (attempts s) lid of None \<Rightarrow> 1 | Some n \<Rightarrow> n)"

text \<open>\<^verbatim>\<open>hint_index = min(attempt - 1, len(lab.hints) - 1)\<close> and the hint it selects.\<close>

definition select_hint :: "json \<Rightarrow> int \<Rightarrow> pyerr + hint_out" where
  "select_hint hs attempt =
     py_bind (py_len hs) (\<lambda>n.
       let i = min (attempt - 1) (n - 1)
       in py_bind (py_subscript_int hs i) (\<lambda>h. Inr (Hint (i + 1) h)))"

definition cmd_hint :: "labs_fs \<Rightarrow> session \<Rightarrow> pyerr + hint_out" where
  "cmd_hint fs s =
     (case current_lab s of
        None \<Rightarrow> Inr HintNoActiveLab
      | Some cl \<Rightarrow>
          (if cl = [] then Inr HintNoActiveLab
           else py_bind (load fs cl) (\<lambda>lo.
             case lo of
               None \<Rightarrow> Inr HintNone
             | Some lab \<Rightarrow>
                 (if \<not> py_truthy (hints lab) then Inr HintNone
                  else select_hint (hints lab) (hint_attempt s (lab_id lab))))))"

text \<open>The printing of the results in \<^verbatim>\<open>cmd_verify\<close>: both objective lists and a
  non-empty feedback are iterated; the score is read for the message and returned.\<close>

definition report_results :: "pydict \<Rightarrow> pyerr + json" where
  "report_results r =
     py_bind (py_bind (dict_index r ''objectives_met'') py_iter_check) (\<lambda>_.
     py_bind (py_bind (dict_index r ''objectives_failed'') py_iter_check) (\<lambda>_.
     py_bind (dict_index r ''score'') (\<lambda>sc.
     py_bind (dict_index r ''feedback'') (\<lambda>fb.
     py_bind (if py_truthy fb then py_iter_check fb else Inr ()) (\<lambda>_. Inr sc)))))"

text \<open>\<^verbatim>\<open>cmd_verify\<close>: with an active lab, verify it and complete it when
  \<^verbatim>\<open>results["score"] >= 70\<close>; the session is otherwise left as it is.\<close>

definition cmd_verify ::
  "lab_config \<Rightarrow> labs_fs \<Rightarrow> json_loads \<Rightarrow> proc_outcome \<Rightarrow> string \<Rightarrow> session \<Rightarrow>
   pyerr + (verify_out \<times> session option)" where
  "cmd_verify cfg fs loads outcome now s =
     (case current_lab s of
        None \<Rightarrow> Inr (VerifyNoActiveLab, None)
      | Some cl \<Rightarrow>
          (if cl = [] then Inr (VerifyNoActiveLab, None)
           else py_bind (load fs cl) (\<lambda>lo.
             case lo of
               None \<Rightarrow> Inr (VerifyLabMissing, None)
             | Some lab \<Rightarrow>
                 py_bind (verify cfg fs loads lab outcome now) (\<lambda>r.
                 py_bind (report_results r) (\<lambda>sc.
                 py_bind (py_ge_operand sc) (\<lambda>n.
                   if pass_score \<le> n
                   then Inr (Verified r True, Some (complete_lab (lab_id lab) n s))
                   else Inr (Verified r False, None)))))))"

datatype chat_out = ChatUnknownAgent | ChatResponse json

text \<open>\<^verbatim>\<open>cmd_chat\<close>: an agent name other than red or blue (in any case) is refused
  before anything is logged.\<close>

definition cmd_chat ::
  "lab_config \<Rightarrow> http_post \<Rightarrow> string \<Rightarrow> string \<Rightarrow> string \<Rightarrow> string \<Rightarrow> string \<Rightarrow> log_dir \<Rightarrow>
   chat_out \<times> log_dir" where
  "cmd_chat cfg post day t1 t2 name message logs =
     (case parse_agent name of
        None \<Rightarrow> (ChatUnknownAgent, logs)
      | Some a \<Rightarrow> (case send_to_agent cfg post day t1 t2 a message logs of
                     (r, logs') \<Rightarrow> (ChatResponse r, logs')))"

definition cmd_status :: "lab_config \<Rightarrow> http_post \<Rightarrow> string \<Rightarrow> session \<Rightarrow> progress \<times> agent_status" where
  "cmd_status cfg post sid s = (get_progress sid s, get_agent_status cfg post)"

section \<open>One process and the world\<close>

record world =
  w_labs :: labs_fs
  w_labs_dir :: bool \<comment> \<open>whether \<^verbatim>\<open>Config.LABS_DIR\<close> exists\<close>
  w_files :: session_files
  w_logs :: log_dir

datatype student_cmd = CmdStart string | CmdVerify | CmdHint | CmdChat string string | CmdStatus

text \<open>What a process reads from its environment: the clock (two readings and the day),
  the outcome of \<^verbatim>\<open>verify.py\<close>, and the HTTP exchange with the model server.\<close>

record env =
  e_now :: string
  e_later :: string
  e_day :: string
  e_outcome :: proc_outcome
  e_post :: http_post
  e_input :: string \<comment> \<open>the answer typed at \<^verbatim>\<open>input()\<close>\<close>

datatype cli_out =
    OutStart start_out | OutVerify verify_out | OutHint hint_out | OutChat chat_out
  | OutStatus progress agent_status

definition persist :: "string \<Rightarrow> session option \<Rightarrow> session_files \<Rightarrow> session_files" where
  "persist sid so files = (case so of None \<Rightarrow> files | Some s \<Rightarrow> save sid s files)"

definition student_run ::
  "lab_config \<Rightarrow> json_loads \<Rightarrow> string \<Rightarrow> world \<Rightarrow> student_cmd \<Rightarrow> env \<Rightarrow> pyerr + (cli_out \<times> world)" where
  "student_run cfg loads sid w c e =
     py_bind (load_or_create (w_files w) sid (e_now e)) (\<lambda>s.
       case c of
         CmdStart lid \<Rightarrow>
           py_bind (cmd_start (w_labs w) (e_now e) lid s) (\<lambda>(out, so).
             Inr (OutStart out, w\<lparr>w_files := persist sid so (w_files w)\<rparr>))
       | CmdVerify \<Rightarrow>
           py_bind (cmd_verify cfg (w_labs w) loads (e_outcome e) (e_now e) s) (\<lambda>(out, so).
             Inr (OutVerify out, w\<lparr>w_files := persist sid so (w_files w)\<rparr>))
       | CmdHint \<Rightarrow> py_bind (cmd_hint (w_labs w) s) (\<lambda>out. Inr (OutHint out, w))
       | CmdChat name message \<Rightarrow>
           (case cmd_chat cfg (e_post e) (e_day e) (e_now e) (e_later e) name message (w_logs w) of
              (out, logs') \<Rightarrow> Inr (OutChat out, w\<lparr>w_logs := logs'\<rparr>))
       | CmdStatus \<Rightarrow>
           (case cmd_status cfg (e_post e) sid s of (p, st) \<Rightarrow> Inr (OutStatus p st, w)))"

text \<open>A sequence of processes of one student, stopping at the first that raises.\<close>

fun run_student ::
  "lab_config \<Rightarrow> json_loads \<Rightarrow> string \<Rightarrow> world \<Rightarrow> (student_cmd \<times> env) list \<Rightarrow> pyerr + world" where
  "run_student cfg loads sid w [] = Inr w"
| "run_student cfg loads sid w ((c, e) # ces) =
     py_bind (student_run cfg loads sid w c e) (\<lambda>(_, w'). run_student cfg loads sid w' ces)"

inductive ctl_step :: "lab_config \<Rightarrow> json_loads \<Rightarrow> world \<Rightarrow> world \<Rightarrow> bool"
  for cfg :: lab_config and loads :: json_loads where
  student: "student_run cfg loads sid w c e = Inr (out, w') \<Longrightarrow> ctl_step cfg loads w w'"
| reset_student: "ctl_step cfg loads w (w\<lparr>w_files := reset sid (w_files w)\<rparr>)"
| edit_labs: "ctl_step cfg loads w (w\<lparr>w_labs := fs, w_labs_dir := d\<rparr>)"

inductive reachable :: "lab_config \<Rightarrow> json_loads \<Rightarrow> world \<Rightarrow> bool"
  for cfg :: lab_config and loads :: json_loads where
  init: "reachable cfg loads \<lparr>w_labs = fs, w_labs_dir = d, w_files = [], w_logs = logs\<rparr>"
| step: "reachable cfg loads w \<Longrightarrow> ctl_step cfg loads w w' \<Longrightarrow> reachable cfg loads w'"

text \<open>Every session file decodes to a record that satisfies the session invariant.\<close>

definition files_inv :: "session_files \<Rightarrow> bool" where
  "files_inv files \<longleftrightarrow>
     list_all (\<lambda>(sid, st). case st of
                  Stored j \<Rightarrow> (case session_of_json j of Some s \<Rightarrow> session_inv s | None \<Rightarrow> False)
                | Torn _ \<Rightarrow> False) files"

section \<open>Inputs for the witnesses\<close>

definition demo_session :: "int \<Rightarrow> session" where
  "demo_session n =
     \<lparr>student_id = ''s1'', created_at = ''t1'', current_lab = Some ''l1'', completed_labs = [],
      attempts = [(''l1'', n)], score = 0, lab_start_time = Some ''t1''\<rparr>"

definition demo_world :: "session_files \<Rightarrow> world" where
  "demo_world files = \<lparr>w_labs = demo_fs True, w_labs_dir = True, w_files = files, w_logs = []\<rparr>"

definition demo_env :: "string \<Rightarrow> proc_outcome \<Rightarrow> env" where
  "demo_env t oc =
     \<lparr>e_now = t, e_later = t, e_day = ''20260101'', e_outcome = oc,
      e_post = (\<lambda>_. HttpError ''connection refused''), e_input = ''no''\<rparr>"

definition score_loads :: json_loads where
  "score_loads out = Inr (JObj [(''score'', JInt (if out = ''85'' then 85 else 40))])"

section \<open>Lemmas\<close>

lemmas run_simps = student_run_def cmd_start_def cmd_verify_def load_def lab_json_file_def
  demo_fs_def demo_cfg_def Config_def lab_definition_init_def dict_get_default_def
  get_starter_code_def py_iter_check_def load_or_create_def new_session_def start_lab_def
  attempt_count_def persist_def save_def session_json_def session_dict_def json_of_opt_def
  session_of_dict_def verify_def get_verification_script_def run_script_def results_init_def
  report_results_def dict_index_def py_ge_operand_def pass_score_def complete_lab_def
  demo_world_def demo_session_def demo_lab_def demo_env_def

subsection \<open>The commands\<close>

lemma cmd_start_Some:
  "cmd_start fs now lid s = Inr (out, Some s') \<Longrightarrow> s' = start_lab lid now s"
  by (auto simp: cmd_start_def split: option.splits)

lemma cmd_verify_Some:
  "cmd_verify cfg fs loads outcome now s = Inr (out, Some s') \<Longrightarrow>
   \<exists>l n. current_lab s = Some l \<and> pass_score \<le> n \<and> s' = complete_lab l n s"
  by (auto simp: cmd_verify_def dest: load_lab_id split: option.splits if_splits)

lemma files_inv_load:
  "files_inv files \<Longrightarrow> load_or_create files sid now = Inr s \<Longrightarrow> session_inv s"
  by (auto simp: files_inv_def load_or_create_def list_all_iff new_session_inv
           dest!: map_of_SomeD split: option.splits stored.splits)

lemma files_inv_save:
  "files_inv files \<Longrightarrow> session_inv s \<Longrightarrow> files_inv (save sid s files)"
  unfolding files_inv_def save_def
  by (rule list_all_update) (simp_all add: session_roundtrip)

lemma files_inv_reset:
  "files_inv files \<Longrightarrow> files_inv (reset sid files)"
  by (auto simp: files_inv_def reset_def AList.delete_eq list_all_iff)

lemma files_inv_persist:
  "files_inv files \<Longrightarrow> (\<And>s'. so = Some s' \<Longrightarrow> session_inv s') \<Longrightarrow> files_inv (persist sid so files)"
  by (cases so) (auto simp: persist_def files_inv_save)

lemma pass_score_nonneg: "pass_score \<le> n \<Longrightarrow> 0 \<le> n"
  by (simp add: pass_score_def)

lemma cmd_start_inv:
  "cmd_start fs now lid s = Inr (out, Some s') \<Longrightarrow> session_inv s \<Longrightarrow> session_inv s'"
  by (auto dest: cmd_start_Some intro: start_lab_inv)

lemma cmd_verify_inv:
  assumes "cmd_verify cfg fs loads outcome now s = Inr (out, Some s')" "session_inv s"
  shows "session_inv s'"
proof -
  obtain l n where l: "current_lab s = Some l" "pass_score \<le> n" "s' = complete_lab l n s"
    using cmd_verify_Some [OF assms(1)] by blast
  from assms(2) l(1) have "l \<in> set (map fst (attempts s))"
    by (simp add: session_inv_def)
  with assms(2) l(2,3) show ?thesis
    by (simp add: complete_lab_inv pass_score_nonneg)
qed

lemma hint_attempt_started:
  "l \<in> set (map fst (attempts s)) \<Longrightarrow> hint_attempt s l = attempt_count s l"
  by (auto simp: hint_attempt_def attempt_count_def split: option.splits dest: weak_map_of_SomeI)

lemma map_of_persist:
  "map_of (persist sid so files) =
     (case so of None \<Rightarrow> map_of files | Some s \<Rightarrow> (map_of files)(sid \<mapsto> Stored (session_json s)))"
  by (cases so) (simp_all add: persist_def map_of_save)

lemma cmd_start_score:
  "cmd_start fs now lid s = Inr (out, Some s') \<Longrightarrow> score s \<le> score s'"
  by (auto dest: cmd_start_Some simp: start_lab_score)

lemma cmd_verify_score:
  "cmd_verify cfg fs loads outcome now s = Inr (out, Some s') \<Longrightarrow> score s \<le> score s'"
  by (auto dest!: cmd_verify_Some simp: complete_lab_score pass_score_def)

subsection \<open>Processes and reachable worlds\<close>

lemma student_run_keeps_files:
  "student_run cfg loads sid w c e = Inr (out, w') \<Longrightarrow> c \<noteq> CmdVerify \<Longrightarrow>
   (\<forall>lid. c \<noteq> CmdStart lid) \<Longrightarrow> w_files w' = w_files w"
  by (cases c) (auto simp: student_run_def cmd_status_def split: prod.splits)

lemma student_run_inv:
  assumes "student_run cfg loads sid w c e = Inr (out, w')" "files_inv (w_files w)"
  shows "files_inv (w_files w')"
proof -
  obtain s where s: "load_or_create (w_files w) sid (e_now e) = Inr s"
    using assms(1) by (auto simp: student_run_def)
  have inv: "session_inv s" using assms(2) s by (rule files_inv_load)
  show ?thesis
  proof (cases c)
    case (CmdStart lid)
    with assms s inv show ?thesis
      by (auto simp: student_run_def intro!: files_inv_persist intro: cmd_start_inv split: prod.splits)
  next
    case CmdVerify
    with assms s inv show ?thesis
      by (auto simp: student_run_def intro!: files_inv_persist intro: cmd_verify_inv split: prod.splits)
  qed (use assms student_run_keeps_files in auto)
qed

lemma ctl_step_files_inv:
  "ctl_step cfg loads w w' \<Longrightarrow> files_inv (w_files w) \<Longrightarrow> files_inv (w_files w')"
  by (induction rule: ctl_step.induct) (auto intro: student_run_inv files_inv_reset)

lemma reachable_files_inv:
  "reachable cfg loads w \<Longrightarrow> files_inv (w_files w)"
proof (induction rule: reachable.induct)
  case (init fs)
  then show ?case by (simp add: files_inv_def)
next
  case (step w w')
  then show ?case by (blast intro: ctl_step_files_inv)
qed

lemma student_run_persist:
  assumes "student_run cfg loads sid w c e = Inr (out, w')"
  shows "\<exists>s so. load_or_create (w_files w) sid (e_now e) = Inr s \<and>
           w_files w' = persist sid so (w_files w) \<and> (\<forall>s'. so = Some s' \<longrightarrow> score s \<le> score s')"
proof -
  obtain s where s: "load_or_create (w_files w) sid (e_now e) = Inr s"
    using assms by (auto simp: student_run_def)
  show ?thesis
  proof (cases "c = CmdVerify \<or> (\<exists>lid. c = CmdStart lid)")
    case True
    then show ?thesis
    proof
      assume "c = CmdVerify"
      with assms s obtain res so where
        r: "cmd_verify cfg (w_labs w) loads (e_outcome e) (e_now e) s = Inr (res, so)"
           "w_files w' = persist sid so (w_files w)"
        by (auto simp: student_run_def split: prod.splits)
      with s show ?thesis by (intro exI [of _ s] exI [of _ so]) (auto dest: cmd_verify_score)
    next
      assume "\<exists>lid. c = CmdStart lid"
      then obtain lid where "c = CmdStart lid" ..
      with assms s obtain res so where
        r: "cmd_start (w_labs w) (e_now e) lid s = Inr (res, so)"
           "w_files w' = persist sid so (w_files w)"
        by (auto simp: student_run_def split: prod.splits)
      with s show ?thesis by (intro exI [of _ s] exI [of _ so]) (auto dest: cmd_start_score)
    qed
  next
    case False
    with assms have "w_files w' = w_files w" by (auto intro: student_run_keeps_files)
    with s show ?thesis by (intro exI [of _ s] exI [of _ None]) (simp add: persist_def)
  qed
qed

subsection \<open>Properties\<close>

text \<open>C1. In every world that a sequence of student commands, resets and lab edits leaves
  behind, every session file holds a dictionary that decodes to a session record satisfying
  the session invariant: every completed lab and the active lab have an attempt count, every
  attempt count is at least one, no lab is listed twice and the score is not negative.\<close>

theorem reachable_session_inv:
  "reachable cfg loads w \<Longrightarrow> map_of (w_files w) sid = Some st \<Longrightarrow>
   \<exists>j s. st = Stored j \<and> session_of_json j = Some s \<and> session_inv s"
proof -
  assume "reachable cfg loads w" "map_of (w_files w) sid = Some st"
  then have "files_inv (w_files w)" "(sid, st) \<in> set (w_files w)"
    by (auto intro: reachable_files_inv map_of_SomeD)
  then show ?thesis
    by (cases st) (fastforce simp: files_inv_def list_all_iff split: option.splits)+
qed

lemma demo_start_step:
  "ctl_step demo_cfg score_loads (demo_world [])
     (demo_world [(''s1'', Stored (session_json (demo_session 1)))])"
  by (rule ctl_step.student [of _ _ "''s1''" _ "CmdStart ''l1''" "demo_env ''t1'' TimedOut"
                                 "OutStart (Started False)"])
     (simp add: run_simps)

lemma demo_verify_step:
  "ctl_step demo_cfg score_loads (demo_world [(''s1'', Stored (session_json (demo_session 1)))])
     (demo_world [(''s1'', Stored (session_json ((demo_session 1)\<lparr>current_lab := None,
        completed_labs := [''l1''], score := 85\<rparr>)))])"
  by (rule ctl_step.student [of _ _ "''s1''" _ CmdVerify "demo_env ''t2'' (Exited 0 ''85'' '''')"])
     (simp add: run_simps score_loads_def)

theorem reachable_session_inv_witness:
  "reachable demo_cfg score_loads (demo_world [(''s1'', Stored (session_json (demo_session 1)))]) \<and>
   map_of (w_files (demo_world [(''s1'', Stored (session_json (demo_session 1)))])) ''s1''
     = Some (Stored (session_json (demo_session 1))) \<and>
   (\<exists>j s. Stored (session_json (demo_session 1)) = Stored j \<and> session_of_json j = Some s \<and> session_inv s)"
proof -
  have r: "reachable demo_cfg score_loads (demo_world [(''s1'', Stored (session_json (demo_session 1)))])"
    using reachable.init [of demo_cfg score_loads "demo_fs True" True "[]"] demo_start_step
    by (auto simp: demo_world_def intro: reachable.step)
  have m: "map_of (w_files (demo_world [(''s1'', Stored (session_json (demo_session 1)))])) ''s1''
     = Some (Stored (session_json (demo_session 1)))"
    by (simp add: demo_world_def)
  show ?thesis using r m reachable_session_inv [OF r m] by blast
qed

text \<open>C2. One process never lowers a student's stored score: if the student's file
  decodes before and after a step, the score after is at least the score before (a reset
  removes the file, so the claim is about the steps that keep it).\<close>

theorem ctl_step_score_mono:
  assumes "ctl_step cfg loads w w'"
    and "map_of (w_files w) sid = Some (Stored j)" "session_of_json j = Some s"
    and "map_of (w_files w') sid = Some (Stored j')" "session_of_json j' = Some s'"
  shows "score s \<le> score s'"
  using assms
proof (induction rule: ctl_step.induct)
  case (student sid0 w c e out w')
  then obtain s0 so where
    run: "load_or_create (w_files w) sid0 (e_now e) = Inr s0"
         "w_files w' = persist sid0 so (w_files w)" "\<forall>s'. so = Some s' \<longrightarrow> score s0 \<le> score s'"
    by (blast dest: student_run_persist)
  show ?case
  proof (cases "sid0 = sid \<and> so \<noteq> None")
    case True
    with run student.prems have "s0 = s"
      by (simp add: load_or_create_def)
    with True run student.prems show ?thesis
      by (auto simp: map_of_persist session_roundtrip)
  next
    case False
    with run student.prems show ?thesis
      by (auto simp: map_of_persist split: option.splits if_splits)
  qed
qed (auto simp: map_of_reset split: if_splits)

theorem ctl_step_score_mono_witness:
  "score (demo_session 1) \<le> score ((demo_session 1)\<lparr>current_lab := None, completed_labs := [''l1''], score := 85\<rparr>)"
proof -
  have m: "map_of (w_files (demo_world [(''s1'', Stored (session_json (demo_session 1)))])) ''s1''
             = Some (Stored (session_json (demo_session 1)))"
          "map_of (w_files (demo_world [(''s1'', Stored (session_json ((demo_session 1)\<lparr>current_lab := None,
             completed_labs := [''l1''], score := 85\<rparr>)))])) ''s1''
             = Some (Stored (session_json ((demo_session 1)\<lparr>current_lab := None,
             completed_labs := [''l1''], score := 85\<rparr>)))"
    by (simp_all add: demo_world_def)
  show ?thesis
    using ctl_step_score_mono [OF demo_verify_step m(1) session_roundtrip m(2) session_roundtrip] .
qed

text \<open>C3. \<^verbatim>\<open>cmd_verify\<close> on an active lab whose verification returns well-formed
  results with integer score \<open>n\<close> completes the lab with score \<open>n\<close> exactly when
  \<open>n \<ge> 70\<close>; below the threshold the session is not written and stays active, so the
  student may verify again.\<close>

theorem cmd_verify_threshold:
  assumes "current_lab s = Some l" "l \<noteq> []" "load fs l = Inr (Some lab)"
    and "verify cfg fs loads lab outcome now = Inr r"
    and "map_of r ''objectives_met'' = Some (JArr m)" "map_of r ''objectives_failed'' = Some (JArr f)"
    and "map_of r ''feedback'' = Some (JArr fb)" "map_of r ''score'' = Some (JInt n)"
  shows "cmd_verify cfg fs loads outcome now s =
           Inr (if pass_score \<le> n then (Verified r True, Some (complete_lab l n s))
                else (Verified r False, None))"
proof -
  have "lab_id lab = l" using assms(3) by (rule load_lab_id)
  moreover have "report_results r = Inr (JInt n)"
    using assms(5-8) by (simp add: report_results_def dict_index_def py_iter_check_def)
  ultimately show ?thesis
    using assms(1-4) by (simp add: cmd_verify_def py_ge_operand_def)
qed

theorem cmd_verify_threshold_witness:
  "cmd_verify demo_cfg (demo_fs True) score_loads (Exited 0 ''40'' '''') ''t2'' (demo_session 1) =
     Inr (Verified (AList.update ''score'' (JInt 40) (results_init demo_lab ''t2'')) False, None)"
proof -
  have h: "current_lab (demo_session 1) = Some ''l1''" "''l1'' \<noteq> []"
    "load (demo_fs True) ''l1'' = Inr (Some demo_lab)"
    "verify demo_cfg (demo_fs True) score_loads demo_lab (Exited 0 ''40'' '''') ''t2'' =
       Inr (AList.update ''score'' (JInt 40) (results_init demo_lab ''t2''))"
    "map_of (AList.update ''score'' (JInt 40) (results_init demo_lab ''t2'')) ''objectives_met'' = Some (JArr [])"
    "map_of (AList.update ''score'' (JInt 40) (results_init demo_lab ''t2'')) ''objectives_failed'' = Some (JArr [])"
    "map_of (AList.update ''score'' (JInt 40) (results_init demo_lab ''t2'')) ''feedback'' = Some (JArr [])"
    "map_of (AList.update ''score'' (JInt 40) (results_init demo_lab ''t2'')) ''score'' = Some (JInt 40)"
    by (simp_all add: run_simps score_loads_def)
  show ?thesis using cmd_verify_threshold [OF h] by (simp add: pass_score_def)
qed


text \<open>C8. The hint policy of spec section 4.1: on an active, started lab with a non-empty
  hint list, \<^verbatim>\<open>cmd_hint\<close> shows the hint at index \<open>min(attempt - 1, k - 1)\<close> for
  \<open>k\<close> hints, which lies in the list, so attempts beyond the last hint keep showing the
  last one and never index out of range.\<close>

theorem cmd_hint_clamp:
  assumes "session_inv s" "current_lab s = Some l" "l \<noteq> []" "load fs l = Inr (Some lab)"
    and "hints lab = JArr hs" "hs \<noteq> []"
  shows "\<exists>i. i = min (attempt_count s l - 1) (int (length hs) - 1) \<and> 0 \<le> i \<and> i < int (length hs) \<and>
             cmd_hint fs s = Inr (Hint (i + 1) (hs ! nat i))"
proof -
  have started: "l \<in> set (map fst (attempts s))"
    using assms(1,2) by (simp add: session_inv_def)
  then have a: "1 \<le> attempt_count s l" using assms(1) by (intro attempt_count_pos)
  have id: "lab_id lab = l" using assms(4) by (rule load_lab_id)
  define i where "i = min (attempt_count s l - 1) (int (length hs) - 1)"
  have range: "0 \<le> i" "i < int (length hs)"
    using a assms(6) by (auto simp: i_def)
  then have "select_hint (JArr hs) (attempt_count s l) = Inr (Hint (i + 1) (hs ! nat i))"
    by (simp add: select_hint_def i_def py_list_index_nonneg Let_def)
  with assms(2-6) id started have "cmd_hint fs s = Inr (Hint (i + 1) (hs ! nat i))"
    by (simp add: cmd_hint_def hint_attempt_started)
  with range i_def show ?thesis by blast
qed

theorem cmd_hint_clamp_witness:
  "cmd_hint (demo_fs True) (demo_session 5) = Inr (Hint 2 (JStr ''h2''))"
proof -
  have h: "session_inv (demo_session 5)" "current_lab (demo_session 5) = Some ''l1''" "''l1'' \<noteq> []"
    "load (demo_fs True) ''l1'' = Inr (Some demo_lab)" "hints demo_lab = JArr [JStr ''h1'', JStr ''h2'']"
    "[JStr ''h1'', JStr ''h2''] \<noteq> []"
    by (simp_all add: run_simps session_inv_def)
  show ?thesis
    using cmd_hint_clamp [OF h] by (simp add: demo_session_def attempt_count_def)
qed

text \<open>C15. A verification result whose \<^verbatim>\<open>score\<close> is not a number (a script printing
  \<^verbatim>\<open>{"score": "A"}\<close>) passes \<^verbatim>\<open>verify\<close> unchecked and makes \<^verbatim>\<open>cmd_verify\<close> raise
  \<^verbatim>\<open>TypeError\<close> at the comparison with 70: the command aborts instead of degrading to
  score 0, and nothing is written.\<close>

theorem cmd_verify_score_not_number:
  assumes "current_lab s = Some l" "l \<noteq> []" "load fs l = Inr (Some lab)"
    and "verify cfg fs loads lab outcome now = Inr r"
    and "map_of r ''objectives_met'' = Some (JArr m)" "map_of r ''objectives_failed'' = Some (JArr f)"
    and "map_of r ''feedback'' = Some (JArr fb)" "map_of r ''score'' = Some v" "py_num v = None"
  shows "cmd_verify cfg fs loads outcome now s =
           Inl (TypeError (quoted ''>='' @ '' not supported between instances of '' @
                           quoted (py_type_name v) @ '' and '' @ quoted ''int''))"
proof -
  have "report_results r = Inr v"
    using assms(5-8) by (simp add: report_results_def dict_index_def py_iter_check_def)
  with assms(1-4,9) show ?thesis
    by (simp add: cmd_verify_def py_ge_operand_def)
qed

theorem cmd_verify_score_not_number_witness:
  "cmd_verify demo_cfg (demo_fs True) (\<lambda>_. Inr (JObj [(''score'', JStr ''A'')])) (Exited 0 ''out'' '''')
     ''t2'' (demo_session 1) =
   Inl (TypeError (quoted ''>='' @ '' not supported between instances of '' @
                   quoted ''str'' @ '' and '' @ quoted ''int''))"
proof -
  have h: "current_lab (demo_session 1) = Some ''l1''" "''l1'' \<noteq> []"
    "load (demo_fs True) ''l1'' = Inr (Some demo_lab)"
    "verify demo_cfg (demo_fs True) (\<lambda>_. Inr (JObj [(''score'', JStr ''A'')])) demo_lab (Exited 0 ''out'' '''') ''t2'' =
       Inr (AList.update ''score'' (JStr ''A'') (results_init demo_lab ''t2''))"
    "map_of (AList.update ''score'' (JStr ''A'') (results_init demo_lab ''t2'')) ''objectives_met'' = Some (JArr [])"
    "map_of (AList.update ''score'' (JStr ''A'') (results_init demo_lab ''t2'')) ''objectives_failed'' = Some (JArr [])"
    "map_of (AList.update ''score'' (JStr ''A'') (results_init demo_lab ''t2'')) ''feedback'' = Some (JArr [])"
    "map_of (AList.update ''score'' (JStr ''A'') (results_init demo_lab ''t2'')) ''score'' = Some (JStr ''A'')"
    "py_num (JStr ''A'') = None"
    by (simp_all add: run_simps)
  show ?thesis using cmd_verify_score_not_number [OF h] by simp
qed

text \<open>C18. Starting a lab that has no \<^verbatim>\<open>lab.json\<close> reports that the lab is not found and
  leaves the world as it was: no attempt is counted and no file is written.\<close>

theorem start_missing_lab:
  "lab_json_file (w_labs w) lid = None \<Longrightarrow> load_or_create (w_files w) sid (e_now e) = Inr s \<Longrightarrow>
   student_run cfg loads sid w (CmdStart lid) e = Inr (OutStart StartLabNotFound, w)"
  by (simp add: student_run_def cmd_start_def load_def persist_def)

theorem start_missing_lab_witness:
  "student_run demo_cfg score_loads ''s1'' (demo_world []) (CmdStart ''l9'') (demo_env ''t1'' TimedOut) =
   Inr (OutStart StartLabNotFound, demo_world [])"
proof -
  have h: "lab_json_file (w_labs (demo_world [])) ''l9'' = None"
    "load_or_create (w_files (demo_world [])) ''s1'' (e_now (demo_env ''t1'' TimedOut)) =
       Inr (new_session ''s1'' ''t1'')"
    by (simp_all add: run_simps)
  show ?thesis using start_missing_lab [OF h] .
qed


text \<open>C21. Chat is orthogonal to the lab state machine (spec section 4.5): in any session
  state, \<^verbatim>\<open>lab-ctl student chat\<close> returns normally, whatever the model server does, and
  changes only the agent log, never the session files or the lab tree.\<close>

theorem chat_keeps_sessions:
  "load_or_create (w_files w) sid (e_now e) = Inr s \<Longrightarrow>
   \<exists>out logs'. student_run cfg loads sid w (CmdChat name message) e = Inr (out, w\<lparr>w_logs := logs'\<rparr>)"
  by (auto simp: student_run_def split: prod.splits)

theorem chat_keeps_sessions_witness:
  "student_run demo_cfg score_loads ''s1'' (demo_world []) (CmdChat ''RED'' ''scan target'') (demo_env ''t1'' TimedOut) =
   Inr (OutChat (ChatResponse (JStr ''Error communicating with red-qwen-agent: connection refused'')),
        (demo_world [])\<lparr>w_logs := [(''agent_interactions_20260101.log'',
            log_line ''t1'' ''RED'' ''scan target'' @
            log_line ''t1'' ''RED_RESPONSE'' ''Error communicating with red-qwen-agent: connection refused'')]\<rparr>)"
proof -
  have h: "load_or_create (w_files (demo_world [])) ''s1'' (e_now (demo_env ''t1'' TimedOut)) =
             Inr (new_session ''s1'' ''t1'')"
    by (simp add: run_simps)
  obtain out logs' where
    "student_run demo_cfg score_loads ''s1'' (demo_world []) (CmdChat ''RED'' ''scan target'') (demo_env ''t1'' TimedOut)
       = Inr (out, (demo_world [])\<lparr>w_logs := logs'\<rparr>)"
    using chat_keeps_sessions [OF h] by blast
  then show ?thesis
    by (simp add: run_simps cmd_chat_def parse_agent_def ascii_lower_def send_to_agent_def chat_def
                  log_append_def log_file_name_def)
qed

section \<open>Progress\<close>

lemma files_inv_load_ok:
  "files_inv files \<Longrightarrow> \<exists>s. load_or_create files sid now = Inr s"
  by (auto simp: files_inv_def load_or_create_def list_all_iff
           dest!: map_of_SomeD split: option.splits stored.splits)

lemma student_run_start:
  assumes "load_or_create (w_files w) sid (e_now e) = Inr s"
      and "load (w_labs w) lid = Inr (Some lab)" "py_iter_check (objectives lab) = Inr ()"
  shows "\<exists>out. student_run cfg loads sid w (CmdStart lid) e =
           Inr (out, w\<lparr>w_files := save sid (start_lab lid (e_now e) s) (w_files w)\<rparr>)"
  using assms by (simp add: student_run_def cmd_start_def persist_def py_bind_def)

text \<open>A verification whose script exits with 0 and prints a dictionary with a passing
  score completes the active lab and saves the session.\<close>

lemma student_run_verify_pass:
  assumes "load_or_create (w_files w) sid (e_now e) = Inr s"
      and "current_lab s = Some lid" "lid \<noteq> []"
      and "load (w_labs w) lid = Inr (Some lab)"
      and "get_verification_script cfg (w_labs w) lab = Some path"
      and "e_outcome e = Exited 0 out err" "loads out = Inr (JObj [(''score'', JInt n)])"
      and "pass_score \<le> n"
  shows "\<exists>out. student_run cfg loads sid w CmdVerify e =
           Inr (out, w\<lparr>w_files := save sid (complete_lab lid n s) (w_files w)\<rparr>)"
proof -
  have l: "lab_id lab = lid" using load_lab_id[OF assms(4)] .
  have v: "verify cfg (w_labs w) loads lab (e_outcome e) (e_now e) =
           Inr (dict_set ''score'' (JInt n) (results_init lab (e_now e)))"
    using assms(5-7) by (simp add: verify_def run_script_def)
  have r: "report_results (dict_set ''score'' (JInt n) (results_init lab (e_now e))) = Inr (JInt n)"
    by (simp add: report_results_def results_init_def dict_index_def py_iter_check_def py_bind_def)
  show ?thesis
    using assms(1-4,8) v r l
    by (simp add: student_run_def cmd_verify_def persist_def py_bind_def py_ge_operand_def)
qed

text \<open>C17. Progress (liveness): in every reachable world, whatever the other students,
  resets and edits did before, any student can complete any lab that loads, whose
  objectives can be listed and that has a \<^verbatim>\<open>verify.py\<close>: a \<^verbatim>\<open>start\<close> followed by a
  \<^verbatim>\<open>verify\<close> whose script prints a passing score reaches a world where the student's
  session file lists the lab as completed. No reachable session file blocks a student.\<close>

theorem lab_completion_reachable:
  assumes "reachable cfg loads w"
      and "lid \<noteq> []" "load (w_labs w) lid = Inr (Some lab)" "py_iter_check (objectives lab) = Inr ()"
      and "get_verification_script cfg (w_labs w) lab \<noteq> None"
      and "loads out = Inr (JObj [(''score'', JInt n)])" "pass_score \<le> n"
  shows "\<exists>w1 w2. ctl_step cfg loads w w1 \<and> ctl_step cfg loads w1 w2 \<and>
           (\<exists>s. map_of (w_files w2) sid = Some (Stored (session_json s)) \<and> lid \<in> set (completed_labs s))"
proof -
  obtain path where p: "get_verification_script cfg (w_labs w) lab = Some path" using assms(5) by blast
  define e where "e = \<lparr>e_now = ''t'', e_later = ''t'', e_day = ''d'', e_outcome = Exited 0 out '''',
                       e_post = (\<lambda>_. HttpError ''''), e_input = ''''\<rparr>"
  obtain s where s: "load_or_create (w_files w) sid (e_now e) = Inr s"
    using files_inv_load_ok[OF reachable_files_inv[OF assms(1)]] by blast
  define s1 where "s1 = start_lab lid (e_now e) s"
  define w1 where "w1 = w\<lparr>w_files := save sid s1 (w_files w)\<rparr>"
  obtain o1 where 1: "student_run cfg loads sid w (CmdStart lid) e = Inr (o1, w1)"
    using student_run_start[OF s assms(3,4)] by (auto simp: w1_def s1_def)
  have s1: "load_or_create (w_files w1) sid (e_now e) = Inr s1"
    by (simp add: w1_def load_or_create_def map_of_save session_roundtrip)
  have c: "current_lab s1 = Some lid" by (simp add: s1_def start_lab_def)
  obtain o2 where 2: "student_run cfg loads sid w1 CmdVerify e =
                      Inr (o2, w1\<lparr>w_files := save sid (complete_lab lid n s1) (w_files w1)\<rparr>)"
    using student_run_verify_pass[OF s1 c assms(2), of lab cfg path out "''''" loads n] assms(3,6,7) p
    by (auto simp: w1_def e_def)
  have "map_of (w_files (w1\<lparr>w_files := save sid (complete_lab lid n s1) (w_files w1)\<rparr>)) sid =
        Some (Stored (session_json (complete_lab lid n s1)))"
    by (simp add: map_of_save)
  moreover have "lid \<in> set (completed_labs (complete_lab lid n s1))" by (simp add: complete_lab_def)
  ultimately show ?thesis using ctl_step.student[OF 1] ctl_step.student[OF 2] by blast
qed

theorem lab_completion_reachable_witness:
  "reachable demo_cfg score_loads (demo_world []) \<and> ''l1'' \<noteq> [] \<and>
   load (w_labs (demo_world [])) ''l1'' = Inr (Some demo_lab) \<and> py_iter_check (objectives demo_lab) = Inr () \<and>
   get_verification_script demo_cfg (w_labs (demo_world [])) demo_lab \<noteq> None \<and>
   score_loads ''85'' = Inr (JObj [(''score'', JInt 85)]) \<and> pass_score \<le> 85 \<and>
   (\<exists>w1 w2. ctl_step demo_cfg score_loads (demo_world []) w1 \<and> ctl_step demo_cfg score_loads w1 w2 \<and>
      (\<exists>s. map_of (w_files w2) ''s1'' = Some (Stored (session_json s)) \<and> ''l1'' \<in> set (completed_labs s)))"
proof -
  have r: "reachable demo_cfg score_loads (demo_world [])"
    using reachable.init [of demo_cfg score_loads "demo_fs True" True "[]"] by (simp add: demo_world_def)
  have l: "load (w_labs (demo_world [])) ''l1'' = Inr (Some demo_lab)"
    by (simp add: demo_world_def load_def lab_json_file_def demo_fs_def lab_definition_init_def
                  dict_get_default_def demo_lab_def)
  have o: "py_iter_check (objectives demo_lab) = Inr ()" by (simp add: demo_lab_def py_iter_check_def)
  have g: "get_verification_script demo_cfg (w_labs (demo_world [])) demo_lab \<noteq> None"
    by (simp add: get_verification_script_def demo_world_def demo_fs_def demo_lab_def)
  have sl: "score_loads ''85'' = Inr (JObj [(''score'', JInt 85)])" by (simp add: score_loads_def)
  have p: "pass_score \<le> 85" by (simp add: pass_score_def)
  show ?thesis
    using r l o g sl p lab_completion_reachable [OF r _ l o g sl p, of "''s1''"] by simp
qed


end
