(* ===== verification/Cli_Main.thy ===== *)
theory Cli_Main
  imports Controller "HOL-Library.Char_ord" "HOL-Library.List_Lexorder"
begin

text \<open>
  One invocation of \<^verbatim>\<open>lab-controller.py\<close> as \<^verbatim>\<open>main\<close> runs it: the argument list is
  parsed into a command (\<open>parse_argv\<close>, with the usage and unknown-command branches), the
  command runs over the world of \<open>Controller\<close> (\<open>main_run\<close>). This theory adds the
  commands the controller theory leaves out: \<^verbatim>\<open>StudentCLI.cmd_list\<close>, which creates the
  example lab when \<^verbatim>\<open>Config.LABS_DIR\<close> is missing, and the instructor's
  \<^verbatim>\<open>cmd_monitor\<close>, \<^verbatim>\<open>cmd_grade\<close>, \<^verbatim>\<open>cmd_reset\<close> (with the typed confirmation)
  and \<^verbatim>\<open>cmd_stats\<close>. What these print is returned as a value; the formatting of the text is
  not modelled. The lemmas show that every invocation is a step of \<open>ctl_step\<close> or leaves the
  world unchanged, so the invariants proved over \<open>reachable\<close> hold for every sequence of
  invocations. Invocations are also run as the independent processes they are
  (\<open>run_each\<close>), and a crash between the truncating \<^verbatim>\<open>open\<close> and the write of
  \<^verbatim>\<open>save\<close> is a step (\<open>cli_reachable\<close>): the file it tears stays torn.
\<close>

section \<open>Listing the labs\<close>

text \<open>One iteration of the loop of \<^verbatim>\<open>cmd_list\<close> over the lab directories: a directory
  with a \<^verbatim>\<open>lab.json\<close> is loaded and listed with its completion mark, title, difficulty
  and number of objectives.\<close>

definition list_entry ::
  "session \<Rightarrow> labs_fs \<Rightarrow> string \<Rightarrow> pyerr + (bool \<times> string \<times> json \<times> json \<times> int) option" where
  "list_entry s fs n =
     (case map_of fs n of
        None \<Rightarrow> Inr None
      | Some d \<Rightarrow>
          if lab_json d = None then Inr None
          else py_bind (load fs n) (\<lambda>lo.
                 case lo of
                   None \<Rightarrow> Inr None
                 | Some lab \<Rightarrow>
                     py_bind (py_len (objectives lab)) (\<lambda>k.
                       Inr (Some (n \<in> set (completed_labs s), lab_id lab, title lab, difficulty lab, k)))))"

datatype list_out = ListCreatedExample | Listed "(bool \<times> string \<times> json \<times> json \<times> int) list"

text \<open>\<^verbatim>\<open>cmd_list\<close>: without a labs directory it creates the example lab and lists
  nothing; otherwise it goes through \<^verbatim>\<open>sorted(labs_dir.iterdir())\<close>.\<close>

definition cmd_list :: "world \<Rightarrow> session \<Rightarrow> pyerr + (list_out \<times> world)" where
  "cmd_list w s =
     (if \<not> w_labs_dir w
      then Inr (ListCreatedExample, w\<lparr>w_labs := create_example_labs (w_labs w), w_labs_dir := True\<rparr>)
      else py_bind (py_mapM (list_entry s (w_labs w)) (sort (remdups (map fst (w_labs w)))))
             (\<lambda>es. Inr (Listed (List.map_filter id es), w)))"

section \<open>The instructor commands\<close>

text \<open>\<^verbatim>\<open>json.load\<close> of a student's file, as \<^verbatim>\<open>StudentSession.__init__\<close> does
  before \<^verbatim>\<open>cmd_reset\<close> unlinks it and as \<^verbatim>\<open>cmd_stats\<close> does for every file.\<close>

definition json_load_file :: "stored \<Rightarrow> pyerr + json" where
  "json_load_file st = (case st of Stored j \<Rightarrow> Inr j | Torn msg \<Rightarrow> Inl (JSONDecodeError msg))"

definition cmd_monitor ::
  "world \<Rightarrow> string \<Rightarrow> string \<Rightarrow> string \<Rightarrow> pyerr + (progress \<times> string list option)" where
  "cmd_monitor w now day sid =
     py_bind (load_or_create (w_files w) sid now) (\<lambda>s.
       Inr (get_progress sid s,
            if map_of (w_logs w) (log_file_name day) = None then None
            else Some (recent_entries day (w_logs w))))"

definition cmd_grade ::
  "world \<Rightarrow> string \<Rightarrow> string \<Rightarrow> pyerr + (progress \<times> (bool \<times> string \<times> int) list)" where
  "cmd_grade w now sid =
     py_bind (load_or_create (w_files w) sid now) (\<lambda>s.
       Inr (get_progress sid s,
            map (\<lambda>(l, n). (l \<in> set (completed_labs s), l, n)) (attempts s)))"

text \<open>\<^verbatim>\<open>cmd_reset\<close>: \<^verbatim>\<open>StudentSession(student_id)\<close> reads the file before it is
  unlinked, and only the answer \<^verbatim>\<open>yes\<close> (in any case) proceeds.\<close>

definition cmd_reset :: "world \<Rightarrow> string \<Rightarrow> string \<Rightarrow> pyerr + (bool \<times> world)" where
  "cmd_reset w confirm sid =
     (if ascii_lower confirm = ''yes''
      then py_bind (case map_of (w_files w) sid of
                      None \<Rightarrow> Inr JNull
                    | Some st \<Rightarrow> json_load_file st) (\<lambda>_.
             Inr (True, w\<lparr>w_files := reset sid (w_files w)\<rparr>))
      else Inr (False, w))"

text \<open>\<^verbatim>\<open>sum\<close> starts from the integer 0: \<^verbatim>\<open>0 + v\<close>.\<close>

definition int_plus_json :: "int \<Rightarrow> json \<Rightarrow> pyerr + int" where
  "int_plus_json k v =
     (case py_num v of
        Some n \<Rightarrow> Inr (k + n)
      | None \<Rightarrow> Inl (TypeError (''unsupported operand type(s) for +: '' @ quoted ''int'' @ '' and '' @
                               quoted (py_type_name v))))"

text \<open>\<^verbatim>\<open>sum(f(x) for x in xs)\<close>: each element is read and added in turn.\<close>

fun py_sum :: "(json \<Rightarrow> pyerr + json) \<Rightarrow> int \<Rightarrow> json list \<Rightarrow> pyerr + int" where
  "py_sum f k [] = Inr k"
| "py_sum f k (v # vs) = py_bind (f v) (\<lambda>x. py_bind (int_plus_json k x) (\<lambda>k'. py_sum f k' vs))"

text \<open>\<^verbatim>\<open>cmd_stats\<close>: the number of students, the number of completions and the sum of
  the scores, whose quotient by the number of students is printed as the average; \<open>None\<close>
  when there is no student file.\<close>

definition cmd_stats :: "world \<Rightarrow> pyerr + (nat \<times> int \<times> int) option" where
  "cmd_stats w =
     py_bind (py_mapM (\<lambda>(_, st). json_load_file st) (w_files w)) (\<lambda>all.
       if all = [] then Inr None
       else py_bind (py_mapM (\<lambda>j. py_bind (py_getitem_str j ''completed_labs'') py_len) all) (\<lambda>ls.
            py_bind (py_sum (\<lambda>j. py_getitem_str j ''score'') 0 all) (\<lambda>total.
              Inr (Some (length all, sum_list ls, total)))))"

section \<open>The command line\<close>

datatype student_line = SCmd student_cmd | SList | SUsage | SUnknown

datatype instructor_line =
    IDashboard | IMonitor string | IGrade string | IReset string | IStats | IUsage | IUnknown

datatype cli_line = NoArgs | Student student_line | Instructor instructor_line | BadMode

text \<open>The dispatch of \<^verbatim>\<open>main\<close> on \<^verbatim>\<open>sys.argv[1:]\<close>: a command whose argument is
  missing falls through to the unknown-command branch.\<close>

fun parse_student :: "string list \<Rightarrow> student_line" where
  "parse_student [] = SUsage"
| "parse_student (c # rest) =
     (if c = ''list'' then SList
      else if c = ''start'' \<and> rest \<noteq> [] then SCmd (CmdStart (hd rest))
      else if c = ''verify'' then SCmd CmdVerify
      else if c = ''hint'' then SCmd CmdHint
      else if c = ''chat'' \<and> 1 < length rest then SCmd (CmdChat (hd rest) (py_join '' '' (tl rest)))
      else if c = ''status'' then SCmd CmdStatus
      else SUnknown)"

fun parse_instructor :: "string list \<Rightarrow> instructor_line" where
  "parse_instructor [] = IUsage"
| "parse_instructor (c # rest) =
     (if c = ''dashboard'' then IDashboard
      else if c = ''monitor'' \<and> rest \<noteq> [] then IMonitor (hd rest)
      else if c = ''grade'' \<and> rest \<noteq> [] then IGrade (hd rest)
      else if c = ''reset'' \<and> rest \<noteq> [] then IReset (hd rest)
      else if c = ''stats'' then IStats
      else IUnknown)"

fun parse_argv :: "string list \<Rightarrow> cli_line" where
  "parse_argv [] = NoArgs"
| "parse_argv (mode # rest) =
     (if mode = ''student'' then Student (parse_student rest)
      else if mode = ''instructor'' then Instructor (parse_instructor rest)
      else BadMode)"

datatype main_out =
    OutUsage | OutUnknown | OutBadMode | OutDashboard
  | OutStudent cli_out | OutList list_out
  | OutMonitor progress "string list option" | OutGrade progress "(bool \<times> string \<times> int) list"
  | OutReset bool | OutStats "(nat \<times> int \<times> int) option"

text \<open>One run of \<^verbatim>\<open>main\<close>. \<^verbatim>\<open>StudentCLI()\<close> loads the session of
  \<^verbatim>\<open>student-01\<close> before the command is looked at, so even the usage message needs a
  readable session file.\<close>

definition main_run ::
  "lab_config \<Rightarrow> json_loads \<Rightarrow> world \<Rightarrow> string list \<Rightarrow> env \<Rightarrow> pyerr + (main_out \<times> world)" where
  "main_run cfg loads w args e =
     (case parse_argv args of
        NoArgs \<Rightarrow> Inr (OutUsage, w)
      | BadMode \<Rightarrow> Inr (OutBadMode, w)
      | Student sl \<Rightarrow>
          py_bind (load_or_create (w_files w) student_cli_id (e_now e)) (\<lambda>s.
            case sl of
              SUsage \<Rightarrow> Inr (OutUsage, w)
            | SUnknown \<Rightarrow> Inr (OutUnknown, w)
            | SList \<Rightarrow> py_bind (cmd_list w s) (\<lambda>(out, w'). Inr (OutList out, w'))
            | SCmd c \<Rightarrow>
                py_bind (student_run cfg loads student_cli_id w c e) (\<lambda>(out, w'). Inr (OutStudent out, w')))
      | Instructor il \<Rightarrow>
          (case il of
             IUsage \<Rightarrow> Inr (OutUsage, w)
           | IUnknown \<Rightarrow> Inr (OutUnknown, w)
           | IDashboard \<Rightarrow> Inr (OutDashboard, w)
           | IMonitor sid \<Rightarrow>
               py_bind (cmd_monitor w (e_now e) (e_day e) sid) (\<lambda>(p, r). Inr (OutMonitor p r, w))
           | IGrade sid \<Rightarrow> py_bind (cmd_grade w (e_now e) sid) (\<lambda>(p, rows). Inr (OutGrade p rows, w))
           | IReset sid \<Rightarrow> py_bind (cmd_reset w (e_input e) sid) (\<lambda>(done, w'). Inr (OutReset done, w'))
           | IStats \<Rightarrow> py_bind (cmd_stats w) (\<lambda>r. Inr (OutStats r, w))))"

text \<open>A sequence of invocations, stopping at the first that raises.\<close>

fun run_main :: "lab_config \<Rightarrow> json_loads \<Rightarrow> world \<Rightarrow> (string list \<times> env) list \<Rightarrow> pyerr + world" where
  "run_main cfg loads w [] = Inr w"
| "run_main cfg loads w ((args, e) # rest) =
     py_bind (main_run cfg loads w args e) (\<lambda>(_, w'). run_main cfg loads w' rest)"

definition demo_start_world :: world where
  "demo_start_world = \<lparr>w_labs = demo_fs True, w_labs_dir = True,
     w_files = [(''student-01'', Stored (session_json (start_lab ''l1'' ''t1'' (new_session ''student-01'' ''t1''))))],
     w_logs = []\<rparr>"

text \<open>Invocations as the independent processes they are: one that raises ends with a
  traceback and leaves the world as it found it (every command's writes come after all
  that may raise), and the next one runs anyway.\<close>

fun run_each :: "lab_config \<Rightarrow> json_loads \<Rightarrow> world \<Rightarrow> (string list \<times> env) list \<Rightarrow> world" where
  "run_each cfg loads w [] = w"
| "run_each cfg loads w ((args, e) # rest) =
     run_each cfg loads (case main_run cfg loads w args e of Inl _ \<Rightarrow> w | Inr (_, w') \<Rightarrow> w') rest"

text \<open>The worlds reachable by command lines and by crashes: \<^verbatim>\<open>save\<close> opens the file with
  \<^verbatim>\<open>'w'\<close>, which truncates it, and then writes the JSON text, so a process killed in
  between leaves a file that no longer parses (\<open>Torn\<close>, with the message
  \<^verbatim>\<open>json.load\<close> will give). Only a student process that saves can be cut there.\<close>

inductive cli_reachable :: "lab_config \<Rightarrow> json_loads \<Rightarrow> world \<Rightarrow> bool"
  for cfg :: lab_config and loads :: json_loads where
  init: "cli_reachable cfg loads \<lparr>w_labs = fs, w_labs_dir = d, w_files = [], w_logs = logs\<rparr>"
| run: "cli_reachable cfg loads w \<Longrightarrow> main_run cfg loads w args e = Inr (out, w') \<Longrightarrow> cli_reachable cfg loads w'"
| crash: "cli_reachable cfg loads w \<Longrightarrow> parse_argv args = Student (SCmd c) \<Longrightarrow>
    main_run cfg loads w args e = Inr (out, w') \<Longrightarrow> w_files w' = save student_cli_id s (w_files w) \<Longrightarrow>
    cli_reachable cfg loads (w\<lparr>w_files := AList.update student_cli_id (Torn msg) (w_files w)\<rparr>)"

section \<open>Every invocation is a step of the controller\<close>

lemma cmd_list_world:
  "cmd_list w s = Inr (out, w') \<Longrightarrow> w' = w \<or> (\<exists>fs d. w' = w\<lparr>w_labs := fs, w_labs_dir := d\<rparr>)"
  by (auto simp: cmd_list_def split: if_splits)

lemma cmd_reset_world:
  "cmd_reset w c sid = Inr (done, w') \<Longrightarrow> w' = w \<or> (\<exists>sid'. w' = w\<lparr>w_files := reset sid' (w_files w)\<rparr>)"
  by (auto simp: cmd_reset_def split: if_splits)

text \<open>A run of \<^verbatim>\<open>main\<close> changes the world only as \<open>ctl_step\<close> allows: a student
  process, the listing (an edit of the lab tree), or a reset.\<close>

lemma main_run_step:
  assumes "main_run cfg loads w args e = Inr (out, w')"
  shows "w' = w \<or> ctl_step cfg loads w w'"
proof (cases "parse_argv args")
  case (Student sl)
  then show ?thesis
  proof (cases sl)
    case SList
    with Student assms obtain s out' where "cmd_list w s = Inr (out', w')"
      by (auto simp: main_run_def split: prod.splits)
    then show ?thesis by (blast dest: cmd_list_world intro: ctl_step.edit_labs)
  next
    case (SCmd c)
    with Student assms obtain out' where "student_run cfg loads student_cli_id w c e = Inr (out', w')"
      by (auto simp: main_run_def split: prod.splits)
    then show ?thesis by (blast intro: ctl_step.student)
  qed (use Student assms in \<open>auto simp: main_run_def\<close>)
next
  case (Instructor il)
  then show ?thesis
  proof (cases il)
    case (IReset sid)
    with Instructor assms obtain d where "cmd_reset w (e_input e) sid = Inr (d, w')"
      by (auto simp: main_run_def split: prod.splits)
    then show ?thesis by (blast dest: cmd_reset_world intro: ctl_step.reset_student)
  qed (use Instructor assms in \<open>auto simp: main_run_def split: prod.splits\<close>)
qed (use assms in \<open>auto simp: main_run_def\<close>)

lemma run_main_reachable:
  "reachable cfg loads w \<Longrightarrow> run_main cfg loads w invs = Inr w' \<Longrightarrow> reachable cfg loads w'"
proof (induction invs arbitrary: w)
  case (Cons ae invs)
  obtain args e where ae: "ae = (args, e)" by (cases ae)
  with Cons.prems obtain out w1 where m: "main_run cfg loads w args e = Inr (out, w1)"
      and r: "run_main cfg loads w1 invs = Inr w'"
    by (auto split: sum.splits prod.splits simp: py_bind_def)
  have "reachable cfg loads w1"
    using main_run_step[OF m] Cons.prems(1) by (auto intro: reachable.step)
  then show ?case using Cons.IH r by blast
qed simp

section \<open>Crashes during a save\<close>

lemma student_run_other_file:
  "student_run cfg loads sid0 w c e = Inr (out, w') \<Longrightarrow> sid \<noteq> sid0 \<Longrightarrow>
   map_of (w_files w') sid = map_of (w_files w) sid"
  by (cases c) (auto simp: student_run_def cmd_status_def map_of_persist split: prod.splits option.splits)

lemma load_or_create_torn:
  "map_of files sid = Some (Torn m) \<Longrightarrow> load_or_create files sid now = Inl (JSONDecodeError m)"
  by (simp add: load_or_create_def)

text \<open>No single invocation that returns changes a torn file: a student process raises on
  its own torn file and writes only its own; the reset raises on the file it would unlink
  (or was not confirmed), and the other commands write no session file.\<close>

lemma main_run_keeps_torn:
  assumes "map_of (w_files w) sid = Some (Torn m)" "main_run cfg loads w args e = Inr (out, w')"
  shows "map_of (w_files w') sid = Some (Torn m)"
proof (cases "parse_argv args")
  case (Student sl)
  have ne: "sid \<noteq> student_cli_id"
    using assms Student by (auto simp: main_run_def load_or_create_torn py_bind_def)
  show ?thesis
  proof (cases sl)
    case SList
    with Student assms obtain s out' where "cmd_list w s = Inr (out', w')"
      by (auto simp: main_run_def split: prod.splits)
    then show ?thesis using assms(1) by (auto dest: cmd_list_world)
  next
    case (SCmd c)
    with Student assms obtain out' where "student_run cfg loads student_cli_id w c e = Inr (out', w')"
      by (auto simp: main_run_def split: prod.splits)
    then show ?thesis using student_run_other_file ne assms(1) by metis
  qed (use Student assms in \<open>auto simp: main_run_def\<close>)
next
  case (Instructor il)
  then show ?thesis
  proof (cases il)
    case (IReset sid')
    with Instructor assms obtain d where r: "cmd_reset w (e_input e) sid' = Inr (d, w')"
      by (auto simp: main_run_def split: prod.splits)
    then show ?thesis using assms(1)
      by (cases "sid' = sid")
         (auto simp: cmd_reset_def json_load_file_def py_bind_def map_of_reset
               split: if_splits option.splits sum.splits stored.splits)
  qed (use Instructor assms in \<open>auto simp: main_run_def split: prod.splits\<close>)
qed (use assms in \<open>auto simp: main_run_def\<close>)

lemma crash_tears_file:
  "cli_reachable cfg loads \<lparr>w_labs = demo_fs True, w_labs_dir = True,
     w_files = [(student_cli_id, Torn ''Expecting value'')], w_logs = []\<rparr>"
proof -
  let ?w0 = "\<lparr>w_labs = demo_fs True, w_labs_dir = True, w_files = [], w_logs = []\<rparr>"
  have i: "cli_reachable cfg loads ?w0" by (rule cli_reachable.init)
  obtain out where m: "main_run cfg loads ?w0 [''student'', ''start'', ''l1''] (demo_env ''t1'' TimedOut) =
      Inr (out, ?w0\<lparr>w_files := save student_cli_id
                      (start_lab ''l1'' ''t1'' (new_session student_cli_id ''t1'')) []\<rparr>)"
    by (simp add: main_run_def run_simps)
  show ?thesis
    using cli_reachable.crash[OF i _ m, of "CmdStart ''l1''" _ "''Expecting value''"] by simp
qed

section \<open>Lemmas on the listing and the statistics\<close>

lemma load_example_lab:
  "load (create_example_labs fs) ''lab-01-recon'' =
     Inr (Some \<lparr>lab_id = ''lab-01-recon'', title = JStr ''Basic Network Reconnaissance'',
        description = JStr ''Learn to enumerate network services using AI agents'',
        difficulty = JStr ''beginner'',
        objectives = JArr [JStr ''Identify all open ports on the target'',
                           JStr ''Determine the operating system'', JStr ''Find the SSH version''],
        hints = JArr [JStr ''Try asking the red agent to scan for open ports'',
                      JStr ''Use nmap or similar tools through the agent'',
                      JStr ''Check common ports: 22, 80, 443''],
        time_limit = JInt 3600, verification_script = JNull\<rparr>)"
  by (simp add: create_example_labs_def load_def lab_json_file_def example_lab_config_def update_conv'
                lab_definition_init_def dict_get_default_def)

lemma session_dict_lookup:
  "dict_index (session_dict s) ''completed_labs'' = Inr (JArr (map JStr (completed_labs s)))"
  "dict_index (session_dict s) ''score'' = Inr (JInt (score s))"
  by (simp_all add: dict_index_def session_dict_def split: option.splits)

lemma stats_load_all:
  "py_mapM (\<lambda>(_, st). json_load_file st) (map (\<lambda>(sid, s). (sid, Stored (session_json s))) xs) =
   Inr (map (\<lambda>(_, s). session_json s) xs)"
  by (induction xs) (auto simp: json_load_file_def)

lemma stats_completions:
  "py_mapM (\<lambda>j. py_bind (py_getitem_str j ''completed_labs'') py_len) (map (\<lambda>(_, s). session_json s) xs) =
   Inr (map (\<lambda>(_, s). int (length (completed_labs s))) xs)"
  by (induction xs) (auto simp: session_json_def session_dict_lookup)

lemma stats_scores:
  "py_sum (\<lambda>j. py_getitem_str j ''score'') k (map (\<lambda>(_, s). session_json s) xs) =
   Inr (k + sum_list (map (\<lambda>(_, s). score s) xs))"
  by (induction xs arbitrary: k) (auto simp: session_json_def session_dict_lookup int_plus_json_def)

section \<open>Properties of the command line\<close>

text \<open>C34. Whatever sequence of command lines is run, starting from an empty state
  directory (student commands, listings, instructor reports and confirmed resets, in any
  order and with any external outcomes), every session file left behind decodes to a
  record that satisfies the session invariant.\<close>

theorem run_main_session_inv:
  assumes "run_main cfg loads \<lparr>w_labs = fs, w_labs_dir = d, w_files = [], w_logs = logs\<rparr> invs = Inr w'"
      and "map_of (w_files w') sid = Some st"
  shows "\<exists>j s. st = Stored j \<and> session_of_json j = Some s \<and> session_inv s"
proof -
  have "reachable cfg loads w'" using run_main_reachable[OF reachable.init assms(1)] .
  then have "files_inv (w_files w')" "(sid, st) \<in> set (w_files w')"
    using assms(2) by (auto intro: reachable_files_inv map_of_SomeD)
  then show ?thesis
    by (cases st) (fastforce simp: files_inv_def list_all_iff split: option.splits)+
qed

theorem run_main_session_inv_witness:
  "\<exists>w' st. run_main demo_cfg score_loads
             \<lparr>w_labs = demo_fs True, w_labs_dir = True, w_files = [], w_logs = []\<rparr>
             [([''student'', ''start'', ''l1''], demo_env ''t1'' TimedOut)] = Inr w' \<and>
           map_of (w_files w') ''student-01'' = Some st \<and>
           (\<exists>j s. st = Stored j \<and> session_of_json j = Some s \<and> session_inv s)"
proof -
  have e: "run_main demo_cfg score_loads
             \<lparr>w_labs = demo_fs True, w_labs_dir = True, w_files = [], w_logs = []\<rparr>
             [([''student'', ''start'', ''l1''], demo_env ''t1'' TimedOut)] = Inr demo_start_world"
    by (simp add: main_run_def run_simps student_cli_id_def demo_start_world_def)
  have m: "map_of (w_files demo_start_world) ''student-01'' =
           Some (Stored (session_json (start_lab ''l1'' ''t1'' (new_session ''student-01'' ''t1''))))"
    by (simp add: demo_start_world_def)
  show ?thesis using e m run_main_session_inv[OF e m] by blast
qed


text \<open>C35. A file of \<^verbatim>\<open>student-01\<close> cut short by a crash during \<^verbatim>\<open>save\<close> makes every
  student command line raise \<^verbatim>\<open>JSONDecodeError\<close>, even the usage message and the
  listing, because \<^verbatim>\<open>StudentCLI()\<close> loads the session first.\<close>

theorem torn_session_blocks_student:
  assumes "map_of (w_files w) student_cli_id = Some (Torn msg)" "parse_argv args = Student sl"
  shows "main_run cfg loads w args e = Inl (JSONDecodeError msg)"
  using assms by (simp add: main_run_def load_or_create_def)

theorem torn_session_blocks_student_witness:
  "map_of (w_files (demo_world [(''student-01'', Torn ''Expecting value'')])) student_cli_id =
     Some (Torn ''Expecting value'') \<and>
   parse_argv [''student''] = Student SUsage \<and>
   main_run demo_cfg score_loads (demo_world [(''student-01'', Torn ''Expecting value'')]) [''student'']
     (demo_env ''t1'' TimedOut) = Inl (JSONDecodeError ''Expecting value'')"
  using torn_session_blocks_student[of "demo_world [(''student-01'', Torn ''Expecting value'')]"
          "''Expecting value''" "[''student'']" SUsage demo_cfg score_loads "demo_env ''t1'' TimedOut"]
  by (simp add: demo_world_def student_cli_id_def)

text \<open>C36. A session file that a crash cut short stays torn for good: whatever command
  lines are run afterwards, by the student or the instructor (the reset included, which
  parses the file before unlinking it), the file is neither repaired nor removed, so
  only a manual deletion outside the program recovers the student (spec 4.2 promises
  that no torn write is observable).\<close>

theorem torn_file_permanent:
  assumes "map_of (w_files w) sid = Some (Torn m)"
  shows "map_of (w_files (run_each cfg loads w invs)) sid = Some (Torn m)"
  using assms
proof (induction cfg loads w invs rule: run_each.induct)
  case (2 cfg loads w args e rest)
  show ?case
  proof (cases "main_run cfg loads w args e")
    case (Inl x)
    then show ?thesis using 2 by simp
  next
    case (Inr r)
    then obtain out w' where m: "main_run cfg loads w args e = Inr (out, w')" by (cases r) auto
    have "map_of (w_files w') sid = Some (Torn m)" using main_run_keeps_torn[OF "2.prems" m] .
    then show ?thesis using 2 m by simp
  qed
qed simp

theorem torn_file_permanent_witness:
  "map_of (w_files (demo_world [(''student-01'', Torn ''Expecting value'')])) ''student-01'' =
     Some (Torn ''Expecting value'') \<and>
   map_of (w_files (run_each demo_cfg score_loads (demo_world [(''student-01'', Torn ''Expecting value'')])
     [([''instructor'', ''reset'', ''student-01''], (demo_env ''t1'' TimedOut)\<lparr>e_input := ''yes''\<rparr>),
      ([''student'', ''start'', ''l1''], demo_env ''t2'' TimedOut)])) ''student-01'' =
     Some (Torn ''Expecting value'')"
proof -
  have t: "map_of (w_files (demo_world [(''student-01'', Torn ''Expecting value'')])) ''student-01'' =
           Some (Torn ''Expecting value'')" by (simp add: demo_world_def)
  show ?thesis using t torn_file_permanent [OF t] by blast
qed

text \<open>The privileged reset cannot discard a session file that a crash cut short:
  with the confirmation given, \<^verbatim>\<open>cmd_reset\<close> parses the file before unlinking it and
  raises \<^verbatim>\<open>JSONDecodeError\<close>, leaving the file in place.\<close>

theorem torn_session_blocks_reset:
  assumes "map_of (w_files w) sid = Some (Torn msg)" "ascii_lower (e_input e) = ''yes''"
  shows "main_run cfg loads w [''instructor'', ''reset'', sid] e = Inl (JSONDecodeError msg)"
  using assms by (simp add: main_run_def cmd_reset_def json_load_file_def)

theorem torn_session_blocks_reset_witness:
  "map_of (w_files (demo_world [(''s1'', Torn ''Expecting value'')])) ''s1'' = Some (Torn ''Expecting value'') \<and>
   ascii_lower (e_input ((demo_env ''t1'' TimedOut)\<lparr>e_input := ''YES''\<rparr>)) = ''yes'' \<and>
   main_run demo_cfg score_loads (demo_world [(''s1'', Torn ''Expecting value'')])
     [''instructor'', ''reset'', ''s1''] ((demo_env ''t1'' TimedOut)\<lparr>e_input := ''YES''\<rparr>) =
     Inl (JSONDecodeError ''Expecting value'')"
proof -
  have a: "ascii_lower ''YES'' = ''yes''" by (simp add: ascii_lower_def)
  show ?thesis
    using a torn_session_blocks_reset[of "demo_world [(''s1'', Torn ''Expecting value'')]" "''s1''"
            "''Expecting value''" "(demo_env ''t1'' TimedOut)\<lparr>e_input := ''YES''\<rparr>" demo_cfg score_loads]
    by (simp add: demo_world_def)
qed

text \<open>C37. Without a labs directory, \<^verbatim>\<open>cmd_list\<close> creates the example lab and lists
  nothing; the next listing shows that lab, with its title, difficulty and three
  objectives.\<close>

theorem list_creates_example:
  assumes "\<not> w_labs_dir w" "w_labs w = []"
  shows "\<exists>w'. cmd_list w s = Inr (ListCreatedExample, w') \<and> w_labs_dir w' \<and>
           cmd_list w' s = Inr (Listed [(''lab-01-recon'' \<in> set (completed_labs s), ''lab-01-recon'',
                                        JStr ''Basic Network Reconnaissance'', JStr ''beginner'', 3)], w')"
proof -
  let ?w' = "w\<lparr>w_labs := create_example_labs [], w_labs_dir := True\<rparr>"
  have c: "cmd_list w s = Inr (ListCreatedExample, ?w')" using assms by (simp add: cmd_list_def)
  have l: "cmd_list ?w' s = Inr (Listed [(''lab-01-recon'' \<in> set (completed_labs s), ''lab-01-recon'',
                                        JStr ''Basic Network Reconnaissance'', JStr ''beginner'', 3)], ?w')"
    using load_example_lab[of "[]"]
    by (simp add: cmd_list_def list_entry_def create_example_labs_def empty_lab_dir_def List.map_filter_def)
  show ?thesis using c l by auto
qed

theorem list_creates_example_witness:
  "\<not> w_labs_dir ((demo_world [])\<lparr>w_labs := [], w_labs_dir := False\<rparr>) \<and>
   w_labs ((demo_world [])\<lparr>w_labs := [], w_labs_dir := False\<rparr>) = [] \<and>
   (\<exists>w'. cmd_list ((demo_world [])\<lparr>w_labs := [], w_labs_dir := False\<rparr>) (demo_session 1) =
           Inr (ListCreatedExample, w') \<and> w_labs_dir w' \<and>
         cmd_list w' (demo_session 1) = Inr (Listed [(False, ''lab-01-recon'',
            JStr ''Basic Network Reconnaissance'', JStr ''beginner'', 3)], w'))"
  using list_creates_example[of "(demo_world [])\<lparr>w_labs := [], w_labs_dir := False\<rparr>" "demo_session 1"]
  by (simp add: demo_session_def)

text \<open>C38. On session files written by the code, \<^verbatim>\<open>cmd_stats\<close> counts the students,
  sums the lengths of their completed lists and sums their scores (the printed average is
  this sum over the number of students).\<close>

theorem cmd_stats_sessions:
  assumes "w_files w = map (\<lambda>(sid, s). (sid, Stored (session_json s))) xs" "xs \<noteq> []"
  shows "cmd_stats w = Inr (Some (length xs, sum_list (map (\<lambda>(_, s). int (length (completed_labs s))) xs),
                                  sum_list (map (\<lambda>(_, s). score s) xs)))"
  using assms by (simp add: cmd_stats_def stats_load_all stats_completions stats_scores)

theorem cmd_stats_sessions_witness:
  "w_files (demo_world [(''s1'', Stored (session_json (demo_session 2)))]) =
     map (\<lambda>(sid, s). (sid, Stored (session_json s))) [(''s1'', demo_session 2)] \<and>
   [(''s1'', demo_session 2)] \<noteq> [] \<and>
   cmd_stats (demo_world [(''s1'', Stored (session_json (demo_session 2)))]) = Inr (Some (1, 0, 0))"
  using cmd_stats_sessions[of "demo_world [(''s1'', Stored (session_json (demo_session 2)))]"
                              "[(''s1'', demo_session 2)]"]
  by (simp add: demo_world_def demo_session_def)


end
