(* ===== verification/Interleaving.thy ===== *)
theory Interleaving
  imports Controller
begin

text \<open>
  Two invocations of the student command line for the same student, run from two terminals
  (spec section 5 allows it and asks for per-student locking, which the code does not have).
  A process reads the session file once, when \<^verbatim>\<open>StudentCLI()\<close> is constructed
  (\<open>Load\<close>), and writes it once, when \<^verbatim>\<open>start_lab\<close> or \<^verbatim>\<open>complete_lab\<close> saves
  the record it computed from what it read (\<open>Save\<close>); in between it only works on its
  own copy. \<open>session_effect\<close> is what a process writes, as a function of the session it
  loaded; \<open>schedule_run\<close> runs the events of several processes in a given order. The
  lemmas show that the sequential order is two runs of \<open>student_run\<close>, that every order
  keeps every file valid, and that the later save overwrites the earlier one, so an update
  can be lost.
\<close>

section \<open>Processes as a load and a save\<close>

text \<open>The session a student process saves, computed from the session it loaded; the
  commands that save nothing give \<open>None\<close>.\<close>

definition session_effect ::
  "lab_config \<Rightarrow> json_loads \<Rightarrow> labs_fs \<Rightarrow> student_cmd \<Rightarrow> env \<Rightarrow> session \<Rightarrow> pyerr + session option" where
  "session_effect cfg loads fs c e s =
     (case c of
        CmdStart lid \<Rightarrow> py_bind (cmd_start fs (e_now e) lid s) (\<lambda>(_, so). Inr so)
      | CmdVerify \<Rightarrow> py_bind (cmd_verify cfg fs loads (e_outcome e) (e_now e) s) (\<lambda>(_, so). Inr so)
      | _ \<Rightarrow> Inr None)"

datatype event = Load nat | Save nat

text \<open>The events of the processes \<open>procs i\<close> in the order of the list: a load reads the
  file as it is at that moment, a save writes what the process computed from its load. A
  save of a process that has not loaded does nothing.\<close>

fun schedule_run ::
  "lab_config \<Rightarrow> json_loads \<Rightarrow> labs_fs \<Rightarrow> string \<Rightarrow> (nat \<Rightarrow> student_cmd \<times> env) \<Rightarrow> event list \<Rightarrow>
   (nat \<rightharpoonup> session) \<Rightarrow> session_files \<Rightarrow> pyerr + session_files" where
  "schedule_run cfg loads fs sid procs [] held files = Inr files"
| "schedule_run cfg loads fs sid procs (Load i # evs) held files =
     py_bind (load_or_create files sid (e_now (snd (procs i)))) (\<lambda>s.
       schedule_run cfg loads fs sid procs evs (held(i \<mapsto> s)) files)"
| "schedule_run cfg loads fs sid procs (Save i # evs) held files =
     (case held i of
        None \<Rightarrow> schedule_run cfg loads fs sid procs evs held files
      | Some s \<Rightarrow>
          py_bind (session_effect cfg loads fs (fst (procs i)) (snd (procs i)) s) (\<lambda>so.
            schedule_run cfg loads fs sid procs evs held (persist sid so files)))"

definition demo_procs :: "nat \<Rightarrow> student_cmd \<times> env" where
  "demo_procs i = (if i = 0 then (CmdVerify, demo_env ''t2'' (Exited 0 ''85'' ''''))
                   else (CmdStart ''l1'', demo_env ''t3'' TimedOut))"

section \<open>Lemmas\<close>

lemma student_run_labs: "student_run cfg loads sid w c e = Inr (out, w') \<Longrightarrow> w_labs w' = w_labs w"
  by (cases c) (auto simp: student_run_def cmd_status_def split: prod.splits)

text \<open>A student process is its load, its effect, and the save of the effect.\<close>

lemma student_run_effect:
  assumes "student_run cfg loads sid w c e = Inr (out, w')"
  shows "\<exists>s so. load_or_create (w_files w) sid (e_now e) = Inr s \<and>
           session_effect cfg loads (w_labs w) c e s = Inr so \<and> w_files w' = persist sid so (w_files w)"
proof -
  obtain s where s: "load_or_create (w_files w) sid (e_now e) = Inr s"
    using assms by (auto simp: student_run_def)
  show ?thesis
    using assms s
    by (cases c) (auto simp: student_run_def session_effect_def persist_def split: prod.splits)
qed

lemma session_effect_inv:
  "session_effect cfg loads fs c e s = Inr (Some s') \<Longrightarrow> session_inv s \<Longrightarrow> session_inv s'"
  by (cases c) (auto simp: session_effect_def intro: cmd_start_inv cmd_verify_inv split: prod.splits)

text \<open>The schedule that runs one process after the other is two runs of
  \<open>student_run\<close>: the model of the events refines the model of whole processes.\<close>

lemma schedule_sequential:
  assumes "student_run cfg loads sid w c0 e0 = Inr (o0, w1)"
      and "student_run cfg loads sid w1 c1 e1 = Inr (o1, w2)"
      and "procs 0 = (c0, e0)" "procs 1 = (c1, e1)"
  shows "schedule_run cfg loads (w_labs w) sid procs [Load 0, Save 0, Load 1, Save 1] Map.empty (w_files w) =
         Inr (w_files w2)"
proof -
  obtain s0 so0 where r0: "load_or_create (w_files w) sid (e_now e0) = Inr s0"
      "session_effect cfg loads (w_labs w) c0 e0 s0 = Inr so0" "w_files w1 = persist sid so0 (w_files w)"
    using student_run_effect[OF assms(1)] by blast
  have l: "w_labs w1 = w_labs w" using student_run_labs[OF assms(1)] .
  obtain s1 so1 where r1: "load_or_create (w_files w1) sid (e_now e1) = Inr s1"
      "session_effect cfg loads (w_labs w) c1 e1 s1 = Inr so1" "w_files w2 = persist sid so1 (w_files w1)"
    using student_run_effect[OF assms(2)] l by auto
  show ?thesis using r0 r1 assms(3,4) by simp
qed

lemma schedule_run_inv:
  "schedule_run cfg loads fs sid procs evs held files = Inr files' \<Longrightarrow> files_inv files \<Longrightarrow>
   (\<forall>i s. held i = Some s \<longrightarrow> session_inv s) \<Longrightarrow> files_inv files'"
proof (induction evs arbitrary: held files)
  case (Cons ev evs)
  show ?case
  proof (cases ev)
    case (Load i)
    with Cons.prems obtain s where s: "load_or_create files sid (e_now (snd (procs i))) = Inr s"
        and r: "schedule_run cfg loads fs sid procs evs (held(i \<mapsto> s)) files = Inr files'"
      by auto
    have "session_inv s" using files_inv_load[OF Cons.prems(2) s] .
    then show ?thesis using Cons.IH[OF r Cons.prems(2)] Cons.prems(3) by auto
  next
    case (Save i)
    show ?thesis
    proof (cases "held i")
      case None
      then show ?thesis using Cons Save by auto
    next
      case (Some s)
      with Cons.prems Save obtain so where
          e: "session_effect cfg loads fs (fst (procs i)) (snd (procs i)) s = Inr so"
        and r: "schedule_run cfg loads fs sid procs evs held (persist sid so files) = Inr files'"
        by auto
      have "session_inv s" using Some Cons.prems(3) by blast
      then have "files_inv (persist sid so files)"
        using Cons.prems(2) e by (auto intro: files_inv_persist session_effect_inv)
      then show ?thesis using Cons.IH[OF r _ Cons.prems(3)] by blast
    qed
  qed
qed simp

lemma demo_interleaving:
  "schedule_run demo_cfg score_loads (demo_fs True) ''s1'' demo_procs [Load 0, Load 1, Save 1, Save 0] Map.empty
      [(''s1'', Stored (session_json (demo_session 1)))] =
     Inr [(''s1'', Stored (session_json (complete_lab ''l1'' 85 (demo_session 1))))]"
  by (simp add: demo_procs_def session_effect_def run_simps score_loads_def session_roundtrip del: complete_lab_def)

section \<open>Properties of interleaved processes\<close>

text \<open>C39. Lost update (spec section 5): when a second process for the same student
  loads the session before the first one saves, the first process's save replaces the file
  with the record it computed from its own load, whatever the second process saved in the
  meantime. A verification that loaded before a concurrent \<^verbatim>\<open>start\<close> of the lab
  erases that start's attempt count.\<close>

theorem interleaved_save_overwrites:
  assumes "schedule_run cfg loads fs sid procs [Load 0, Load 1, Save 1, Save 0] Map.empty files = Inr files'"
      and "load_or_create files sid (e_now (snd (procs 0))) = Inr s0"
      and "session_effect cfg loads fs (fst (procs 0)) (snd (procs 0)) s0 = Inr (Some s0')"
  shows "map_of files' sid = Some (Stored (session_json s0'))"
  using assms by (auto simp: persist_def map_of_save split: option.splits sum.splits)

theorem interleaved_save_overwrites_witness:
  "schedule_run demo_cfg score_loads (demo_fs True) ''s1'' demo_procs [Load 0, Load 1, Save 1, Save 0] Map.empty
      [(''s1'', Stored (session_json (demo_session 1)))] =
     Inr [(''s1'', Stored (session_json (complete_lab ''l1'' 85 (demo_session 1))))] \<and>
   load_or_create [(''s1'', Stored (session_json (demo_session 1)))] ''s1'' (e_now (snd (demo_procs 0))) =
     Inr (demo_session 1) \<and>
   session_effect demo_cfg score_loads (demo_fs True) (fst (demo_procs 0)) (snd (demo_procs 0)) (demo_session 1) =
     Inr (Some (complete_lab ''l1'' 85 (demo_session 1))) \<and>
   map_of [(''s1'', Stored (session_json (complete_lab ''l1'' 85 (demo_session 1))))] ''s1'' =
     Some (Stored (session_json (complete_lab ''l1'' 85 (demo_session 1))))"
proof -
  have l: "load_or_create [(''s1'', Stored (session_json (demo_session 1)))] ''s1'' (e_now (snd (demo_procs 0))) =
     Inr (demo_session 1)"
    by (simp add: load_or_create_def session_roundtrip)
  have e: "session_effect demo_cfg score_loads (demo_fs True) (fst (demo_procs 0)) (snd (demo_procs 0)) (demo_session 1) =
     Inr (Some (complete_lab ''l1'' 85 (demo_session 1)))"
    by (simp add: demo_procs_def session_effect_def run_simps score_loads_def del: complete_lab_def)
  show ?thesis using demo_interleaving l e interleaved_save_overwrites[OF demo_interleaving l e] by simp
qed

text \<open>C40. Interleaving loses updates but never corrupts a file: in every order of the
  loads and saves of any number of student processes, every session file that was valid
  stays valid, since each save writes a record computed from a valid one.\<close>

theorem schedule_keeps_files_valid:
  assumes "schedule_run cfg loads fs sid procs evs Map.empty files = Inr files'" "files_inv files"
      and "map_of files' sid' = Some st"
  shows "\<exists>j s. st = Stored j \<and> session_of_json j = Some s \<and> session_inv s"
proof -
  have "files_inv files'" using schedule_run_inv[OF assms(1,2)] by simp
  then show ?thesis using assms(3)
    by (cases st) (fastforce simp: files_inv_def list_all_iff dest: map_of_SomeD split: option.splits)+
qed

theorem schedule_keeps_files_valid_witness:
  "files_inv [(''s1'', Stored (session_json (demo_session 1)))] \<and>
   (\<exists>j s. Stored (session_json (complete_lab ''l1'' 85 (demo_session 1))) = Stored j \<and>
          session_of_json j = Some s \<and> session_inv s)"
proof -
  have fi: "files_inv [(''s1'', Stored (session_json (demo_session 1)))]"
    by (simp add: files_inv_def session_roundtrip session_inv_def demo_session_def)
  have m: "map_of [(''s1'', Stored (session_json (complete_lab ''l1'' 85 (demo_session 1))))] ''s1'' =
           Some (Stored (session_json (complete_lab ''l1'' 85 (demo_session 1))))" by simp
  show ?thesis using fi schedule_keeps_files_valid[OF demo_interleaving fi m] by blast
qed


end
