(* ===== verification/Tool_Base.thy ===== *)
theory Tool_Base
  imports Verifier Agent_Log "HOL-Library.Word"
begin

text \<open>
  What the reconnaissance tools of \<^verbatim>\<open>src/agent-tools/tools/port_scanner.py\<close> share:
  the agents call every tool with keyword arguments decoded from JSON (\<open>kwargs\<close>, a
  \<open>pydict\<close>), each tool's \<^verbatim>\<open>execute\<close> returns a result dictionary
  (\<open>tool_result\<close>), and the tools that run a binary go through \<^verbatim>\<open>subprocess.run\<close>
  (\<open>subprocess_run\<close>), whose outcome (\<open>proc_outcome\<close>, shared with the verification
  engine) is an input that depends on the command line. The addresses of \<^verbatim>\<open>ipaddress\<close> are here too: IPv4 addresses
  are \<open>32 word\<close>s and the network test is the mask test \<^verbatim>\<open>ipaddress\<close> performs; the
  dotted-quad parser of \<^verbatim>\<open>ipaddress.ip_address\<close> is modelled (Python 3.9.5 and later:
  four decimal octets, no leading zeros), its IPv6 parser is an input \<open>p6\<close>, and no
  IPv6 address belongs to an IPv4 network. The lemmas are the facts on words, decimal
  digits and white space the tools' proofs share.
\<close>

unbundle bit_operations_syntax

section \<open>Python helpers the tools use\<close>

type_synonym kwargs = pydict

text \<open>\<^verbatim>\<open>str.isspace\<close> on the ASCII range, which is also what \<^verbatim>\<open>\s\<close> matches there.\<close>

definition py_is_space :: "char \<Rightarrow> bool" where
  "py_is_space c = (c \<in> set [CHR 0x09, CHR 0x0A, CHR 0x0B, CHR 0x0C, CHR 0x0D,
                             CHR 0x1C, CHR 0x1D, CHR 0x1E, CHR 0x1F, CHR 0x20])"

definition py_strip :: "string \<Rightarrow> string" where
  "py_strip s = rev (dropWhile py_is_space (rev (dropWhile py_is_space s)))"

text \<open>\<^verbatim>\<open>s.split(sep)\<close> for a one-character separator: empty fields are kept.\<close>

fun py_split :: "char \<Rightarrow> string \<Rightarrow> string list" where
  "py_split sep [] = [[]]"
| "py_split sep (c # cs) =
     (let r = py_split sep cs in if c = sep then [] # r else (c # hd r) # tl r)"

text \<open>The dictionary every \<^verbatim>\<open>execute\<close> returns, without its \<^verbatim>\<open>metadata\<close>.\<close>

record tool_result =
  success :: bool
  data :: pydict
  warnings :: "string list"
  errors :: "string list"

definition tool_failure :: "string \<Rightarrow> tool_result" where
  "tool_failure e = \<lparr>success = False, data = [], warnings = [], errors = [e]\<rparr>"

text \<open>\<^verbatim>\<open>subprocess.run(args, capture_output=True, text=True, timeout=t)\<close>: an
  argument that is not a string raises \<^verbatim>\<open>TypeError\<close> before anything runs; otherwise
  the command line is run, and what it does (its exit with its output, or running past
  \<open>t\<close> seconds) is the environment's, \<open>run\<close>, as a function of the command line and
  the timeout.\<close>

fun is_jstr :: "json \<Rightarrow> bool" where
  "is_jstr (JStr _) = True"
| "is_jstr _ = False"

fun jstr_val :: "json \<Rightarrow> string" where
  "jstr_val (JStr s) = s"
| "jstr_val _ = []"

definition subprocess_run :: "json list \<Rightarrow> int \<Rightarrow> (string list \<Rightarrow> int \<Rightarrow> proc_outcome) \<Rightarrow> proc_outcome" where
  "subprocess_run args t run =
     (case find (\<lambda>a. \<not> is_jstr a) args of
        Some a \<Rightarrow> LaunchFailed (''expected str, bytes or os.PathLike object, not '' @ py_type_name a)
      | None \<Rightarrow> run (map jstr_val args) t)"

section \<open>The tool interface\<close>

text \<open>The constructors \<^verbatim>\<open>ToolParameter\<close> and \<^verbatim>\<open>ToolDefinition\<close> of
  \<^verbatim>\<open>agent_tools.base\<close>, which is not part of the repository: a record has the keyword
  arguments the tools pass to them. A default or an enumeration that a tool does not give
  is \<open>None\<close>.\<close>

record tool_parameter =
  param_name :: string
  param_type :: string
  param_description :: string
  param_required :: bool
  param_default :: "json option"
  param_enum :: "string list option"

record tool_definition =
  tool_name :: string
  tool_description :: string
  tool_category :: string
  risk_level :: string
  requires_approval :: bool
  parameters :: "tool_parameter list"

text \<open>What a declared parameter type admits, read as JSON Schema reads it: a
  \<^verbatim>\<open>number\<close> is an integer (the model's JSON has no floats) and not a boolean.\<close>

fun json_has_type :: "string \<Rightarrow> json \<Rightarrow> bool" where
  "json_has_type ty (JStr _) = (ty = ''string'')"
| "json_has_type ty (JInt _) = (ty = ''number'')"
| "json_has_type ty (JBool _) = (ty = ''boolean'')"
| "json_has_type ty (JObj _) = (ty = ''object'')"
| "json_has_type ty (JArr _) = (ty = ''array'')"
| "json_has_type ty JNull = False"

definition param_accepts :: "tool_parameter \<Rightarrow> json \<Rightarrow> bool" where
  "param_accepts p v \<longleftrightarrow>
     json_has_type (param_type p) v \<and>
     (case param_enum p of None \<Rightarrow> True | Some es \<Rightarrow> v \<in> set (map JStr es))"

text \<open>Keyword arguments conform to a tool's declaration when every required parameter
  is given and every declared parameter that is given has its declared type and, where
  there is an enumeration, one of its values. Arguments that are not declared are
  ignored, as the tools ignore them.\<close>

definition conforms :: "tool_parameter list \<Rightarrow> kwargs \<Rightarrow> bool" where
  "conforms ps kw \<longleftrightarrow>
     list_all (\<lambda>p. case map_of kw (param_name p) of
                     None \<Rightarrow> \<not> param_required p
                   | Some v \<Rightarrow> param_accepts p v) ps"

section \<open>Addresses\<close>

datatype ip_addr = IPv4 "32 word" | IPv6 "128 word"

text \<open>\<^verbatim>\<open>IPv4Address._parse_octet\<close>.\<close>

definition parse_octet :: "string \<Rightarrow> nat option" where
  "parse_octet s =
     (if s \<noteq> [] \<and> length s \<le> 3 \<and> list_all is_digit s \<and>
         \<not> (1 < length s \<and> hd s = CHR ''0'') \<and> digits_value s \<le> 255
      then Some (digits_value s) else None)"

definition parse_ipv4 :: "string \<Rightarrow> 32 word option" where
  "parse_ipv4 s =
     (let parts = py_split (CHR ''.'') s in
      if length parts = 4
      then map_option (\<lambda>os. of_nat (foldl (\<lambda>a b. 256 * a + b) 0 os))
             (those (map parse_octet parts))
      else None)"

text \<open>\<^verbatim>\<open>ipaddress.ip_address(v)\<close>: an \<^verbatim>\<open>int\<close> (or \<^verbatim>\<open>bool\<close>) below \<open>2^32\<close> is an IPv4
  address, below \<open>2^128\<close> an IPv6 one; a string is parsed as IPv4, then as IPv6.\<close>

definition ip_address :: "(string \<Rightarrow> 128 word option) \<Rightarrow> json \<Rightarrow> pyerr + ip_addr" where
  "ip_address p6 v =
     (let r = (case v of
                 JInt n \<Rightarrow> if 0 \<le> n \<and> n < 2 ^ 32 then Some (IPv4 (word_of_int n))
                           else if 0 \<le> n \<and> n < 2 ^ 128 then Some (IPv6 (word_of_int n)) else None
               | JBool b \<Rightarrow> Some (IPv4 (if b then 1 else 0))
               | JStr s \<Rightarrow> (case parse_ipv4 s of Some w \<Rightarrow> Some (IPv4 w)
                            | None \<Rightarrow> map_option IPv6 (p6 s))
               | _ \<Rightarrow> None)
      in case r of
           Some a \<Rightarrow> Inr a
         | None \<Rightarrow> Inl (ValueError (py_repr v @ '' does not appear to be an IPv4 or IPv6 address'')))"

text \<open>\<^verbatim>\<open>ip in ip_network("10.0.0.0/24")\<close>: \<^verbatim>\<open>ip._ip & netmask == network_address\<close>,
  false for an address of the other version.\<close>

fun in_lab_network :: "ip_addr \<Rightarrow> bool" where
  "in_lab_network (IPv4 w) = (w AND 0xFFFFFF00 = 0x0A000000)"
| "in_lab_network (IPv6 _) = False"

abbreviation host_address :: ip_addr where
  "host_address \<equiv> IPv4 0x0A000001"

section \<open>Lemmas: words, strings and decimal digits\<close>

lemma word_and_not_mask:
  "unat ((w::'a::len word) AND NOT (mask n)) = unat w div 2 ^ n * 2 ^ n"
proof -
  have p: "w AND NOT (mask n) = w - take_bit n w"
  proof -
    have "w AND NOT (mask n) = push_bit n (drop_bit n w)" by (rule bit_eqI) (auto simp: bit_simps)
    then show ?thesis using bits_ident[of n w] by (simp add: algebra_simps)
  qed
  have t: "unat (take_bit n w) = unat w mod 2 ^ n"
    unfolding unsigned_take_bit_eq by (simp add: take_bit_eq_mod)
  have "take_bit n w \<le> w" by (simp add: word_le_nat_alt t)
  then show ?thesis by (simp add: p unat_sub t minus_mod_eq_div_mult)
qed

lemma div256_block:
  "(x::nat) div 256 * 256 = 167772160 \<longleftrightarrow> 167772160 \<le> x \<and> x \<le> 167772415"
proof -
  have "x div 256 * 256 = 167772160 \<longleftrightarrow> 655360 \<le> x div 256 \<and> x div 256 < 655361" by linarith
  also have "\<dots> \<longleftrightarrow> 655360 * 256 \<le> x \<and> x < 655361 * 256"
    by (simp only: less_eq_div_iff_mult_less_eq div_less_iff_less_mult zero_less_numeral)
  finally show ?thesis by linarith
qed

text \<open>The mask test of \<^verbatim>\<open>ipaddress\<close> is the address range \<open>10.0.0.0\<close> to \<open>10.0.0.255\<close>.\<close>

lemma lab_mask_range:
  "((w::32 word) AND 0xFFFFFF00 = 0x0A000000) \<longleftrightarrow> 0x0A000000 \<le> w \<and> w \<le> 0x0A0000FF"
proof -
  have m: "(0xFFFFFF00::32 word) = NOT (mask 8)" by (simp add: mask_eq_exp_minus_1)
  have "w AND 0xFFFFFF00 = 0x0A000000 \<longleftrightarrow> unat w div 256 * 256 = 167772160"
    by (simp add: word_unat_eq_iff m word_and_not_mask)
  also have "\<dots> \<longleftrightarrow> 0x0A000000 \<le> w \<and> w \<le> 0x0A0000FF"
    by (simp only: div256_block word_le_nat_alt) simp
  finally show ?thesis .
qed

lemma in_lab_network_iff:
  "in_lab_network a \<longleftrightarrow> (\<exists>w. a = IPv4 w \<and> 0x0A000000 \<le> w \<and> w \<le> 0x0A0000FF)"
  by (cases a) (simp_all add: lab_mask_range)

lemma ip_address_falsy:
  assumes "\<not> py_truthy v" "ip_address p6 v = Inr (IPv4 w)"
  shows "w = 0"
  using assms
  by (cases v) (auto simp: ip_address_def parse_ipv4_def split: if_splits option.splits)

lemma py_split_nonempty: "py_split c s \<noteq> []"
  by (induction s) (auto simp: Let_def)

lemma length_py_split: "length (py_split c s) = count_list s c + 1"
  by (induction s) (auto simp: Let_def py_split_nonempty)

lemma dropWhile_idem: "dropWhile P (dropWhile P xs) = dropWhile P xs"
  by (induction xs) auto

lemma py_strip_idem: "py_strip (py_strip s) = py_strip s"
proof -
  let ?P = py_is_space
  define t where "t = dropWhile ?P s"
  define r where "r = rev (dropWhile ?P (rev t))"
  have t: "dropWhile ?P t = t" by (simp add: t_def dropWhile_idem)
  have split: "t = r @ rev (takeWhile ?P (rev t))"
    unfolding r_def by (metis rev_append rev_rev_ident takeWhile_dropWhile_id)
  have r: "dropWhile ?P r = r"
  proof (cases "r = []")
    case False
    then have "dropWhile ?P (rev t) \<noteq> []" by (simp add: r_def)
    then have "\<not> ?P (hd (dropWhile ?P (rev t)))" by (rule hd_dropWhile)
    moreover have "hd (dropWhile ?P (rev t)) \<in> set r"
      using \<open>dropWhile ?P (rev t) \<noteq> []\<close> by (simp add: r_def)
    ultimately have "\<exists>x\<in>set r. \<not> ?P x" by blast
    then have "dropWhile ?P (r @ rev (takeWhile ?P (rev t))) = dropWhile ?P r @ rev (takeWhile ?P (rev t))"
      by (auto intro: dropWhile_append1)
    then show ?thesis using t split by (metis append_same_eq)
  qed simp
  have "py_strip s = r" by (simp add: py_strip_def t_def r_def)
  moreover have "py_strip r = r"
    using r by (simp add: py_strip_def r_def dropWhile_idem)
  ultimately show ?thesis by simp
qed

lemma digit_char_not_space: "d < 10 \<Longrightarrow> \<not> py_is_space (digit_char d)"
  by (auto simp: less_Suc_eq numeral_eq_Suc digit_char_def py_is_space_def)

lemma spaces_prefix:
  "list_all py_is_space ws \<Longrightarrow> \<not> py_is_space c \<Longrightarrow> dropWhile py_is_space (ws @ c # r) = c # r"
  by (induction ws) auto

lemma starts_with_append: "starts_with p (p @ s)"
  by (induction p) auto

lemma tool_failure_fails [simp]: "\<not> success (tool_failure e)"
  by (simp add: tool_failure_def)

lemma subprocess_run_strings [simp]: "subprocess_run (map JStr args) t run = run args t"
proof -
  have "find (\<lambda>a. \<not> is_jstr a) (map JStr args) = None" by (induction args) auto
  moreover have "map jstr_val (map JStr args) = args" by (induction args) auto
  ultimately show ?thesis by (simp add: subprocess_run_def)
qed

end
