(* ===== verification/Net_Tools.thy ===== *)
theory Net_Tools
  imports Tool_Base
begin

text \<open>
  The three tools that run a binary: \<^verbatim>\<open>PortScannerTool\<close> and
  \<^verbatim>\<open>ServiceDetectorTool\<close> (\<^verbatim>\<open>nmap\<close>) and \<^verbatim>\<open>DnsLookupTool\<close> (\<^verbatim>\<open>dig\<close>).
  Each has a \<^verbatim>\<open>validate\<close>, a guard that raises \<^verbatim>\<open>ValueError\<close> on a target outside
  the lab network, and an \<^verbatim>\<open>execute\<close> that runs the binary and parses its output. The
  regular expressions on nmap's output are matched by deterministic functions
  (\<open>match_tcp_open\<close>, \<open>py_re_search\<close>), and \<open>tcp_open_match\<close> states what the port
  pattern means, so that the parser can be proved equal to it; each tool's
  \<^verbatim>\<open>get_definition\<close> and \<^verbatim>\<open>get_safety_constraints\<close> are the constant tables they
  return. The binary's outcome is a function of the command line; the clock readings (\<^verbatim>\<open>scan_duration\<close>, the
  \<^verbatim>\<open>metadata\<close> dictionary) are not modelled.
\<close>

unbundle bit_operations_syntax

section \<open>Port scanner\<close>

definition port_scanner_definition :: tool_definition where
  "port_scanner_definition =
     \<lparr>tool_name = ''port_scanner'',
      tool_description = ''Scan a target system for open TCP ports to identify network services'',
      tool_category = ''reconnaissance'', risk_level = ''moderate'', requires_approval = False,
      parameters =
        [\<lparr>param_name = ''target'', param_type = ''string'',
          param_description = ''IP address or hostname to scan (must be in lab network)'',
          param_required = True, param_default = None, param_enum = None\<rparr>,
         \<lparr>param_name = ''ports'', param_type = ''string'',
          param_description = ''Port specification (e.g., '' @ sq @ ''22,80,443'' @ sq @ '' or '' @ sq @
                              ''1-1000'' @ sq @ '')'',
          param_required = False, param_default = Some (JStr ''1-1000''), param_enum = None\<rparr>,
         \<lparr>param_name = ''scan_type'', param_type = ''string'',
          param_description = ''Type of scan to perform'',
          param_required = False, param_default = Some (JStr ''tcp_connect''),
          param_enum = Some [''tcp_connect'', ''syn_scan'', ''quick'']\<rparr>]\<rparr>"

definition port_scanner_validate :: "(string \<Rightarrow> 128 word option) \<Rightarrow> kwargs \<Rightarrow> pyerr + bool" where
  "port_scanner_validate p6 kw =
     (let target = dict_get_default kw ''target'' JNull in
      if \<not> py_truthy target then Inl (ValueError ''Target is required'')
      else case ip_address p6 target of
             Inl e \<Rightarrow> Inl (ValueError (''Invalid target: '' @ pyerr_message e))
           | Inr ip \<Rightarrow>
               if \<not> in_lab_network ip
               then Inl (ValueError (''Invalid target: Target '' @ py_str target @
                                     '' is outside lab network (10.0.0.0/24)''))
               else if ip = host_address
               then Inl (ValueError ''Invalid target: Cannot scan host system'')
               else Inr True)"

text \<open>The part \<^verbatim>\<open>/tcp\s+open\s+(\S+)\s*\<close> the two nmap patterns share, matched at the
  start of a string: it yields the service and what follows \<^verbatim>\<open>\s*\<close>. Every quantifier
  is followed by a character it cannot match, so the greedy match is the only one.\<close>

definition strip_prefix :: "string \<Rightarrow> string \<Rightarrow> string option" where
  "strip_prefix p s = (if starts_with p s then Some (drop (length p) s) else None)"

definition starts_space :: "string \<Rightarrow> bool" where
  "starts_space s = (case s of c # _ \<Rightarrow> py_is_space c | [] \<Rightarrow> False)"

definition match_tcp_open :: "string \<Rightarrow> (string \<times> string) option" where
  "match_tcp_open s =
     (case strip_prefix ''/tcp'' s of
        None \<Rightarrow> None
      | Some r1 \<Rightarrow>
          if starts_space r1
          then (case strip_prefix ''open'' (dropWhile py_is_space r1) of
                  None \<Rightarrow> None
                | Some r2 \<Rightarrow>
                    let r3 = dropWhile py_is_space r2;
                        svc = takeWhile (\<lambda>c. \<not> py_is_space c) r3
                    in if starts_space r2 \<and> svc \<noteq> []
                       then Some (svc, dropWhile py_is_space (dropWhile (\<lambda>c. \<not> py_is_space c) r3))
                       else None)
          else None)"

text \<open>\<^verbatim>\<open>re.match(r"(\d+)/tcp\s+open\s+(\S+)", line)\<close> with \<^verbatim>\<open>int(match.group(1))\<close>.\<close>

definition parse_port_line :: "string \<Rightarrow> (nat \<times> string) option" where
  "parse_port_line l =
     (let ds = takeWhile is_digit l in
      if ds = [] then None
      else map_option (\<lambda>(svc, _). (digits_value ds, svc)) (match_tcp_open (dropWhile is_digit l)))"

text \<open>What \<^verbatim>\<open>re.match(r"(\d+)/tcp\s+open\s+(\S+)", line)\<close> means, read from the
  pattern: the line starts with digits, \<^verbatim>\<open>/tcp\<close>, blanks, \<^verbatim>\<open>open\<close>, blanks and a
  run of non-blanks, and the groups are the digits and that run. The greedy \<^verbatim>\<open>\S+\<close>
  ends the run at a blank or at the end of the line; every other quantifier is followed by
  a character it cannot match, so the decomposition is unique.\<close>

definition tcp_open_match :: "string \<Rightarrow> string \<Rightarrow> string \<Rightarrow> bool" where
  "tcp_open_match s ds svc \<longleftrightarrow>
     (\<exists>ws1 ws2 rest. s = ds @ ''/tcp'' @ ws1 @ ''open'' @ ws2 @ svc @ rest \<and>
        ds \<noteq> [] \<and> list_all is_digit ds \<and>
        ws1 \<noteq> [] \<and> list_all py_is_space ws1 \<and> ws2 \<noteq> [] \<and> list_all py_is_space ws2 \<and>
        svc \<noteq> [] \<and> list_all (\<lambda>c. \<not> py_is_space c) svc \<and> (rest = [] \<or> starts_space rest))"

text \<open>The loop of \<^verbatim>\<open>PortScannerTool.execute\<close> over \<^verbatim>\<open>result.stdout.split("\n")\<close>.\<close>

definition parse_nmap_ports :: "string \<Rightarrow> nat list \<times> pydict" where
  "parse_nmap_ports out =
     foldl (\<lambda>(ps, svcs) line.
              case parse_port_line line of
                None \<Rightarrow> (ps, svcs)
              | Some (p, svc) \<Rightarrow> (ps @ [p], dict_set (nat_to_string p) (JStr svc) svcs))
       ([], []) (py_split CHR ''\<newline>'' out)"

definition nmap_scan_args :: "json \<Rightarrow> json \<Rightarrow> json \<Rightarrow> json list" where
  "nmap_scan_args scan_type ports target =
     [JStr ''nmap''] @
     (if scan_type = JStr ''syn_scan'' then [JStr ''-sS'', JStr ''-Pn'']
      else if scan_type = JStr ''quick'' then [JStr ''-sT'', JStr ''-T4'', JStr ''--top-ports'', JStr ''100'']
      else [JStr ''-sT'', JStr ''-Pn'']) @
     [JStr ''-p'', ports, target]"

definition port_scanner_execute :: "(string list \<Rightarrow> int \<Rightarrow> proc_outcome) \<Rightarrow> kwargs \<Rightarrow> pyerr + tool_result" where
  "port_scanner_execute run kw =
     py_bind (dict_index kw ''target'') (\<lambda>target.
       let ports = dict_get_default kw ''ports'' (JStr ''1-1000'');
           scan_type = dict_get_default kw ''scan_type'' (JStr ''tcp_connect'')
       in Inr (case subprocess_run (nmap_scan_args scan_type ports target) 120 run of
                 TimedOut \<Rightarrow> tool_failure ''Scan timed out after 120 seconds''
               | LaunchFailed e \<Rightarrow> tool_failure (''Scan failed: '' @ e)
               | Exited _ out _ \<Rightarrow>
                   (case ports of
                      JStr p \<Rightarrow>
                        let (open_ports, services) = parse_nmap_ports out in
                        \<lparr>success = True,
                         data = [(''target'', target),
                                 (''open_ports'', JArr (map (\<lambda>n. JInt (int n)) open_ports)),
                                 (''total_ports_scanned'', JInt (int (length (py_split CHR '','' p)))),
                                 (''services'', JObj services),
                                 (''scan_type'', scan_type)],
                         warnings = (if open_ports = [] then [''No open ports found''] else []),
                         errors = []\<rparr>
                    | v \<Rightarrow> tool_failure (''Scan failed: '' @ quoted (py_type_name v) @
                                        '' object has no attribute '' @ quoted ''split''))))"

definition port_scanner_constraints :: pydict where
  "port_scanner_constraints =
     [(''max_execution_time'', JInt 120), (''max_memory_mb'', JInt 256),
      (''allowed_network_ranges'', JArr [JStr ''10.0.0.0/24'']),
      (''rate_limit'', JObj [(''requests_per_minute'', JInt 10), (''requests_per_hour'', JInt 100)])]"

section \<open>Service detector\<close>

definition service_detector_definition :: tool_definition where
  "service_detector_definition =
     \<lparr>tool_name = ''service_detector'',
      tool_description = ''Detect and fingerprint services running on target ports'',
      tool_category = ''reconnaissance'', risk_level = ''moderate'', requires_approval = False,
      parameters =
        [\<lparr>param_name = ''target'', param_type = ''string'', param_description = ''Target IP address'',
          param_required = True, param_default = None, param_enum = None\<rparr>,
         \<lparr>param_name = ''port'', param_type = ''number'', param_description = ''Port number to probe'',
          param_required = True, param_default = None, param_enum = None\<rparr>,
         \<lparr>param_name = ''aggressive'', param_type = ''boolean'',
          param_description = ''Use aggressive detection methods'',
          param_required = False, param_default = Some (JBool False), param_enum = None\<rparr>]\<rparr>"

definition service_detector_validate :: "(string \<Rightarrow> 128 word option) \<Rightarrow> kwargs \<Rightarrow> pyerr + bool" where
  "service_detector_validate p6 kw =
     (let target = dict_get_default kw ''target'' JNull;
          port = dict_get_default kw ''port'' JNull
      in if \<not> (py_truthy target \<and> py_truthy port)
         then Inl (ValueError ''Target and port are required'')
         else case ip_address p6 target of
                Inl e \<Rightarrow> Inl (ValueError (''Invalid target: '' @ pyerr_message e))
              | Inr ip \<Rightarrow>
                  if \<not> in_lab_network ip
                  then Inl (ValueError ''Invalid target: Target must be in lab network'')
                  else (case py_num port of
                          Some n \<Rightarrow> if n < 1 \<or> 65535 < n
                                    then Inl (ValueError ''Port must be between 1 and 65535'')
                                    else Inr True
                        | None \<Rightarrow> Inl (ValueError ''Port must be between 1 and 65535'')))"

text \<open>\<^verbatim>\<open>re.search(rf"{port}/tcp\s+open\s+(\S+)\s*(.*)", line)\<close>: the leftmost position
  where the pattern matches. The port is interpolated as text; a string port holding
  regular-expression metacharacters is read literally by the model.\<close>

definition match_service_at :: "string \<Rightarrow> string \<Rightarrow> (string \<times> string) option" where
  "match_service_at p s = (if starts_with p s then match_tcp_open (drop (length p) s) else None)"

fun py_re_search :: "(string \<Rightarrow> 'a option) \<Rightarrow> string \<Rightarrow> 'a option" where
  "py_re_search m [] = m []"
| "py_re_search m (c # cs) = (case m (c # cs) of Some r \<Rightarrow> Some r | None \<Rightarrow> py_re_search m cs)"

text \<open>One iteration of the loop over the output lines: a match overwrites the service, and
  the version when \<^verbatim>\<open>match.group(2).strip()\<close> is not empty.\<close>

definition service_info_line :: "string \<Rightarrow> pydict \<Rightarrow> string \<Rightarrow> pydict" where
  "service_info_line p info line =
     (case py_re_search (match_service_at p) line of
        None \<Rightarrow> info
      | Some (svc, rest) \<Rightarrow>
          let info' = dict_set ''service'' (JStr svc) info;
              v = py_strip rest
          in if v = [] then info' else dict_set ''version'' (JStr v) info')"

definition service_info_init :: "json \<Rightarrow> pydict" where
  "service_info_init port =
     [(''port'', port), (''service'', JStr ''unknown''), (''version'', JStr ''unknown''),
      (''product'', JStr ''unknown'')]"

definition service_detector_execute :: "(string list \<Rightarrow> int \<Rightarrow> proc_outcome) \<Rightarrow> kwargs \<Rightarrow> pyerr + tool_result" where
  "service_detector_execute run kw =
     py_bind (dict_index kw ''target'') (\<lambda>target.
     py_bind (dict_index kw ''port'') (\<lambda>port.
       let aggressive = dict_get_default kw ''aggressive'' (JBool False);
           args = [JStr ''nmap'', JStr ''-sV''] @ (if py_truthy aggressive then [JStr ''-A''] else []) @
                  [JStr ''-p'', JStr (py_str port), target]
       in Inr (case subprocess_run args 60 run of
                 TimedOut \<Rightarrow> tool_failure ''Service detection timed out''
               | LaunchFailed e \<Rightarrow> tool_failure (''Detection failed: '' @ e)
               | Exited _ out _ \<Rightarrow>
                   \<lparr>success = True,
                    data = foldl (service_info_line (py_str port)) (service_info_init port)
                             (py_split CHR ''\<newline>'' out),
                    warnings = [], errors = []\<rparr>)))"

definition service_detector_constraints :: pydict where
  "service_detector_constraints =
     [(''max_execution_time'', JInt 60), (''max_memory_mb'', JInt 256),
      (''allowed_network_ranges'', JArr [JStr ''10.0.0.0/24'']),
      (''rate_limit'', JObj [(''requests_per_minute'', JInt 20)])]"

section \<open>DNS lookup\<close>

definition dns_lookup_definition :: tool_definition where
  "dns_lookup_definition =
     \<lparr>tool_name = ''dns_lookup'',
      tool_description = ''Perform DNS queries to gather information about target domains'',
      tool_category = ''reconnaissance'', risk_level = ''safe'', requires_approval = False,
      parameters =
        [\<lparr>param_name = ''domain'', param_type = ''string'',
          param_description = ''Domain name or IP address to query'',
          param_required = True, param_default = None, param_enum = None\<rparr>,
         \<lparr>param_name = ''record_type'', param_type = ''string'',
          param_description = ''DNS record type to query'',
          param_required = False, param_default = Some (JStr ''A''),
          param_enum = Some [''A'', ''AAAA'', ''MX'', ''TXT'', ''NS'', ''PTR'', ''ANY'']\<rparr>]\<rparr>"

definition dns_lookup_validate :: "kwargs \<Rightarrow> pyerr + bool" where
  "dns_lookup_validate kw =
     (let domain = dict_get_default kw ''domain'' JNull in
      if \<not> py_truthy domain then Inl (ValueError ''Domain is required'')
      else py_bind (py_len domain) (\<lambda>n.
             if 253 < n then Inl (ValueError ''Domain name too long'') else Inr True))"

text \<open>\<^verbatim>\<open>[line.strip() for line in result.stdout.split("\n") if line.strip()]\<close>.\<close>

definition dig_records :: "string \<Rightarrow> string list" where
  "dig_records out = filter (\<lambda>l. l \<noteq> []) (map py_strip (py_split CHR ''\<newline>'' out))"

definition dns_lookup_execute :: "(string list \<Rightarrow> int \<Rightarrow> proc_outcome) \<Rightarrow> kwargs \<Rightarrow> pyerr + tool_result" where
  "dns_lookup_execute run kw =
     py_bind (dict_index kw ''domain'') (\<lambda>domain.
       let record_type = dict_get_default kw ''record_type'' (JStr ''A'')
       in Inr (case subprocess_run [JStr ''dig'', JStr ''+short'', domain, record_type] 10 run of
                 TimedOut \<Rightarrow> tool_failure ''DNS query timed out''
               | LaunchFailed e \<Rightarrow> tool_failure (''DNS query failed: '' @ e)
               | Exited _ out _ \<Rightarrow>
                   let records = dig_records out in
                   \<lparr>success = True,
                    data = [(''domain'', domain), (''record_type'', record_type),
                            (''records'', JArr (map JStr records)),
                            (''record_count'', JInt (int (length records)))],
                    warnings = (if records = [] then [''No records found''] else []),
                    errors = []\<rparr>))"

definition dns_lookup_constraints :: pydict where
  "dns_lookup_constraints =
     [(''max_execution_time'', JInt 10), (''max_memory_mb'', JInt 128),
      (''rate_limit'', JObj [(''requests_per_minute'', JInt 120)])]"

section \<open>Lemmas\<close>

lemma nonspace_prefix:
  assumes "list_all (\<lambda>c. \<not> py_is_space c) svc" "rest = [] \<or> starts_space rest"
  shows "takeWhile (\<lambda>c. \<not> py_is_space c) (svc @ rest) = svc \<and>
         dropWhile (\<lambda>c. \<not> py_is_space c) (svc @ rest) = rest"
  using assms by (induction svc) (auto simp: starts_space_def split: list.splits)


lemma strip_prefix_simps [simp]:
  "strip_prefix [] s = Some s"
  "strip_prefix (c # p) [] = None"
  "strip_prefix (c # p) (d # s) = (if c = d then strip_prefix p s else None)"
  by (simp_all add: strip_prefix_def)


text \<open>The nmap line of an open port, \<^verbatim>\<open>/tcp\<close>, blanks, \<^verbatim>\<open>open\<close>, blanks, the service
  name and the rest of the line, is matched by the shared part of the two patterns.\<close>

lemma match_tcp_open_nmap:
  assumes "ws1 \<noteq> []" "list_all py_is_space ws1" "ws2 \<noteq> []" "list_all py_is_space ws2"
    and "svc \<noteq> []" "list_all (\<lambda>c. \<not> py_is_space c) svc" "rest = [] \<or> starts_space rest"
  shows "match_tcp_open (''/tcp'' @ ws1 @ ''open'' @ ws2 @ svc @ rest) =
         Some (svc, dropWhile py_is_space rest)"
proof -
  have s1: "starts_space (ws1 @ r)" "starts_space (ws2 @ r)" for r
    using assms(1-4) by (auto simp: starts_space_def neq_Nil_conv)
  have o: "\<not> py_is_space (CHR ''o'')" by (simp add: py_is_space_def)
  obtain c cs where svc: "svc = c # cs" using assms(5) by (cases svc) auto
  have c: "\<not> py_is_space c" using assms(6) svc by simp
  have d1: "dropWhile py_is_space (ws1 @ ''open'' @ r) = ''open'' @ r" for r
    using spaces_prefix[OF assms(2) o] by simp
  have d2: "dropWhile py_is_space (ws2 @ svc @ rest) = svc @ rest"
    using spaces_prefix[OF assms(4) c, of "cs @ rest"] svc by simp
  show ?thesis
    using s1 d1 d2 nonspace_prefix[OF assms(6,7)] assms(5)
    by (simp add: match_tcp_open_def Let_def)
qed


lemma strip_prefix_Some: "strip_prefix p s = Some r \<longleftrightarrow> s = p @ r"
  by (induction p s rule: starts_with.induct) auto

lemma starts_space_split:
  assumes "starts_space r"
  shows "takeWhile py_is_space r \<noteq> [] \<and> list_all py_is_space (takeWhile py_is_space r) \<and>
         r = takeWhile py_is_space r @ dropWhile py_is_space r"
  using assms by (cases r) (auto simp: starts_space_def list_all_iff dest: set_takeWhileD)

lemma nonspace_split:
  "list_all (\<lambda>c. \<not> py_is_space c) (takeWhile (\<lambda>c. \<not> py_is_space c) r) \<and>
   (dropWhile (\<lambda>c. \<not> py_is_space c) r = [] \<or> starts_space (dropWhile (\<lambda>c. \<not> py_is_space c) r))"
  by (induction r) (auto simp: starts_space_def)

text \<open>Conversely, what \<open>match_tcp_open\<close> accepts has the shape of the pattern.\<close>

lemma match_tcp_open_sound:
  assumes "match_tcp_open t = Some (svc, r')"
  shows "\<exists>ws1 ws2 rest. t = ''/tcp'' @ ws1 @ ''open'' @ ws2 @ svc @ rest \<and>
           ws1 \<noteq> [] \<and> list_all py_is_space ws1 \<and> ws2 \<noteq> [] \<and> list_all py_is_space ws2 \<and>
           svc \<noteq> [] \<and> list_all (\<lambda>c. \<not> py_is_space c) svc \<and> (rest = [] \<or> starts_space rest)"
proof -
  obtain r1 where r1: "strip_prefix ''/tcp'' t = Some r1" "starts_space r1"
    using assms by (auto simp: match_tcp_open_def split: option.splits if_splits)
  obtain r2 where r2: "strip_prefix ''open'' (dropWhile py_is_space r1) = Some r2" "starts_space r2"
    and s: "svc = takeWhile (\<lambda>c. \<not> py_is_space c) (dropWhile py_is_space r2)" "svc \<noteq> []"
    using assms r1 by (auto simp: match_tcp_open_def Let_def split: option.splits if_splits)
  define rest where "rest = dropWhile (\<lambda>c. \<not> py_is_space c) (dropWhile py_is_space r2)"
  have t: "t = ''/tcp'' @ takeWhile py_is_space r1 @ ''open'' @ takeWhile py_is_space r2 @ svc @ rest"
    using r1(1) r2(1) s(1) starts_space_split[OF r1(2)] starts_space_split[OF r2(2)]
    unfolding strip_prefix_Some rest_def
    by (metis append.assoc takeWhile_dropWhile_id)
  show ?thesis
    using t starts_space_split[OF r1(2)] starts_space_split[OF r2(2)] s nonspace_split
    unfolding rest_def by blast
qed

lemma match_service_digit_prefix:
  assumes "list_all is_digit q" "q \<noteq> []" "list_all is_digit ds"
  shows "match_service_at ds (q @ ds @ CHR ''/'' # r) = None"
proof -
  have "drop (length ds) (q @ ds) \<noteq> []" using assms(2) by (cases q) auto
  then obtain y ys where y: "drop (length ds) (q @ ds) = y # ys"
    by (cases "drop (length ds) (q @ ds)") auto
  have "y \<in> set (q @ ds)" using y by (metis in_set_dropD list.set_intros(1))
  then have "is_digit y" using assms(1,3) by (auto simp: list_all_iff)
  then have "y \<noteq> CHR ''/''" by (auto simp: is_digit_def)
  moreover have "drop (length ds) ((q @ ds) @ CHR ''/'' # r) = drop (length ds) (q @ ds) @ CHR ''/'' # r"
    by simp
  then have "drop (length ds) (q @ ds @ CHR ''/'' # r) = y # ys @ CHR ''/'' # r"
    using y by simp
  ultimately show ?thesis by (simp add: match_service_at_def match_tcp_open_def del: drop_append)
qed

text \<open>\<^verbatim>\<open>re.search\<close> skips the digits in front of the port: a line whose port number
  ends with the probed one is matched at the probed digits.\<close>

lemma py_re_search_digit_prefix:
  assumes "list_all is_digit pre" "list_all is_digit ds"
  shows "py_re_search (match_service_at ds) (pre @ ds @ CHR ''/'' # r) =
         py_re_search (match_service_at ds) (ds @ CHR ''/'' # r)"
  using assms(1)
proof (induction pre)
  case (Cons c cs)
  have "match_service_at ds ((c # cs) @ ds @ CHR ''/'' # r) = None"
    using match_service_digit_prefix[of "c # cs" ds r] Cons.prems assms(2) by simp
  then show ?case using Cons by simp
qed simp

lemma nmap_scan_args_strings:
  "\<exists>args. nmap_scan_args scan_type (JStr p) (JStr t) = map JStr args"
  by (rule exI[where x = "[''nmap''] @
        (if scan_type = JStr ''syn_scan'' then [''-sS'', ''-Pn'']
         else if scan_type = JStr ''quick'' then [''-sT'', ''-T4'', ''--top-ports'', ''100'']
         else [''-sT'', ''-Pn'']) @ [''-p'', p, t]"]) (simp add: nmap_scan_args_def)

section \<open>Properties of the tools\<close>


text \<open>C25. The nmap line of an open port, the port number in decimal, \<^verbatim>\<open>/tcp\<close>,
  blanks, \<^verbatim>\<open>open\<close>, blanks and the service name, is parsed back to that port and
  that service, whatever follows the name after a blank.\<close>

theorem parse_port_line_nmap:
  assumes "ws1 \<noteq> []" "list_all py_is_space ws1" "ws2 \<noteq> []" "list_all py_is_space ws2"
    and "svc \<noteq> []" "list_all (\<lambda>c. \<not> py_is_space c) svc" "rest = [] \<or> starts_space rest"
  shows "parse_port_line (nat_to_string p @ ''/tcp'' @ ws1 @ ''open'' @ ws2 @ svc @ rest) = Some (p, svc)"
proof -
  have nd: "\<not> is_digit (CHR ''/'')" by (simp add: is_digit_def)
  have "takeWhile is_digit (nat_to_string p @ ''/tcp'' @ ws1 @ ''open'' @ ws2 @ svc @ rest) = nat_to_string p \<and>
        dropWhile is_digit (nat_to_string p @ ''/tcp'' @ ws1 @ ''open'' @ ws2 @ svc @ rest) =
          ''/tcp'' @ ws1 @ ''open'' @ ws2 @ svc @ rest"
    using takeWhile_digits[OF conjunct2[OF nat_to_string_digits] nd] by simp
  then show ?thesis
    using match_tcp_open_nmap[OF assms] nat_to_string_digits[of p]
    by (simp add: parse_port_line_def digits_value_nat_to_string)
qed

theorem parse_port_line_nmap_witness:
  "parse_port_line (nat_to_string 22 @ ''/tcp'' @ ''   '' @ ''open'' @ ''  '' @ ''ssh'' @ ''  OpenSSH'') =
   Some (22, ''ssh'')"
  using parse_port_line_nmap[of "''   ''" "''  ''" "''ssh''" "''  OpenSSH''" 22]
  by (simp add: py_is_space_def starts_space_def)


text \<open>C31. The parser of nmap's lines is the regular expression it translates: a line is
  parsed to a port \<open>p\<close> and a service \<open>svc\<close> exactly when it decomposes as the pattern
  \<^verbatim>\<open>(\d+)/tcp\s+open\s+(\S+)\<close> says, with the digits read as \<open>p\<close> and \<open>svc\<close>
  the greedy second group.\<close>

theorem parse_port_line_regex:
  "parse_port_line s = Some (p, svc) \<longleftrightarrow> (\<exists>ds. tcp_open_match s ds svc \<and> p = digits_value ds)"
proof
  assume a: "parse_port_line s = Some (p, svc)"
  define ds where "ds = takeWhile is_digit s"
  obtain r' where ds: "ds \<noteq> []" and m: "match_tcp_open (dropWhile is_digit s) = Some (svc, r')"
      and p: "p = digits_value ds"
    using a by (auto simp: parse_port_line_def ds_def Let_def split: if_splits)
  obtain ws1 ws2 rest where
      d: "dropWhile is_digit s = ''/tcp'' @ ws1 @ ''open'' @ ws2 @ svc @ rest" and
      c: "ws1 \<noteq> [] \<and> list_all py_is_space ws1 \<and> ws2 \<noteq> [] \<and> list_all py_is_space ws2 \<and>
          svc \<noteq> [] \<and> list_all (\<lambda>c. \<not> py_is_space c) svc \<and> (rest = [] \<or> starts_space rest)"
    using match_tcp_open_sound[OF m] by blast
  have "s = ds @ ''/tcp'' @ ws1 @ ''open'' @ ws2 @ svc @ rest"
    using takeWhile_dropWhile_id[of is_digit s] d by (simp only: ds_def)
  moreover have "list_all is_digit ds"
    by (auto simp: ds_def list_all_iff dest: set_takeWhileD)
  ultimately show "\<exists>ds. tcp_open_match s ds svc \<and> p = digits_value ds"
    using ds c p unfolding tcp_open_match_def by blast
next
  assume "\<exists>ds. tcp_open_match s ds svc \<and> p = digits_value ds"
  then obtain ds ws1 ws2 rest where
      s: "s = ds @ ''/tcp'' @ ws1 @ ''open'' @ ws2 @ svc @ rest" and ds: "ds \<noteq> []" "list_all is_digit ds"
      and c: "ws1 \<noteq> []" "list_all py_is_space ws1" "ws2 \<noteq> []" "list_all py_is_space ws2"
             "svc \<noteq> []" "list_all (\<lambda>c. \<not> py_is_space c) svc" "rest = [] \<or> starts_space rest"
      and p: "p = digits_value ds"
    unfolding tcp_open_match_def by blast
  have nd: "\<not> is_digit (CHR ''/'')" by (simp add: is_digit_def)
  have "takeWhile is_digit s = ds \<and> dropWhile is_digit s = ''/tcp'' @ ws1 @ ''open'' @ ws2 @ svc @ rest"
    using takeWhile_digits[OF ds(2) nd] s by simp
  then show "parse_port_line s = Some (p, svc)"
    using match_tcp_open_nmap[OF c] ds(1) p by (simp add: parse_port_line_def)
qed

text \<open>C26. \<^verbatim>\<open>PortScannerTool.execute\<close> reports success whatever nmap's exit status: a
  scan that nmap could not run (exit status 1, nothing on standard output) is a successful
  scan with no open port. The open ports are those parsed from the output, and
  \<^verbatim>\<open>total_ports_scanned\<close> counts the comma-separated fields of the port specification,
  not the ports: the default range \<^verbatim>\<open>1-1000\<close> is reported as one port.\<close>

theorem port_scan_success_any_exit:
  assumes "dict_index kw ''target'' = Inr (JStr t)"
      and "dict_get_default kw ''ports'' (JStr ''1-1000'') = JStr p"
  shows "\<exists>r. port_scanner_execute (\<lambda>_ _. Exited rc out err) kw = Inr r \<and> success r \<and>
             map_of (data r) ''open_ports'' = Some (JArr (map (\<lambda>n. JInt (int n)) (fst (parse_nmap_ports out)))) \<and>
             map_of (data r) ''total_ports_scanned'' = Some (JInt (int (count_list p CHR '','') + 1))"
proof -
  obtain args where "nmap_scan_args (dict_get_default kw ''scan_type'' (JStr ''tcp_connect'')) (JStr p) (JStr t) =
                     map JStr args"
    using nmap_scan_args_strings by blast
  then show ?thesis using assms
    by (simp add: port_scanner_execute_def length_py_split split: prod.split)
qed

theorem port_scan_success_any_exit_witness:
  "\<exists>r. port_scanner_execute (\<lambda>_ _. Exited 1 '''' ''Failed to resolve'') [(''target'', JStr ''10.0.0.5'')] = Inr r \<and>
       success r \<and> map_of (data r) ''open_ports'' = Some (JArr []) \<and>
       map_of (data r) ''total_ports_scanned'' = Some (JInt 1)"
  using port_scan_success_any_exit[of "[(''target'', JStr ''10.0.0.5'')]" "''10.0.0.5''" "''1-1000''"
                                      1 "''''" "''Failed to resolve''"]
  by (simp add: dict_index_def dict_get_default_def parse_nmap_ports_def parse_port_line_def is_digit_def)

text \<open>C27. The service detector's guard accepts a target in \<open>10.0.0.0/24\<close> and an
  integer port from 1 to 65535. Unlike the port scanner it does not exclude the host
  \<open>10.0.0.1\<close>, and since \<^verbatim>\<open>bool\<close> is a subclass of \<^verbatim>\<open>int\<close> the port
  \<^verbatim>\<open>true\<close> passes as port 1.\<close>

theorem service_detector_validate_iff:
  "service_detector_validate p6 kw = Inr True \<longleftrightarrow>
   (\<exists>w n. ip_address p6 (dict_get_default kw ''target'' JNull) = Inr (IPv4 w) \<and>
          0x0A000000 \<le> w \<and> w \<le> 0x0A0000FF \<and>
          py_num (dict_get_default kw ''port'' JNull) = Some n \<and> 1 \<le> n \<and> n \<le> 65535)"
  (is "?l \<longleftrightarrow> ?r")
proof
  assume ?l then show ?r
    by (auto simp: service_detector_validate_def Let_def in_lab_network_iff
             split: if_splits sum.splits option.splits)
next
  assume ?r
  then obtain w n where ip: "ip_address p6 (dict_get_default kw ''target'' JNull) = Inr (IPv4 w)"
      and w: "0x0A000000 \<le> w" "w \<le> 0x0A0000FF"
      and n: "py_num (dict_get_default kw ''port'' JNull) = Some n" "1 \<le> n" "n \<le> 65535" by blast
  have "w \<noteq> 0" using w(1) by auto
  then have "py_truthy (dict_get_default kw ''target'' JNull)" using ip_address_falsy ip by blast
  moreover have "py_truthy (dict_get_default kw ''port'' JNull)"
    using n by (cases "dict_get_default kw ''port'' JNull") (auto split: if_splits)
  ultimately show ?l using ip w n by (simp add: service_detector_validate_def lab_mask_range)
qed

text \<open>C28. The service pattern \<^verbatim>\<open>{port}/tcp\s+open\s+(\S+)\<close> is searched, not
  anchored: probing port \<open>p\<close>, a line for any port whose decimal digits end with those of
  \<open>p\<close> (port 2222 or 122 for port 22) sets the reported service.\<close>

theorem service_line_suffix_match:
  assumes "list_all is_digit pre" "svc \<noteq> []" "list_all (\<lambda>c. \<not> py_is_space c) svc"
  shows "service_info_line (nat_to_string p) info (pre @ nat_to_string p @ ''/tcp open '' @ svc) =
         dict_set ''service'' (JStr svc) info"
proof -
  have sp: "list_all py_is_space '' ''" by (simp add: py_is_space_def)
  have m: "match_tcp_open (''/tcp'' @ '' '' @ ''open'' @ '' '' @ svc @ []) = Some (svc, [])"
    using match_tcp_open_nmap[of "'' ''" "'' ''" svc "[]"] sp assms(2,3) by simp
  have at: "match_service_at (nat_to_string p) (nat_to_string p @ ''/tcp open '' @ svc) = Some (svc, [])"
    using m by (simp add: match_service_at_def starts_with_append)
  obtain d ds where d: "nat_to_string p = d # ds"
    using nat_to_string_digits[of p] by (cases "nat_to_string p") auto
  have "py_re_search (match_service_at (nat_to_string p)) (pre @ nat_to_string p @ ''/tcp open '' @ svc) =
        py_re_search (match_service_at (nat_to_string p)) (nat_to_string p @ ''/tcp open '' @ svc)"
    using py_re_search_digit_prefix[OF assms(1) conjunct2[OF nat_to_string_digits], of p "''tcp open '' @ svc"]
    by simp
  also have "\<dots> = Some (svc, [])" using at d by simp
  finally show ?thesis by (simp add: service_info_line_def py_strip_def)
qed

theorem service_line_suffix_match_witness:
  "service_info_line (nat_to_string 22) (service_info_init (JInt 22)) (''22'' @ nat_to_string 22 @ ''/tcp open '' @ ''EtherNetIP-1'') =
   [(''port'', JInt 22), (''service'', JStr ''EtherNetIP-1''), (''version'', JStr ''unknown''),
    (''product'', JStr ''unknown'')]"
  using service_line_suffix_match[of "''22''" "''EtherNetIP-1''" 22 "service_info_init (JInt 22)"]
  by (simp add: is_digit_def py_is_space_def service_info_init_def)


text \<open>The records \<^verbatim>\<open>DnsLookupTool.execute\<close> reports are the non-blank lines of
  dig's output, each stripped of surrounding white space.\<close>

theorem dig_records_stripped:
  "list_all (\<lambda>x. x \<noteq> [] \<and> py_strip x = x) (dig_records out)"
  by (auto simp: dig_records_def list_all_iff py_strip_idem)

end
