(* ===== verification/Web_Request.thy ===== *)
theory Web_Request
  imports Tool_Base
begin

text \<open>
  \<^verbatim>\<open>WebRequestTool\<close>: a guard on the URL, read through \<^verbatim>\<open>urllib.parse.urlparse\<close>
  (an input of the model), and an \<^verbatim>\<open>execute\<close> that adds a \<^verbatim>\<open>User-Agent\<close> header
  and sends the request; the response, or the exception \<^verbatim>\<open>requests\<close> raised, is an
  input (\<open>http_outcome\<close>).
\<close>

section \<open>Web request\<close>

text \<open>What \<^verbatim>\<open>urllib.parse.urlparse\<close> returns that the validator reads; the parser is
  the library's and an input of the model (it may raise, e.g. on a value that is not a
  string).\<close>

record parsed_url =
  url_scheme :: string
  url_hostname :: "string option"

definition web_request_definition :: tool_definition where
  "web_request_definition =
     \<lparr>tool_name = ''web_request'',
      tool_description = ''Make HTTP/HTTPS requests to target URLs for web reconnaissance'',
      tool_category = ''reconnaissance'', risk_level = ''moderate'', requires_approval = False,
      parameters =
        [\<lparr>param_name = ''url'', param_type = ''string'', param_description = ''Target URL to request'',
          param_required = True, param_default = None, param_enum = None\<rparr>,
         \<lparr>param_name = ''method'', param_type = ''string'', param_description = ''HTTP method'',
          param_required = False, param_default = Some (JStr ''GET''),
          param_enum = Some [''GET'', ''POST'', ''HEAD'', ''OPTIONS'']\<rparr>,
         \<lparr>param_name = ''headers'', param_type = ''object'',
          param_description = ''Custom HTTP headers as key-value pairs'',
          param_required = False, param_default = Some (JObj []), param_enum = None\<rparr>,
         \<lparr>param_name = ''timeout'', param_type = ''number'',
          param_description = ''Request timeout in seconds'',
          param_required = False, param_default = Some (JInt 10), param_enum = None\<rparr>]\<rparr>"

definition web_request_validate :: "(json \<Rightarrow> pyerr + parsed_url) \<Rightarrow> kwargs \<Rightarrow> pyerr + bool" where
  "web_request_validate urlparse kw =
     (let url = dict_get_default kw ''url'' JNull in
      if \<not> py_truthy url then Inl (ValueError ''URL is required'')
      else (case (case urlparse url of
                    Inl e \<Rightarrow> Some e
                  | Inr u \<Rightarrow>
                      if url_scheme u \<notin> set [''http'', ''https'']
                      then Some (ValueError ''URL must use http or https scheme'')
                      else (case url_hostname u of
                              Some h \<Rightarrow> if h \<noteq> [] \<and> \<not> starts_with ''10.0.0.'' h
                                        then Some (ValueError ''Can only request URLs in lab network (10.0.0.0/24)'')
                                        else None
                            | None \<Rightarrow> None)) of
              Some e \<Rightarrow> Inl (ValueError (''Invalid URL: '' @ pyerr_message e))
            | None \<Rightarrow> Inr True))"

text \<open>The response of \<^verbatim>\<open>requests.request\<close>: status code, reason, headers, body text,
  final URL and the number of redirects; or the exception it raised.\<close>

datatype http_outcome =
    HttpResponse int string pydict string string nat
  | HttpTimeout
  | HttpConnectionError string
  | HttpFailure string

text \<open>\<^verbatim>\<open>response.headers.get(k, d)\<close> on requests' case-insensitive dictionary.\<close>

definition ci_get :: "pydict \<Rightarrow> string \<Rightarrow> string \<Rightarrow> json" where
  "ci_get hs k d =
     (case find (\<lambda>(k', _). ascii_lower k' = ascii_lower k) hs of Some (_, v) \<Rightarrow> v | None \<Rightarrow> JStr d)"

text \<open>\<^verbatim>\<open>v[k] = x\<close> for a string key on any JSON value.\<close>

fun py_setitem_str :: "json \<Rightarrow> string \<Rightarrow> json \<Rightarrow> pyerr + json" where
  "py_setitem_str (JObj d) k x = Inr (JObj (dict_set k x d))"
| "py_setitem_str (JArr _) k x = Inl (TypeError ''list indices must be integers or slices, not str'')"
| "py_setitem_str v k x =
     Inl (TypeError (quoted (py_type_name v) @ '' object does not support item assignment''))"

definition web_request_execute ::
  "(json \<Rightarrow> json \<Rightarrow> json \<Rightarrow> json \<Rightarrow> http_outcome) \<Rightarrow> kwargs \<Rightarrow> pyerr + tool_result" where
  "web_request_execute request kw =
     py_bind (dict_index kw ''url'') (\<lambda>url.
       let method = dict_get_default kw ''method'' (JStr ''GET'');
           headers = dict_get_default kw ''headers'' (JObj []);
           timeout = dict_get_default kw ''timeout'' (JInt 10)
       in py_bind (py_contains_str headers ''User-Agent'') (\<lambda>has_agent.
          py_bind (if has_agent then Inr headers
                   else py_setitem_str headers ''User-Agent'' (JStr ''AI-Agent-Lab/1.0 (Educational)''))
            (\<lambda>headers'.
          Inr (case request method url headers' timeout of
                 HttpResponse code reason hs text final_url redirects \<Rightarrow>
                   \<lparr>success = True,
                    data = [(''status_code'', JInt code), (''status_text'', JStr reason),
                            (''headers'', JObj hs), (''body_preview'', JStr (take 1000 text)),
                            (''body_length'', JInt (int (length text))),
                            (''content_type'', ci_get hs ''Content-Type'' ''''),
                            (''server'', ci_get hs ''Server'' ''Unknown''),
                            (''final_url'', JStr final_url),
                            (''redirect_count'', JInt (int redirects))],
                    warnings = [], errors = []\<rparr>
               | HttpTimeout \<Rightarrow> tool_failure (''Request timed out after '' @ py_str timeout @ '' seconds'')
               | HttpConnectionError e \<Rightarrow> tool_failure (''Connection failed: '' @ e)
               | HttpFailure e \<Rightarrow> tool_failure (''Request failed: '' @ e)))))"


definition web_request_constraints :: pydict where
  "web_request_constraints =
     [(''max_execution_time'', JInt 30), (''max_memory_mb'', JInt 256),
      (''allowed_network_ranges'', JArr [JStr ''10.0.0.0/24'']),
      (''rate_limit'', JObj [(''requests_per_minute'', JInt 60), (''requests_per_hour'', JInt 1000)])]"

section \<open>Properties\<close>

text \<open>C29. The web request guard accepts a truthy URL whose parse has scheme
  \<^verbatim>\<open>http\<close> or \<^verbatim>\<open>https\<close> and whose host name is absent, empty, or begins with the
  text \<^verbatim>\<open>10.0.0.\<close>. The test is on the text of the name, not on an address: a host
  such as \<^verbatim>\<open>10.0.0.5.attacker.example\<close> passes, and so does a URL without a host.\<close>

theorem web_request_validate_iff:
  "web_request_validate urlparse kw = Inr True \<longleftrightarrow>
   py_truthy (dict_get_default kw ''url'' JNull) \<and>
   (\<exists>u. urlparse (dict_get_default kw ''url'' JNull) = Inr u \<and>
        url_scheme u \<in> {''http'', ''https''} \<and>
        (case url_hostname u of None \<Rightarrow> True | Some h \<Rightarrow> h = [] \<or> starts_with ''10.0.0.'' h))"
  by (auto simp: web_request_validate_def Let_def split: sum.splits option.splits if_splits)

end
