(* ===== verification/Log_Analyzer.thy ===== *)
theory Log_Analyzer
  imports Tool_Base
begin

text \<open>
  \<^verbatim>\<open>LogAnalyzerTool\<close>, the blue team's tool: a guard that allows four log files,
  and an \<^verbatim>\<open>execute\<close> that reads the file (an input, \<open>file_read\<close>), compiles the
  pattern (\<^verbatim>\<open>re.compile\<close>, an input), keeps the matching lines among the last 10000
  and looks for three kinds of security event among them. The file is read in text mode
  (\<open>text_mode\<close>), and the cut-off time it computes and never uses is modelled with the
  clock as an input and CPython's range checks, since an out-of-range look-back makes the
  analysis fail.
\<close>

section \<open>Log analyzer\<close>

definition log_analyzer_definition :: tool_definition where
  "log_analyzer_definition =
     \<lparr>tool_name = ''log_analyzer'',
      tool_description = ''Analyze system logs to detect security events and anomalies'',
      tool_category = ''defense'', risk_level = ''safe'', requires_approval = False,
      parameters =
        [\<lparr>param_name = ''log_file'', param_type = ''string'',
          param_description = ''Path to log file to analyze'',
          param_required = True, param_default = None, param_enum = None\<rparr>,
         \<lparr>param_name = ''pattern'', param_type = ''string'',
          param_description = ''Pattern to search for (regex)'',
          param_required = False, param_default = Some (JStr ''.*''), param_enum = None\<rparr>,
         \<lparr>param_name = ''time_range'', param_type = ''number'',
          param_description = ''Look back this many minutes'',
          param_required = False, param_default = Some (JInt 60), param_enum = None\<rparr>]\<rparr>"

definition allowed_logs :: "string list" where
  "allowed_logs = [''/var/log/auth.log'', ''/var/log/syslog'', ''/var/log/nginx/access.log'',
                   ''/var/log/nginx/error.log'']"

definition log_analyzer_validate :: "kwargs \<Rightarrow> pyerr + bool" where
  "log_analyzer_validate kw =
     (let log_file = dict_get_default kw ''log_file'' JNull in
      if \<not> py_truthy log_file then Inl (ValueError ''Log file path is required'')
      else if log_file \<notin> set (map JStr allowed_logs)
      then Inl (ValueError (''Log file must be one of: '' @ py_join '', '' allowed_logs))
      else Inr True)"

text \<open>\<^verbatim>\<open>open(log_file, 'r')\<close> reads in text mode with universal newlines:
  \<^verbatim>\<open>\r\n\<close> and a lone \<^verbatim>\<open>\r\<close> are read as \<^verbatim>\<open>\n\<close>.\<close>

fun text_mode :: "string \<Rightarrow> string" where
  "text_mode [] = []"
| "text_mode [c] = (if c = CHR 0x0D then [CHR 0x0A] else [c])"
| "text_mode (c # d # r) =
     (if c = CHR 0x0D then CHR 0x0A # (if d = CHR 0x0A then text_mode r else text_mode (d # r))
      else c # text_mode (d # r))"

text \<open>\<^verbatim>\<open>f.readlines()\<close>: the lines of the text with their terminators.\<close>

fun py_readlines :: "string \<Rightarrow> string list" where
  "py_readlines [] = []"
| "py_readlines (c # cs) =
     (if c = CHR ''\<newline>'' then [c] # py_readlines cs
      else (case py_readlines cs of [] \<Rightarrow> [[c]] | l # ls \<Rightarrow> (c # l) # ls))"

definition port_scan_indicators :: "string list" where
  "port_scan_indicators = [''SYN_RECV'', ''connection refused'', ''Connection reset'']"

definition detect_security_events :: "string list \<Rightarrow> json list" where
  "detect_security_events ls =
     (let failed_logins = length (filter (str_contains ''Failed password'') ls);
          scan_matches = sum_list (map (\<lambda>l. length (filter (\<lambda>i. str_contains i l) port_scan_indicators)) ls);
          sudo_fail = list_ex (\<lambda>l. str_contains ''sudo'' l \<and> str_contains ''incorrect password'' l) ls
      in (if 5 < failed_logins
          then [JObj [(''type'', JStr ''brute_force_attempt''), (''severity'', JStr ''high''),
                      (''count'', JInt (int failed_logins)),
                      (''description'', JStr (''Multiple failed login attempts detected ('' @
                                              nat_to_string failed_logins @ '')''))]]
          else []) @
         (if 10 < scan_matches
          then [JObj [(''type'', JStr ''port_scan''), (''severity'', JStr ''medium''),
                      (''count'', JInt (int scan_matches)),
                      (''description'', JStr ''Possible port scan detected'')]]
          else []) @
         (if sudo_fail
          then [JObj [(''type'', JStr ''privilege_escalation''), (''severity'', JStr ''high''),
                      (''description'', JStr ''Failed sudo attempts detected'')]]
          else []))"

text \<open>The file system and \<^verbatim>\<open>re.compile\<close> are inputs: reading a path gives its decoded
  text (before the newlines are translated), or \<^verbatim>\<open>FileNotFoundError\<close>, or another
  exception (a decoding error among them); compiling a pattern gives its
  \<^verbatim>\<open>search\<close> predicate or the message of \<^verbatim>\<open>re.error\<close>.\<close>

datatype file_read = FileText string | FileMissing | FileError string

text \<open>\<^verbatim>\<open>cutoff_time = datetime.now() - timedelta(minutes=time_range)\<close>. The clock is an
  input: \<open>now\<close> counts microseconds from \<^verbatim>\<open>datetime.min\<close> (0001-01-01 00:00); the
  latest \<^verbatim>\<open>datetime\<close> is 9999-12-31 23:59:59.999999. CPython's \<^verbatim>\<open>timedelta\<close>
  turns the minutes into whole days (rounding down), which must fit a C \<^verbatim>\<open>int\<close> and then
  have magnitude at most 999999999; the difference must be a representable date. A
  non-number raises \<^verbatim>\<open>TypeError\<close> before any of this.\<close>

definition datetime_max :: int where
  "datetime_max = 3652059 * 86400000000 - 1"

definition timedelta_minutes :: "json \<Rightarrow> pyerr + int" where
  "timedelta_minutes v =
     (case py_num v of
        None \<Rightarrow> Inl (TypeError (''unsupported type for timedelta minutes component: '' @ py_type_name v))
      | Some m \<Rightarrow>
          let d = m div 1440 in
          if d < - (2 ^ 31) \<or> 2 ^ 31 \<le> d then Inl (OverflowError ''Python int too large to convert to C int'')
          else if d < -999999999 \<or> 999999999 < d
          then Inl (OverflowError (''days='' @ int_to_string d @ ''; must have magnitude <= 999999999''))
          else Inr (m * 60000000))"

definition datetime_sub :: "int \<Rightarrow> int \<Rightarrow> pyerr + int" where
  "datetime_sub now td =
     (if now - td < 0 \<or> datetime_max < now - td then Inl (OverflowError ''date value out of range'')
      else Inr (now - td))"

definition cutoff_time :: "int \<Rightarrow> json \<Rightarrow> pyerr + int" where
  "cutoff_time now time_range = py_bind (timedelta_minutes time_range) (datetime_sub now)"

text \<open>The body of the \<^verbatim>\<open>try\<close> after the file is read: the last 10000 lines, the
  matches of the pattern stripped, and the events found among the matches.\<close>

definition log_report :: "json \<Rightarrow> (string \<Rightarrow> bool) \<Rightarrow> string \<Rightarrow> tool_result" where
  "log_report log_file search content =
     (let lines = py_readlines (text_mode content);
          recent = drop (length lines - 10000) lines;
          matches = map py_strip (filter search recent);
          events = detect_security_events matches
      in \<lparr>success = True,
          data = [(''log_file'', log_file),
                  (''total_lines_scanned'', JInt (int (length recent))),
                  (''matches_found'', JInt (int (length matches))),
                  (''sample_matches'', JArr (map JStr (take 10 matches))),
                  (''security_events'', JArr events)],
          warnings = (if events = [] then [] else [''Security events detected!'']),
          errors = []\<rparr>)"

text \<open>The \<^verbatim>\<open>try\<close> block catches every exception: a missing file, and anything
  raised by the read, the cut-off time or the compilation of the pattern.\<close>

definition log_analyzer_execute ::
  "(json \<Rightarrow> file_read) \<Rightarrow> (json \<Rightarrow> string + (string \<Rightarrow> bool)) \<Rightarrow> int \<Rightarrow> kwargs \<Rightarrow> pyerr + tool_result" where
  "log_analyzer_execute read compile now kw =
     py_bind (dict_index kw ''log_file'') (\<lambda>log_file.
       let pattern = dict_get_default kw ''pattern'' (JStr ''.*'');
           time_range = dict_get_default kw ''time_range'' (JInt 60)
       in Inr (case read log_file of
                 FileMissing \<Rightarrow> tool_failure (''Log file not found: '' @ py_str log_file)
               | FileError e \<Rightarrow> tool_failure (''Analysis failed: '' @ e)
               | FileText content \<Rightarrow>
                   (case cutoff_time now time_range of
                      Inl e \<Rightarrow> tool_failure (''Analysis failed: '' @ pyerr_message e)
                    | Inr _ \<Rightarrow>
                        (case compile pattern of
                           Inl e \<Rightarrow> tool_failure (''Analysis failed: '' @ e)
                         | Inr search \<Rightarrow> log_report log_file search content))))"

definition log_analyzer_constraints :: pydict where
  "log_analyzer_constraints =
     [(''max_execution_time'', JInt 30), (''max_memory_mb'', JInt 512),
      (''rate_limit'', JObj [(''requests_per_minute'', JInt 30)])]"

section \<open>Lemmas\<close>

lemma log_analyzer_execute_success:
  assumes "log_analyzer_execute read compile now kw = Inr r" "success r"
  shows "\<exists>log_file search content. dict_index kw ''log_file'' = Inr log_file \<and>
           compile (dict_get_default kw ''pattern'' (JStr ''.*'')) = Inr search \<and>
           read log_file = FileText content \<and> r = log_report log_file search content"
proof (cases "dict_index kw ''log_file''")
  case (Inr log_file)
  then show ?thesis using assms
    by (auto simp: log_analyzer_execute_def Let_def split: file_read.splits option.splits sum.splits)
qed (use assms in \<open>simp add: log_analyzer_execute_def\<close>)

lemma log_report_bounds:
  "\<exists>n m k. map_of (data (log_report f search c)) ''total_lines_scanned'' = Some (JInt n) \<and> n \<le> 10000 \<and>
           map_of (data (log_report f search c)) ''matches_found'' = Some (JInt m) \<and> m \<le> n \<and>
           map_of (data (log_report f search c)) ''sample_matches'' = Some (JArr k) \<and> length k \<le> 10"
proof -
  define ls where "ls = py_readlines (text_mode c)"
  define recent where "recent = drop (length ls - 10000) ls"
  have a: "length (filter search recent) \<le> length recent" by (rule length_filter_le)
  have b: "length recent \<le> 10000" by (simp add: recent_def)
  have "log_report f search c =
        \<lparr>success = True,
         data = [(''log_file'', f), (''total_lines_scanned'', JInt (int (length recent))),
                 (''matches_found'', JInt (int (length (filter search recent)))),
                 (''sample_matches'', JArr (map JStr (take 10 (map py_strip (filter search recent))))),
                 (''security_events'', JArr (detect_security_events (map py_strip (filter search recent))))],
         warnings = (if detect_security_events (map py_strip (filter search recent)) = [] then []
                     else [''Security events detected!'']),
         errors = []\<rparr>"
    by (simp add: log_report_def Let_def ls_def recent_def)
  then show ?thesis using a b by simp
qed

section \<open>Properties\<close>

text \<open>The log analyzer's guard accepts exactly the four listed log files.\<close>

theorem log_analyzer_validate_iff:
  "log_analyzer_validate kw = Inr True \<longleftrightarrow>
   dict_get_default kw ''log_file'' JNull \<in> set (map JStr allowed_logs)"
  by (auto simp: log_analyzer_validate_def Let_def allowed_logs_def)

text \<open>C32. A successful analysis scans at most the last 10000 lines of the file, finds
  at most as many matches as it scanned, and shows at most 10 of them.\<close>

theorem log_analyzer_bounds:
  assumes "log_analyzer_execute read compile now kw = Inr r" "success r"
  shows "\<exists>n m k. map_of (data r) ''total_lines_scanned'' = Some (JInt n) \<and> n \<le> 10000 \<and>
                map_of (data r) ''matches_found'' = Some (JInt m) \<and> m \<le> n \<and>
                map_of (data r) ''sample_matches'' = Some (JArr k) \<and> length k \<le> 10"
  using log_analyzer_execute_success[OF assms] log_report_bounds by blast

theorem log_analyzer_bounds_witness:
  "\<exists>r. log_analyzer_execute (\<lambda>_. FileText ''a\<newline>b\<newline>'') (\<lambda>_. Inr (\<lambda>_. True)) 10000000000000000
          [(''log_file'', JStr ''/var/log/auth.log'')] = Inr r \<and> success r \<and>
       (\<exists>n m k. map_of (data r) ''total_lines_scanned'' = Some (JInt n) \<and> n \<le> 10000 \<and>
                map_of (data r) ''matches_found'' = Some (JInt m) \<and> m \<le> n \<and>
                map_of (data r) ''sample_matches'' = Some (JArr k) \<and> length k \<le> 10)"
proof -
  let ?kw = "[(''log_file'', JStr ''/var/log/auth.log'')]"
  let ?r = "log_report (JStr ''/var/log/auth.log'') (\<lambda>_. True) ''a\<newline>b\<newline>''"
  have e: "log_analyzer_execute (\<lambda>_. FileText ''a\<newline>b\<newline>'') (\<lambda>_. Inr (\<lambda>_. True)) 10000000000000000 ?kw = Inr ?r"
    by (simp add: log_analyzer_execute_def dict_index_def dict_get_default_def cutoff_time_def
                  timedelta_minutes_def datetime_sub_def datetime_max_def py_bind_def)
  have s: "success ?r" by (simp add: log_report_def Let_def)
  show ?thesis using e s log_analyzer_bounds[OF e s] by blast
qed

text \<open>C33. \<^verbatim>\<open>time_range\<close> ("look back this many minutes") does not select what is
  analysed: the cut-off time is computed and never used, so any two values whose cut-off
  is a representable time give the same analysis.\<close>

theorem log_analyzer_time_range_cutoff:
  assumes "cutoff_time now (JInt a) = Inr ca" "cutoff_time now (JInt b) = Inr cb"
  shows "log_analyzer_execute read compile now (dict_set ''time_range'' (JInt a) kw) =
         log_analyzer_execute read compile now (dict_set ''time_range'' (JInt b) kw)"
  using assms
  by (cases "dict_index kw ''log_file''")
     (simp_all add: log_analyzer_execute_def model_simps Let_def split: file_read.split)

theorem log_analyzer_time_range_cutoff_witness:
  "log_analyzer_execute (\<lambda>_. FileText ''x\<newline>'') (\<lambda>_. Inr (\<lambda>_. True)) 63900000000000000
     (dict_set ''time_range'' (JInt 5) [(''log_file'', JStr ''/var/log/syslog'')]) =
   log_analyzer_execute (\<lambda>_. FileText ''x\<newline>'') (\<lambda>_. Inr (\<lambda>_. True)) 63900000000000000
     (dict_set ''time_range'' (JInt 525600) [(''log_file'', JStr ''/var/log/syslog'')])"
proof -
  have a: "cutoff_time 63900000000000000 (JInt 5) = Inr 63899999700000000"
    by (simp add: cutoff_time_def timedelta_minutes_def datetime_sub_def datetime_max_def py_bind_def)
  have b: "cutoff_time 63900000000000000 (JInt 525600) = Inr 63868464000000000"
    by (simp add: cutoff_time_def timedelta_minutes_def datetime_sub_def datetime_max_def py_bind_def)
  show ?thesis using log_analyzer_time_range_cutoff[OF a b] .
qed

text \<open>A look-back that reaches before the year 1 (or a number of days out of
  \<^verbatim>\<open>timedelta\<close>'s range) makes the whole analysis fail.\<close>

lemma log_analyzer_time_range_overflow:
  assumes "dict_index kw ''log_file'' = Inr f" "read f = FileText c" "cutoff_time now (JInt a) = Inl e"
  shows "log_analyzer_execute read compile now (dict_set ''time_range'' (JInt a) kw) =
         Inr (tool_failure (''Analysis failed: '' @ pyerr_message e))"
  using assms by (simp add: log_analyzer_execute_def model_simps Let_def)

lemma log_analyzer_time_range_overflow_example:
  "cutoff_time 63900000000000000 (JInt 1100000000) = Inl (OverflowError ''date value out of range'')"
  by (simp add: cutoff_time_def timedelta_minutes_def datetime_sub_def datetime_max_def py_bind_def)

end
