(* ===== verification/Recon_Tools.thy ===== *)
theory Recon_Tools
  imports Net_Tools Web_Request Log_Analyzer
begin

text \<open>
  The five tools of \<^verbatim>\<open>src/agent-tools/tools/port_scanner.py\<close> behind the interface of
  \<^verbatim>\<open>agent_tools.base.BaseTool\<close>, which every tool class implements: a declaration of
  its parameters (\<^verbatim>\<open>get_definition\<close>), a guard (\<^verbatim>\<open>validate\<close>), the work
  (\<^verbatim>\<open>execute\<close>), and declared limits (\<^verbatim>\<open>get_safety_constraints\<close>). The base class
  is not in the repository; the datatype \<open>tool\<close> names the five implementations and the
  four functions below dispatch to them, with every input the tools read from their
  environment gathered in one record. The lemmas relate the declarations to the code:
  arguments that conform to a tool's declared parameters never make its
  \<^verbatim>\<open>execute\<close> raise, a tool that runs a binary bounds it by its declared
  \<^verbatim>\<open>max_execution_time\<close>, a declared default is the value \<^verbatim>\<open>execute\<close> uses when the
  argument is left out, and a call that passed \<^verbatim>\<open>validate\<close> never fails for a missing
  argument.
\<close>

section \<open>The tools behind one interface\<close>

datatype tool = PortScanner | WebRequest | DnsLookup | ServiceDetector | LogAnalyzer

text \<open>What the tools read from outside: the IPv6 parser and \<^verbatim>\<open>urlparse\<close> of the
  standard library, the outcome of the binary a tool runs, the HTTP exchange, the file
  system, \<^verbatim>\<open>re.compile\<close> and the clock.\<close>

record tool_env =
  te_p6 :: "string \<Rightarrow> 128 word option"
  te_urlparse :: "json \<Rightarrow> pyerr + parsed_url"
  te_run :: "string list \<Rightarrow> int \<Rightarrow> proc_outcome"
  te_request :: "json \<Rightarrow> json \<Rightarrow> json \<Rightarrow> json \<Rightarrow> http_outcome"
  te_read :: "json \<Rightarrow> file_read"
  te_compile :: "json \<Rightarrow> string + (string \<Rightarrow> bool)"
  te_now :: int

fun get_definition :: "tool \<Rightarrow> tool_definition" where
  "get_definition PortScanner = port_scanner_definition"
| "get_definition WebRequest = web_request_definition"
| "get_definition DnsLookup = dns_lookup_definition"
| "get_definition ServiceDetector = service_detector_definition"
| "get_definition LogAnalyzer = log_analyzer_definition"

fun validate :: "tool_env \<Rightarrow> tool \<Rightarrow> kwargs \<Rightarrow> pyerr + bool" where
  "validate env PortScanner kw = port_scanner_validate (te_p6 env) kw"
| "validate env WebRequest kw = web_request_validate (te_urlparse env) kw"
| "validate env DnsLookup kw = dns_lookup_validate kw"
| "validate env ServiceDetector kw = service_detector_validate (te_p6 env) kw"
| "validate env LogAnalyzer kw = log_analyzer_validate kw"

fun execute :: "tool_env \<Rightarrow> tool \<Rightarrow> kwargs \<Rightarrow> pyerr + tool_result" where
  "execute env PortScanner kw = port_scanner_execute (te_run env) kw"
| "execute env WebRequest kw = web_request_execute (te_request env) kw"
| "execute env DnsLookup kw = dns_lookup_execute (te_run env) kw"
| "execute env ServiceDetector kw = service_detector_execute (te_run env) kw"
| "execute env LogAnalyzer kw = log_analyzer_execute (te_read env) (te_compile env) (te_now env) kw"

fun get_safety_constraints :: "tool \<Rightarrow> pydict" where
  "get_safety_constraints PortScanner = port_scanner_constraints"
| "get_safety_constraints WebRequest = web_request_constraints"
| "get_safety_constraints DnsLookup = dns_lookup_constraints"
| "get_safety_constraints ServiceDetector = service_detector_constraints"
| "get_safety_constraints LogAnalyzer = log_analyzer_constraints"

definition demo_tool_env :: tool_env where
  "demo_tool_env =
     \<lparr>te_p6 = (\<lambda>_. None), te_urlparse = (\<lambda>_. Inl (ValueError ''unparsed'')), te_run = (\<lambda>_ _. TimedOut),
      te_request = (\<lambda>_ _ _ _. HttpTimeout), te_read = (\<lambda>_. FileMissing), te_compile = (\<lambda>_. Inl ''''),
      te_now = 63900000000000000\<rparr>"

section \<open>Lemmas\<close>

lemma dict_index_Some: "map_of kw k = Some v \<Longrightarrow> dict_index kw k = Inr v"
  by (simp add: dict_index_def)

lemma dict_get_default_None: "map_of kw k = None \<Longrightarrow> dict_get_default kw k d = d"
  by (simp add: dict_get_default_def)

lemma dict_get_default_Some: "map_of kw k = Some v \<Longrightarrow> dict_get_default kw k d = v"
  by (simp add: dict_get_default_def)

lemma truthy_present: "py_truthy (dict_get_default kw k JNull) \<Longrightarrow> \<exists>v. map_of kw k = Some v"
  by (cases "map_of kw k") (simp_all add: dict_get_default_def)

lemma conforms_required:
  "conforms ps kw \<Longrightarrow> p \<in> set ps \<Longrightarrow> param_required p \<Longrightarrow>
   \<exists>v. map_of kw (param_name p) = Some v \<and> param_accepts p v"
  by (fastforce simp: conforms_def list_all_iff split: option.splits)

lemma conforms_given:
  "conforms ps kw \<Longrightarrow> p \<in> set ps \<Longrightarrow> map_of kw (param_name p) = Some v \<Longrightarrow> param_accepts p v"
  by (fastforce simp: conforms_def list_all_iff split: option.splits)

lemma py_contains_str_no_key_error: "py_contains_str v x \<noteq> Inl (KeyError k)"
  by (cases v) simp_all

lemma py_setitem_str_no_key_error: "py_setitem_str v x y \<noteq> Inl (KeyError k)"
  by (cases v) simp_all

lemma json_has_type_object: "json_has_type ''object'' v \<longleftrightarrow> (\<exists>d. v = JObj d)"
  by (cases v) auto

text \<open>A declared object parameter that conforms, or is left to its default \<open>{}\<close>, is a
  dictionary.\<close>

lemma conforms_headers:
  assumes "conforms (parameters web_request_definition) kw"
  shows "\<exists>d. dict_get_default kw ''headers'' (JObj []) = JObj d"
proof (cases "map_of kw ''headers''")
  case (Some h)
  let ?p = "\<lparr>param_name = ''headers'', param_type = ''object'',
        param_description = ''Custom HTTP headers as key-value pairs'',
        param_required = False, param_default = Some (JObj []), param_enum = None\<rparr>"
  have "param_accepts ?p h"
    using conforms_given[of _ kw ?p h] assms Some by (simp add: web_request_definition_def)
  then show ?thesis using Some by (auto simp: param_accepts_def json_has_type_object dict_get_default_Some)
qed (simp add: dict_get_default_None)

text \<open>A call that passed \<^verbatim>\<open>validate\<close> has every argument \<^verbatim>\<open>execute\<close> indexes, so it never
  raises \<^verbatim>\<open>KeyError\<close>. (It may raise otherwise: a \<^verbatim>\<open>headers\<close> argument that is a
  string passes \<^verbatim>\<open>WebRequestTool.validate\<close> and makes \<^verbatim>\<open>execute\<close> raise
  \<^verbatim>\<open>TypeError\<close>.)\<close>

lemma validate_no_key_error:
  assumes "validate env t kw = Inr True"
  shows "execute env t kw \<noteq> Inl (KeyError k)"
proof (cases t)
  case PortScanner
  then obtain v where "map_of kw ''target'' = Some v"
    using assms truthy_present by (fastforce simp: port_scanner_validate_def Let_def split: if_splits)
  then show ?thesis using PortScanner by (simp add: port_scanner_execute_def dict_index_Some Let_def)
next
  case WebRequest
  then obtain v where "map_of kw ''url'' = Some v"
    using assms truthy_present by (fastforce simp: web_request_validate_def Let_def split: if_splits)
  then show ?thesis using WebRequest
    by (auto simp: web_request_execute_def dict_index_Some Let_def py_bind_def
                   py_contains_str_no_key_error py_setitem_str_no_key_error split: sum.splits if_splits)
next
  case DnsLookup
  then obtain v where "map_of kw ''domain'' = Some v"
    using assms truthy_present by (fastforce simp: dns_lookup_validate_def Let_def split: if_splits)
  then show ?thesis using DnsLookup by (simp add: dns_lookup_execute_def dict_index_Some Let_def)
next
  case ServiceDetector
  then have "py_truthy (dict_get_default kw ''target'' JNull)" "py_truthy (dict_get_default kw ''port'' JNull)"
    using assms by (auto simp: service_detector_validate_def Let_def split: if_splits)
  then obtain v u where "map_of kw ''target'' = Some v" "map_of kw ''port'' = Some u"
    using truthy_present by blast
  then show ?thesis using ServiceDetector by (simp add: service_detector_execute_def dict_index_Some Let_def)
next
  case LogAnalyzer
  then obtain v where "map_of kw ''log_file'' = Some v"
    using assms truthy_present by (fastforce simp: log_analyzer_validate_def Let_def split: if_splits)
  then show ?thesis using LogAnalyzer by (simp add: log_analyzer_execute_def dict_index_Some Let_def)
qed

lemma subprocess_run_at_timeout:
  "(\<And>a. r a t = r' a t) \<Longrightarrow> subprocess_run args t r = subprocess_run args t r'"
  by (simp add: subprocess_run_def split: option.split)

text \<open>The tools that run a binary pass \<^verbatim>\<open>subprocess.run\<close> the timeout they declare as
  \<^verbatim>\<open>max_execution_time\<close>: what the binary would do under any other timeout does not
  matter. (The web tool passes the caller's \<^verbatim>\<open>timeout\<close> instead, unchecked.)\<close>

lemma execute_declared_timeout:
  assumes "t \<in> {PortScanner, ServiceDetector, DnsLookup}"
      and "map_of (get_safety_constraints t) ''max_execution_time'' = Some (JInt T)"
      and "\<And>a. r a T = te_run env a T"
  shows "execute (env\<lparr>te_run := r\<rparr>) t kw = execute env t kw"
proof -
  have T: "T = (case t of PortScanner \<Rightarrow> 120 | ServiceDetector \<Rightarrow> 60 | _ \<Rightarrow> 10)"
    using assms(1,2) by (auto simp: port_scanner_constraints_def service_detector_constraints_def
                                   dns_lookup_constraints_def)
  have h: "\<And>args. subprocess_run args T r = subprocess_run args T (te_run env)"
    using assms(3) by (rule subprocess_run_at_timeout)
  show ?thesis using assms(1) T h
    by (auto simp: port_scanner_execute_def service_detector_execute_def dns_lookup_execute_def)
qed

lemma web_request_string_headers:
  assumes "urlparse (JStr ''http://10.0.0.5/'') = Inr \<lparr>url_scheme = ''http'', url_hostname = Some ''10.0.0.5''\<rparr>"
  shows "web_request_validate urlparse [(''url'', JStr ''http://10.0.0.5/''), (''headers'', JStr ''x'')] = Inr True \<and>
         web_request_execute request [(''url'', JStr ''http://10.0.0.5/''), (''headers'', JStr ''x'')] =
           Inl (TypeError (quoted ''str'' @ '' object does not support item assignment''))"
  using assms
  by (simp add: web_request_validate_def web_request_execute_def dict_index_def dict_get_default_def py_bind_def)

section \<open>Properties of the interface\<close>

text \<open>C30. Type soundness of the tool interface: keyword arguments that conform to a
  tool's declared parameters (every required one given, every given one of its declared
  type and within its enumeration) never make the tool's \<^verbatim>\<open>execute\<close> raise; every
  failure is reported in the result dictionary.\<close>

theorem execute_conforming_args:
  assumes "conforms (parameters (get_definition t)) kw"
  shows "\<exists>r. execute env t kw = Inr r"
proof (cases t)
  case PortScanner
  then obtain v where "map_of kw ''target'' = Some v"
    using conforms_required[OF assms[unfolded PortScanner], of "hd (parameters port_scanner_definition)"]
    by (auto simp: port_scanner_definition_def)
  then show ?thesis using PortScanner by (simp add: port_scanner_execute_def dict_index_Some Let_def)
next
  case WebRequest
  then obtain v where u: "map_of kw ''url'' = Some v"
    using conforms_required[OF assms[unfolded WebRequest], of "hd (parameters web_request_definition)"]
    by (auto simp: web_request_definition_def)
  obtain d where "dict_get_default kw ''headers'' (JObj []) = JObj d"
    using conforms_headers assms WebRequest by auto
  then show ?thesis using WebRequest u
    by (simp add: web_request_execute_def dict_index_Some Let_def py_bind_def)
next
  case DnsLookup
  then obtain v where "map_of kw ''domain'' = Some v"
    using conforms_required[OF assms[unfolded DnsLookup], of "hd (parameters dns_lookup_definition)"]
    by (auto simp: dns_lookup_definition_def)
  then show ?thesis using DnsLookup by (simp add: dns_lookup_execute_def dict_index_Some Let_def)
next
  case ServiceDetector
  have "\<exists>v. map_of kw ''target'' = Some v" "\<exists>v. map_of kw ''port'' = Some v"
    using conforms_required[OF assms[unfolded ServiceDetector]]
    by (fastforce simp: service_detector_definition_def)+
  then show ?thesis using ServiceDetector
    by (auto simp: service_detector_execute_def dict_index_Some Let_def)
next
  case LogAnalyzer
  then obtain v where "map_of kw ''log_file'' = Some v"
    using conforms_required[OF assms[unfolded LogAnalyzer], of "hd (parameters log_analyzer_definition)"]
    by (auto simp: log_analyzer_definition_def)
  then show ?thesis using LogAnalyzer by (simp add: log_analyzer_execute_def dict_index_Some Let_def)
qed

theorem execute_conforming_args_witness:
  "conforms (parameters (get_definition WebRequest)) [(''url'', JStr ''http://10.0.0.5/'')] \<and>
   (\<exists>r. execute demo_tool_env WebRequest [(''url'', JStr ''http://10.0.0.5/'')] = Inr r)"
proof -
  have c: "conforms (parameters (get_definition WebRequest)) [(''url'', JStr ''http://10.0.0.5/'')]"
    by (simp add: conforms_def web_request_definition_def param_accepts_def)
  show ?thesis using c execute_conforming_args [OF c] by blast
qed

text \<open>C20. The declared defaults are the ones the code uses: for every optional
  parameter of every tool, calling \<^verbatim>\<open>execute\<close> without the argument gives the same
  result as passing the default that \<^verbatim>\<open>get_definition\<close> declares for it.\<close>

theorem execute_declared_defaults:
  assumes "p \<in> set (parameters (get_definition t))" "param_default p = Some d"
      and "map_of kw (param_name p) = None"
  shows "execute env t (dict_set (param_name p) d kw) = execute env t kw"
proof (cases t)
  case PortScanner
  then show ?thesis using assms
    by (auto simp: port_scanner_definition_def port_scanner_execute_def model_simps dict_get_default_None)
next
  case WebRequest
  then show ?thesis using assms
    by (auto simp: web_request_definition_def web_request_execute_def model_simps dict_get_default_None)
next
  case DnsLookup
  then show ?thesis using assms
    by (auto simp: dns_lookup_definition_def dns_lookup_execute_def model_simps dict_get_default_None)
next
  case ServiceDetector
  then show ?thesis using assms
    by (auto simp: service_detector_definition_def service_detector_execute_def model_simps
                   dict_get_default_None)
next
  case LogAnalyzer
  then show ?thesis using assms
    by (auto simp: log_analyzer_definition_def log_analyzer_execute_def model_simps dict_get_default_None
             cong: file_read.case_cong sum.case_cong)
qed

theorem execute_declared_defaults_witness:
  "(\<exists>p \<in> set (parameters (get_definition PortScanner)). param_name p = ''ports'' \<and>
      param_default p = Some (JStr ''1-1000'')) \<and>
   execute demo_tool_env PortScanner (dict_set ''ports'' (JStr ''1-1000'') [(''target'', JStr ''10.0.0.5'')]) =
   execute demo_tool_env PortScanner [(''target'', JStr ''10.0.0.5'')]"
proof -
  let ?p = "\<lparr>param_name = ''ports'', param_type = ''string'',
          param_description = ''Port specification (e.g., '' @ sq @ ''22,80,443'' @ sq @ '' or '' @ sq @
                              ''1-1000'' @ sq @ '')'',
          param_required = False, param_default = Some (JStr ''1-1000''), param_enum = None\<rparr>"
  have m: "?p \<in> set (parameters (get_definition PortScanner))" by (simp add: port_scanner_definition_def)
  have "execute demo_tool_env PortScanner (dict_set (param_name ?p) (JStr ''1-1000'') [(''target'', JStr ''10.0.0.5'')]) =
        execute demo_tool_env PortScanner [(''target'', JStr ''10.0.0.5'')]"
    using execute_declared_defaults [OF m, of "JStr ''1-1000''" "[(''target'', JStr ''10.0.0.5'')]"] by simp
  then show ?thesis using m by (auto intro!: bexI[of _ ?p])
qed


end
