(* ===== verification/Spec2Isabelle.thy ===== *)
theory Spec2Isabelle
  imports Cli_Main Interleaving Recon_Tools
begin

text \<open>
  \<^bold>\<open>A verification development of the lab controller of the AI agents cyber range.\<close>

  \<^bold>\<open>The program.\<close> \<^verbatim>\<open>src/packages/lab-controller/lab-controller.py\<close> is a command
  line tool. Each invocation is one short process: \<^verbatim>\<open>main\<close> reads \<^verbatim>\<open>sys.argv\<close>,
  builds a \<^verbatim>\<open>StudentCLI\<close> (which loads the session file of \<^verbatim>\<open>student-01\<close>) or an
  \<^verbatim>\<open>InstructorCLI\<close>, and runs one command. Its parts, leaf first:
  \<^item> the lab catalog (\<^verbatim>\<open>Config\<close>, \<^verbatim>\<open>LabDefinition\<close>): lab definitions read from
    \<^verbatim>\<open>LABS_DIR/<lab>/lab.json\<close>, with the optional \<^verbatim>\<open>verify.py\<close> and \<^verbatim>\<open>starter.py\<close>;
  \<^item> the session store (\<^verbatim>\<open>StudentSession\<close>): one JSON file per student under
    \<^verbatim>\<open>STATE_DIR\<close>, holding the active lab, the attempt counts, the completed labs and the
    score, rewritten whole by every \<^verbatim>\<open>start_lab\<close> and \<^verbatim>\<open>complete_lab\<close>;
  \<^item> the verification engine (\<^verbatim>\<open>LabVerifier\<close>): runs \<^verbatim>\<open>verify.py\<close> under a 30 second
    timeout and merges the JSON it prints into a results dictionary;
  \<^item> the session controller (\<^verbatim>\<open>StudentCLI.cmd_start\<close>, \<^verbatim>\<open>cmd_hint\<close>,
    \<^verbatim>\<open>cmd_verify\<close>, and \<^verbatim>\<open>InstructorCLI.cmd_reset\<close>): the lab state machine over
    the single \<^verbatim>\<open>current_lab\<close> slot (idle, active, completed as a historical fact);
  \<^item> the agent interaction log and chat client (\<^verbatim>\<open>AgentController\<close>, \<^verbatim>\<open>OllamaClient\<close>);
  \<^item> the reconnaissance tools of \<^verbatim>\<open>src/agent-tools/tools/port_scanner.py\<close> (port scan,
    web request, DNS lookup, service detection, log analysis), each a subclass of
    \<^verbatim>\<open>agent_tools.base.BaseTool\<close> with a declaration of its parameters, a validator, a
    wrapper around an external binary, HTTP or a log file, and declared limits.

  \<^bold>\<open>The theories.\<close>
  \<^item> \<open>Prelude\<close>: the Python values the code handles (\<open>json\<close>), its exceptions
    (\<open>pyerr\<close>, every uncaught exception being the \<open>Inl\<close> branch of a result), and the
    Python semantics it relies on: truthiness, \<^verbatim>\<open>len\<close>, negative indexing, \<^verbatim>\<open>>=\<close> and
    \<^verbatim>\<open>+=\<close> on JSON values, dictionaries with insertion order (\<open>AList.update\<close>), and the
    \<open>py_bind\<close> sequencing of statements that may raise.
  \<^item> \<open>Lab_Catalog\<close>: \<open>Config\<close>, the lab tree \<open>labs_fs\<close>, \<open>lab_definition_init\<close>,
    \<open>load\<close>, \<open>get_starter_code\<close>, \<open>get_verification_script\<close>,
    \<open>create_example_labs\<close>.
  \<^item> \<open>Session_Store\<close>: \<^verbatim>\<open>start_lab\<close> and \<^verbatim>\<open>complete_lab\<close> translated on the
    dictionary (\<open>start_lab_dict\<close>, \<open>complete_lab_dict\<close>) and on the typed record
    \<open>session\<close> (\<open>start_lab\<close>, \<open>complete_lab\<close>), the encoding \<open>session_dict\<close> and its
    decoder, the files (\<open>load_or_create\<close>, \<open>save\<close>, \<open>reset\<close>) and the invariant
    \<open>session_inv\<close>. The refinement lemmas show that the dictionary code computes the
    record operations on every encoded record, so the rest of the development works on records.
  \<^item> \<open>Verifier\<close>: \<open>verify\<close> with the process outcome (\<open>proc_outcome\<close>) and
    \<^verbatim>\<open>json.loads\<close> (\<open>json_loads\<close>) as inputs, and \<open>py_dict_update\<close>, CPython's
    \<^verbatim>\<open>dict.update\<close> on every JSON value, with the partial update before an exception.
  \<^item> \<open>Agent_Log\<close>: \<^verbatim>\<open>OllamaClient\<close> (\<open>chat\<close>, \<open>generate\<close>,
    \<open>list_models\<close>) with the HTTP POST as an input (\<open>http_post\<close>), and
    \<^verbatim>\<open>AgentController\<close>: the day's log file as an association list (\<open>log_dir\<close>),
    \<open>log_append\<close> for \<^verbatim>\<open>_log\<close>, \<open>send_to_agent\<close> for
    \<^verbatim>\<open>send_to_red_agent\<close>/\<^verbatim>\<open>send_to_blue_agent\<close>, \<open>get_agent_status\<close>, and the
    monitor's view of the last ten lines (\<open>recent_entries\<close>).
  \<^item> \<open>Controller\<close>: \<open>cmd_start\<close>, \<open>cmd_hint\<close> (with \<open>select_hint\<close>),
    \<open>cmd_verify\<close> (with \<open>report_results\<close>), \<open>cmd_chat\<close>, \<open>cmd_status\<close>, one process
    \<open>student_run\<close> over a \<open>world\<close> of lab tree, session files and agent log, the step
    relation \<open>ctl_step\<close> (a student process, a reset, an edit of the lab tree) and
    \<open>reachable\<close>.
  \<^item> \<open>Cli_Main\<close>: \<^verbatim>\<open>main\<close>'s dispatch on the argument list (\<open>parse_argv\<close>),
    one invocation (\<open>main_run\<close>), sequences of them (\<open>run_main\<close>, and
    \<open>run_each\<close> where an invocation that raises changes nothing and the next one runs),
    the worlds reachable with a crash in the middle of a save (\<open>cli_reachable\<close>), and the commands
    the controller theory leaves out: \<open>cmd_list\<close> (which creates the example lab when the
    labs directory is missing), and the instructor's \<open>cmd_monitor\<close>, \<open>cmd_grade\<close>,
    \<open>cmd_reset\<close> (with the typed confirmation) and \<open>cmd_stats\<close>. Every invocation is
    the identity or a step of \<open>ctl_step\<close> (\<open>main_run_step\<close>), so the invariants of
    \<open>reachable\<close> hold for every sequence of command lines.
  \<^item> \<open>Interleaving\<close>: two or more student processes of one student as their loads
    and saves of the session file in any order (\<open>schedule_run\<close>, with
    \<open>session_effect\<close> the record a process saves); the sequential order is two runs of
    \<open>student_run\<close>.
  \<^item> \<open>Tool_Base\<close>: what the tools share: keyword arguments, the result dictionary
    \<open>tool_result\<close>, \<open>subprocess_run\<close> (whose outcome is an input that depends on the
    command line), the records \<open>tool_parameter\<close> and \<open>tool_definition\<close> of
    \<^verbatim>\<open>ToolParameter\<close>/\<^verbatim>\<open>ToolDefinition\<close> with the conformance of arguments to a
    declaration (\<open>conforms\<close>), and IPv4 addresses as \<open>32 word\<close> with the network test
    as the mask test of \<^verbatim>\<open>ipaddress\<close> (\<open>in_lab_network\<close>).
  \<^item> \<open>Net_Tools\<close>, \<open>Web_Request\<close>, \<open>Log_Analyzer\<close>: each tool's
    \<^verbatim>\<open>get_definition\<close> (\<open>port_scanner_definition\<close>, ...), \<^verbatim>\<open>validate\<close>,
    \<^verbatim>\<open>execute\<close> and \<^verbatim>\<open>get_safety_constraints\<close>, with the parsers of nmap's and
    dig's output (and the regular expression they translate, \<open>tcp_open_match\<close>), the HTTP,
    file and \<^verbatim>\<open>re.compile\<close> outcomes as inputs, and the log analyzer's cut-off time with
    the range checks of CPython's \<^verbatim>\<open>timedelta\<close> and \<^verbatim>\<open>datetime\<close>.
  \<^item> \<open>Recon_Tools\<close>: the \<^verbatim>\<open>BaseTool\<close> interface as a datatype \<open>tool\<close> of the five
    tools with \<open>get_definition\<close>, \<open>validate\<close>, \<open>execute\<close> and
    \<open>get_safety_constraints\<close> dispatching to them, and the environment \<open>tool_env\<close> of
    everything they read from outside.
  \<^item> this theory: the properties that span the components (the scenarios of the spec run
    end to end, and the paths where a malformed verification result reaches the session).

  \<^bold>\<open>What is proved.\<close> The session invariant holds in every reachable world and no step
  lowers a stored score; \<^verbatim>\<open>cmd_verify\<close> completes a lab exactly at score 70 or more and
  otherwise leaves the session active; the hint index is clamped into the hint list; saving
  and loading a session is lossless; the dictionary code refines the record operations;
  repeated completion keeps one entry and awards the score twice; a timeout or a lab without
  a check yields score 0; \<^verbatim>\<open>verify\<close> raises only on a list payload; a dict payload's score
  is taken unchecked. The scenarios show where the code and the spec part: a failing second
  verification does not add its score (spec 8 says it does), and a malformed payload that
  \<^verbatim>\<open>dict.update\<close> rejects half-way still completes the lab with the score it carried.
  The agent log is append-only, chat
  never raises and never touches a session, and a multi-line response leaves untagged lines
  in the log. For the tools: the address guards are characterised exactly (the mask test is
  the range \<open>10.0.0.0\<close> to \<open>10.0.0.255\<close>; the service detector admits the host and the
  port \<^verbatim>\<open>true\<close>; the web guard is a text prefix test), the nmap line parser inverts
  nmap's format, a failed nmap run counts as a successful scan and the port count counts
  comma-separated fields, the service pattern also matches longer port numbers, and the
  log analysis is bounded. For the command line: after any
  sequence of invocations from an empty state directory every session file is valid; a
  session file torn by a crash (reachable: \<open>crash_tears_file\<close>) blocks every student
  command and stays torn whatever command lines follow, the reset included; the
  listing creates the example lab; the statistics sum what the sessions hold. Two
  processes of one student that interleave their load and save lose the earlier save (no
  locking, against spec 5), but no interleaving makes a valid file invalid. Progress: from
  every reachable world any student can complete any well-formed lab with a check by a start
  and a passing verification. For the tool interface: arguments that conform to a tool's
  declared parameters never make \<^verbatim>\<open>execute\<close> raise (a type soundness result; the
  validators do not check the declared types, and a string \<^verbatim>\<open>headers\<close> passes
  \<^verbatim>\<open>validate\<close> and makes the web tool raise), every declared default is the one
  \<^verbatim>\<open>execute\<close> uses, the binaries run under the declared
  \<^verbatim>\<open>max_execution_time\<close>, and a validated call never fails for a missing argument. The nmap
  line parser is equivalent to the meaning of its regular expression, and the log analysis's
  time range only matters when its unused cut-off overflows, which fails the analysis.

  \<^bold>\<open>Modelling choices.\<close> Time stamps (\<^verbatim>\<open>datetime.now()\<close>) are inputs of a process,
  one per process. The external check, \<^verbatim>\<open>json.loads\<close>, the model server, the tools'
  external programs and the lab tree are inputs; the tree may change between processes
  (\<open>edit_labs\<close>). The outcome of a binary a tool runs is a function of its command
  line and of the timeout it is given. The log analyzer's clock counts microseconds from \<^verbatim>\<open>datetime.min\<close>. JSON numbers
  are integers (floats are not modelled). A session file that
  does not decode to a session record is reported when loaded (\<open>MalformedSession\<close>); Python
  would raise at its first access to a missing key. Strings are ASCII where the code's
  behaviour depends on character classes (\<^verbatim>\<open>str.lower\<close>, \<^verbatim>\<open>\s\<close>, \<^verbatim>\<open>\d\<close>).
  No fuel or loop bound is needed: every loop of the modelled code runs over a finite list
  and is structural recursion, except the line splitter of the monitor, a \<open>function\<close>
  whose termination is proved by the length of the text.

  \<^bold>\<open>Not modelled.\<close> A crash is modelled only where it leaves a trace, between the
  truncating \<^verbatim>\<open>open\<close> and the write of \<^verbatim>\<open>save\<close> (\<open>cli_reachable\<close>); other
  crashes are a process that raised. Not modelled:
  \<^verbatim>\<open>cmd_dashboard\<close> (a fixed text) and the timing fields of the tools' results
  (\<^verbatim>\<open>scan_duration\<close>, \<^verbatim>\<open>metadata\<close>). The safety constraints are modelled as the
  tables the tools return; nothing in the repository reads or enforces them (the web tool
  passes the caller's timeout unchecked). \<^verbatim>\<open>agent_tools.base\<close> is not in the repository:
  its constructors are records and its interface is the dispatch of \<open>Recon_Tools\<close>.
  Printing, the formatting of the reports and the HTTP transport are presentation and I/O
  and stay out of the model.
\<close>

section \<open>End-to-end scenarios\<close>



end
